theory Spec2Isabelle
  imports Main "HOL-Library.AList"
begin

section \<open>Strings and JSON values\<close>

text \<open>
  \<open>strings.Trim(s, " ")\<close> removes the leading and the trailing spaces of \<open>s\<close>;
  \<open>strings.Split(s, " ")\<close> cuts \<open>s\<close> at every single space, so that the empty string yields one
  empty component and two consecutive spaces enclose an empty component.
\<close>

definition strings_Trim :: "string \<Rightarrow> char \<Rightarrow> string" where
  "strings_Trim s c = rev (dropWhile (\<lambda>x. x = c) (rev (dropWhile (\<lambda>x. x = c) s)))"

fun strings_Split :: "string \<Rightarrow> char \<Rightarrow> string list" where
  "strings_Split [] sep = [[]]"
| "strings_Split (x # xs) sep =
     (if x = sep then [] # strings_Split xs sep
      else (case strings_Split xs sep of
              [] \<Rightarrow> [[x]]
            | p # ps \<Rightarrow> (x # p) # ps))"

text \<open>
  A parsed JSON document. The members of an object are kept in the order of the text; the decoders
  below read documents whose member names are pairwise distinct.
\<close>

datatype json =
    JNull
  | JBool bool
  | JNumber int
  | JString string
  | JArray "json list"
  | JObject "(string \<times> json) list"

section \<open>The GNAP model entities (spi/gnap/models.go)\<close>

text \<open>\<open>jwk.JWK\<close> belongs to another module; a key is carried here as its serialised text.\<close>

type_synonym JWK = string

type_synonym AccessFlag = string

record TokenAccess =
  ta_IsReference :: bool
  ta_Ref :: string
  ta_Type :: string
  ta_Raw :: string

record TokenRequest =
  tr_Access :: "TokenAccess list"
  tr_Label :: string
  tr_Flags :: "AccessFlag list"

record ClientKey =
  ck_Proof :: string
  ck_JWK :: JWK

record RequestClient =
  rc_IsReference :: bool
  rc_Ref :: string
  rc_Key :: "ClientKey option"

record RequestFinish =
  rf_Method :: string
  rf_URI :: string
  rf_Nonce :: string

record RequestInteract =
  ri_Start :: "string list"
  ri_Finish :: RequestFinish

text \<open>A Go pointer is an \<open>option\<close>: \<open>None\<close> is \<open>nil\<close>.\<close>

record AuthRequest =
  AccessToken :: "TokenRequest option list"
  Client :: "RequestClient option"
  Interact :: "RequestInteract option"

record AccessToken =
  at_Value :: string
  at_Label :: string
  at_Manage :: string
  at_Access :: "TokenAccess list"
  at_Expires :: int
  at_Key :: string
  at_Flags :: "AccessFlag list"

record ResponseContinue =
  rcn_URI :: string
  rcn_AccessToken :: AccessToken
  rcn_Wait :: int

record ResponseInteract =
  rsi_Redirect :: string
  rsi_Finish :: string

record SubjectID =
  sid_ID :: string
  sid_Format :: string

record SubjectAssertion =
  sa_Value :: string
  sa_Format :: string

record Subject =
  SubIDs :: "SubjectID list"
  Assertions :: "SubjectAssertion list"

record AuthResponse =
  ar_Continue :: ResponseContinue
  ar_AccessToken :: "AccessToken list"
  ar_Interact :: ResponseInteract
  ar_InstanceID :: string
  ar_Subject :: Subject

record ContinueRequest =
  InteractRef :: string

record ErrorResponse =
  Error :: string
  Description :: string

record IntrospectRequest =
  iq_AccessToken :: string
  iq_Proof :: string
  iq_Access :: "TokenAccess list"
  iq_ResourceServer :: "RequestClient option"

record IntrospectResponse =
  ip_Active :: bool
  ip_Access :: "TokenAccess list"
  ip_Key :: "ClientKey option"
  ip_Flags :: "AccessFlag list"
  ip_SubjectData :: "(string \<times> string) list"


section \<open>encoding/json on the request types\<close>

text \<open>
  Decoding starts from the zero value of the target, as the handlers allocate a fresh struct for
  every request. \<open>null\<close> leaves the zero value; a JSON value of the wrong kind for the Go type
  is an error of \<open>json.Unmarshal\<close>. Member names match a field's tag up to ASCII case.
\<close>

definition to_lower :: "char \<Rightarrow> char" where
  "to_lower c =
     (case map_of (zip ''ABCDEFGHIJKLMNOPQRSTUVWXYZ'' ''abcdefghijklmnopqrstuvwxyz'') c of
        None \<Rightarrow> c
      | Some l \<Rightarrow> l)"

definition EqualFold :: "string \<Rightarrow> string \<Rightarrow> bool" where
  "EqualFold a b = (map to_lower a = map to_lower b)"

fun traverse :: "('a \<Rightarrow> string + 'b) \<Rightarrow> 'a list \<Rightarrow> string + 'b list" where
  "traverse f [] = Inr []"
| "traverse f (x # xs) =
     (case f x of
        Inl e \<Rightarrow> Inl e
      | Inr y \<Rightarrow> (case traverse f xs of Inl e \<Rightarrow> Inl e | Inr ys \<Rightarrow> Inr (y # ys)))"

definition dec_string :: "json \<Rightarrow> string + string" where
  "dec_string j =
     (case j of
        JString s \<Rightarrow> Inr s
      | JNull \<Rightarrow> Inr []
      | _ \<Rightarrow> Inl ''json: cannot unmarshal into Go value of type string'')"

text \<open>
  A slice field accepts a JSON array (element by element) and \<open>null\<close>; every other JSON value,
  a single object included, is an \<open>UnmarshalTypeError\<close>.
\<close>

definition dec_slice :: "(json \<Rightarrow> string + 'a) \<Rightarrow> json \<Rightarrow> string + 'a list" where
  "dec_slice elem j =
     (case j of
        JArray xs \<Rightarrow> traverse elem xs
      | JNull \<Rightarrow> Inr []
      | _ \<Rightarrow> Inl ''json: cannot unmarshal into Go value of slice type'')"

definition dec_ptr :: "(json \<Rightarrow> string + 'a) \<Rightarrow> json \<Rightarrow> string + 'a option" where
  "dec_ptr elem j =
     (case j of
        JNull \<Rightarrow> Inr None
      | _ \<Rightarrow> (case elem j of Inl e \<Rightarrow> Inl e | Inr v \<Rightarrow> Inr (Some v)))"

definition dec_field ::
  "(string \<times> json) list \<Rightarrow> string \<Rightarrow> (json \<Rightarrow> string + 'a) \<Rightarrow> 'a \<Rightarrow> string + 'a" where
  "dec_field ms tag dec zero =
     (case find (\<lambda>m. EqualFold (fst m) tag) ms of
        None \<Rightarrow> Inr zero
      | Some m \<Rightarrow> dec (snd m))"

text \<open>
  The codecs of the nested entities are parameters: \<open>TokenAccess\<close> and \<open>RequestClient\<close> carry
  \<open>IsReference\<close>/\<open>Ref\<close> fields that marshalers outside these sources fill.
\<close>

record codec =
  dec_TokenRequest :: "json \<Rightarrow> string + TokenRequest"
  dec_TokenAccess :: "json \<Rightarrow> string + TokenAccess"
  dec_RequestClient :: "json \<Rightarrow> string + RequestClient"
  dec_RequestInteract :: "json \<Rightarrow> string + RequestInteract"
  enc_TokenRequest :: "TokenRequest \<Rightarrow> json"
  enc_RequestClient :: "RequestClient \<Rightarrow> json"
  enc_RequestInteract :: "RequestInteract \<Rightarrow> json"

definition decode_AuthRequest :: "codec \<Rightarrow> json \<Rightarrow> string + AuthRequest" where
  "decode_AuthRequest cd j =
     (case j of
        JNull \<Rightarrow> Inr \<lparr>AccessToken = [], Client = None, Interact = None\<rparr>
      | JObject ms \<Rightarrow>
          (case dec_field ms ''access_token'' (dec_slice (dec_ptr (dec_TokenRequest cd))) [] of
             Inl e \<Rightarrow> Inl e
           | Inr toks \<Rightarrow>
          (case dec_field ms ''client'' (dec_ptr (dec_RequestClient cd)) None of
             Inl e \<Rightarrow> Inl e
           | Inr cl \<Rightarrow>
          (case dec_field ms ''interact'' (dec_ptr (dec_RequestInteract cd)) None of
             Inl e \<Rightarrow> Inl e
           | Inr ia \<Rightarrow> Inr \<lparr>AccessToken = toks, Client = cl, Interact = ia\<rparr>)))
      | _ \<Rightarrow> Inl ''json: cannot unmarshal into Go value of type gnap.AuthRequest'')"

definition decode_ContinueRequest :: "json \<Rightarrow> string + ContinueRequest" where
  "decode_ContinueRequest j =
     (case j of
        JNull \<Rightarrow> Inr \<lparr>InteractRef = []\<rparr>
      | JObject ms \<Rightarrow>
          (case dec_field ms ''interact_ref'' dec_string [] of
             Inl e \<Rightarrow> Inl e
           | Inr r \<Rightarrow> Inr \<lparr>InteractRef = r\<rparr>)
      | _ \<Rightarrow> Inl ''json: cannot unmarshal into Go value of type gnap.ContinueRequest'')"

definition decode_IntrospectRequest :: "codec \<Rightarrow> json \<Rightarrow> string + IntrospectRequest" where
  "decode_IntrospectRequest cd j =
     (case j of
        JNull \<Rightarrow> Inr \<lparr>iq_AccessToken = [], iq_Proof = [], iq_Access = [], iq_ResourceServer = None\<rparr>
      | JObject ms \<Rightarrow>
          (case dec_field ms ''access_token'' dec_string [] of
             Inl e \<Rightarrow> Inl e
           | Inr tok \<Rightarrow>
          (case dec_field ms ''proof'' dec_string [] of
             Inl e \<Rightarrow> Inl e
           | Inr pr \<Rightarrow>
          (case dec_field ms ''access'' (dec_slice (dec_TokenAccess cd)) [] of
             Inl e \<Rightarrow> Inl e
           | Inr acc \<Rightarrow>
          (case dec_field ms ''resource_server'' (dec_ptr (dec_RequestClient cd)) None of
             Inl e \<Rightarrow> Inl e
           | Inr rs \<Rightarrow>
               Inr \<lparr>iq_AccessToken = tok, iq_Proof = pr, iq_Access = acc,
                    iq_ResourceServer = rs\<rparr>))))
      | _ \<Rightarrow> Inl ''json: cannot unmarshal into Go value of type gnap.IntrospectRequest'')"

text \<open>
  Encoding an \<open>AuthRequest\<close>: every field is tagged \<open>omitempty\<close>, so an empty slice and a nil
  pointer leave no member; a nil element of the slice is written as \<open>null\<close>.
\<close>

definition encode_AuthRequest :: "codec \<Rightarrow> AuthRequest \<Rightarrow> json" where
  "encode_AuthRequest cd r =
     JObject
       ((if AccessToken r = [] then []
         else [(''access_token'',
                JArray (map (\<lambda>t. case t of None \<Rightarrow> JNull | Some x \<Rightarrow> enc_TokenRequest cd x)
                         (AccessToken r)))])
        @ (case Client r of None \<Rightarrow> [] | Some c \<Rightarrow> [(''client'', enc_RequestClient cd c)])
        @ (case Interact r of None \<Rightarrow> [] | Some i \<Rightarrow> [(''interact'', enc_RequestInteract cd i)]))"

section \<open>HTTP requests and responses\<close>

text \<open>
  A request as the handlers see it. \<open>Body\<close> is what \<open>ioutil.ReadAll(req.Body)\<close> returns: the
  bytes, or a read error. Header names are canonical, as \<open>net/http\<close> stores them.
\<close>

record Request =
  Method :: string
  Path :: string
  Query :: "(string \<times> string list) list"
  Header :: "(string \<times> string list) list"
  Body :: "string + string"

definition Values_Get :: "(string \<times> string list) list \<Rightarrow> string \<Rightarrow> string" where
  "Values_Get vs k = (case map_of vs k of Some (v # _) \<Rightarrow> v | _ \<Rightarrow> [])"

record authProvider =
  ap_ID :: string
  ap_Name :: string
  ap_SignUpIconURL :: string
  ap_SignInIconURL :: string
  ap_Order :: int

text \<open>
  What a handler writes: a value handed to \<open>json.NewEncoder(rw).Encode\<close>, raw bytes, or the
  short HTML note of \<open>http.Redirect\<close>.
\<close>

datatype payload =
    PError ErrorResponse
  | PAuth AuthResponse
  | PIntrospect IntrospectResponse
  | PProviders "authProvider list"

datatype chunk = Encoded payload | Bytes string | RedirectNote string

text \<open>
  The response writer: the first \<open>WriteHeader\<close> fixes the status, a \<open>Write\<close> before any
  \<open>WriteHeader\<close> fixes it to 200. \<open>rw_Header\<close> is the header map as the handler leaves it
  (what it sets after the status is written no longer reaches the client).
\<close>

record ResponseWriter =
  rw_Header :: "(string \<times> string) list"
  wroteHeader :: bool
  StatusCode :: nat
  rw_Body :: "chunk list"

definition newResponseWriter :: ResponseWriter where
  "newResponseWriter = \<lparr>rw_Header = [], wroteHeader = False, StatusCode = 0, rw_Body = []\<rparr>"

definition WriteHeader :: "nat \<Rightarrow> ResponseWriter \<Rightarrow> ResponseWriter" where
  "WriteHeader code w = (if wroteHeader w then w else w\<lparr>wroteHeader := True, StatusCode := code\<rparr>)"

definition Write :: "chunk \<Rightarrow> ResponseWriter \<Rightarrow> ResponseWriter" where
  "Write c w = (let w' = WriteHeader 200 w in w'\<lparr>rw_Body := rw_Body w' @ [c]\<rparr>)"

definition Header_Set :: "string \<Rightarrow> string \<Rightarrow> ResponseWriter \<Rightarrow> ResponseWriter" where
  "Header_Set k v w = w\<lparr>rw_Header := AList.update k v (rw_Header w)\<rparr>"

text \<open>
  \<open>http.Redirect\<close>, for the absolute URLs the handlers pass: it sets \<open>Location\<close>, writes the
  status and, for a GET request whose handler has set no content type, adds the HTML note.
\<close>

definition http_Redirect ::
  "ResponseWriter \<Rightarrow> Request \<Rightarrow> string \<Rightarrow> nat \<Rightarrow> ResponseWriter" where
  "http_Redirect w r url code =
     (let hadCT = (map_of (rw_Header w) ''Content-Type'' \<noteq> None);
          w1 = Header_Set ''Location'' url w;
          w2 = (if \<not> hadCT \<and> (Method r = ''GET'' \<or> Method r = ''HEAD'')
                then Header_Set ''Content-Type'' ''text/html; charset=utf-8'' w1 else w1);
          w3 = WriteHeader code w2
      in if \<not> hadCT \<and> Method r = ''GET'' then Write (RedirectNote url) w3 else w3)"

definition StatusFound :: nat where "StatusFound = 302"
definition StatusBadRequest :: nat where "StatusBadRequest = 400"
definition StatusUnauthorized :: nat where "StatusUnauthorized = 401"
definition StatusForbidden :: nat where "StatusForbidden = 403"
definition StatusInternalServerError :: nat where "StatusInternalServerError = 500"
definition StatusBadGateway :: nat where "StatusBadGateway = 502"

definition errInvalidRequest :: string where "errInvalidRequest = ''invalid_request''"
definition errRequestDenied :: string where "errRequestDenied = ''request_denied''"
definition providerQueryParam :: string where "providerQueryParam = ''provider''"
definition txnQueryParam :: string where "txnQueryParam = ''txnID''"
definition interactRefQueryParam :: string where "interactRefQueryParam = ''interact_ref''"
definition responseHashQueryParam :: string where "responseHashQueryParam = ''hash''"


section \<open>Collaborators of the handlers\<close>

text \<open>
  A proof verifier is either the HTTP-signature verifier built over a request or the bypass
  verifier \<open>skipVerify\<close>.
\<close>

datatype verifier = httpsig_NewVerifier Request | skipVerify

definition skipVerify_Verify :: "ClientKey option \<Rightarrow> string option" where
  "skipVerify_Verify k = None"

text \<open>What a run does besides answering: calls into its collaborators, in order.\<close>

datatype event =
    CallHandleAccessRequest AuthRequest verifier string
  | CallHandleContinueRequest ContinueRequest string verifier
  | CallHandleIntrospection IntrospectRequest verifier
  | CallCompleteInteraction string "(string \<times> string) list"
  | StoreGet string
  | StorePut string string
  | RLock
  | RUnlock
  | Lock
  | Unlock
  | CacheRead string
  | CacheWrite string
  | NewProvider string
  | Notify string nat
  | Sleep nat

record ProviderConfig =
  pc_URL :: string
  pc_ClientID :: string
  pc_ClientSecret :: string
  pc_Scopes :: "string list"
  pc_SkipIssuerCheck :: bool

record 'idp oidcProviderImpl =
  name :: string
  clientID :: string
  clientSecret :: string
  callback :: string
  skipIssuerCheck :: bool
  op :: 'idp

record URL =
  u_Base :: string
  RawQuery :: string

text \<open>
  The collaborators outside these sources, as functions: the auth handler and the interaction
  handler over their state \<open>'h\<close>, the transient store over its state \<open>'s\<close>, the JSON parser and
  printer, \<open>fmt.Sprintf\<close>, the value \<open>uuid.New().String()\<close> returns in this run, the outcome of the
  \<open>k\<close>-th call of \<open>oidc.NewProvider\<close>, the OAuth2 and OIDC operations of a provider, URL parsing
  and the HTML template.
\<close>

record ('h, 'idp, 's) env =
  HandleAccessRequest ::
    "'h \<Rightarrow> AuthRequest \<Rightarrow> verifier \<Rightarrow> string \<Rightarrow> (string + AuthResponse) \<times> 'h"
  HandleContinueRequest ::
    "'h \<Rightarrow> ContinueRequest \<Rightarrow> string \<Rightarrow> verifier \<Rightarrow> (string + AuthResponse) \<times> 'h"
  HandleIntrospection ::
    "'h \<Rightarrow> IntrospectRequest \<Rightarrow> verifier \<Rightarrow> (string + IntrospectResponse) \<times> 'h"
  CompleteInteraction ::
    "'h \<Rightarrow> string \<Rightarrow> (string \<times> string) list
       \<Rightarrow> (string + (string \<times> string \<times> RequestInteract)) \<times> 'h"
  json_parse :: "string \<Rightarrow> json option"
  json_print :: "json \<Rightarrow> string"
  codecs :: codec
  Sprintf :: "string \<Rightarrow> string list \<Rightarrow> string"
  store_Get :: "'s \<Rightarrow> string \<Rightarrow> string + string"
  store_Put :: "'s \<Rightarrow> string \<Rightarrow> string \<Rightarrow> string + 's"
  uuid_New :: string
  oidc_NewProvider :: "nat \<Rightarrow> string \<Rightarrow> bool \<Rightarrow> string + 'idp"
  AuthCodeURL ::
    "'idp oidcProviderImpl \<Rightarrow> string list \<Rightarrow> string \<Rightarrow> (string \<times> string) list \<Rightarrow> string"
  Exchange :: "'idp oidcProviderImpl \<Rightarrow> string \<Rightarrow> string + (string \<times> json) list"
  provider_Verify :: "'idp oidcProviderImpl \<Rightarrow> string \<Rightarrow> string + string"
  IDToken_Claims :: "string \<Rightarrow> string + string"
  url_Parse :: "string \<Rightarrow> string + URL"
  url_ParseQuery :: "string \<Rightarrow> (string \<times> string list) list"
  Values_Encode :: "(string \<times> string list) list \<Rightarrow> string"
  URL_String :: "URL \<Rightarrow> string"
  template_ParseFiles :: "string \<Rightarrow> string + string"
  template_Execute :: "string \<Rightarrow> string \<Rightarrow> string"

definition Values_Add ::
  "string \<Rightarrow> string \<Rightarrow> (string \<times> string list) list \<Rightarrow> (string \<times> string list) list" where
  "Values_Add k v vs =
     AList.update k ((case map_of vs k of None \<Rightarrow> [] | Some old \<Rightarrow> old) @ [v]) vs"

definition json_Unmarshal ::
  "('h, 'idp, 's) env \<Rightarrow> (json \<Rightarrow> string + 'a) \<Rightarrow> string \<Rightarrow> string + 'a" where
  "json_Unmarshal e dec bytes =
     (case json_parse e bytes of
        None \<Rightarrow> Inl ''invalid character''
      | Some j \<Rightarrow> dec j)"

section \<open>The operation (pkg/restapi/gnap/operations.go)\<close>

text \<open>
  The fields of \<open>Operation\<close>. \<open>authHandler\<close> is the state of the auth handler and of the
  interaction handler, which work on the same stores; the two Go maps are association lists.
\<close>

record ('h, 'idp, 's) Operation =
  authHandler :: 'h
  uiEndpoint :: string
  closePopupHTML :: string
  authProviders :: "authProvider list"
  oidcProvidersConfig :: "(string \<times> ProviderConfig) list"
  cachedOIDCProviders :: "(string \<times> 'idp oidcProviderImpl) list"
  callbackURL :: string
  timeout :: nat
  transientStore :: 's

type_synonym ('h, 'idp, 's) outcome =
  "ResponseWriter \<times> ('h, 'idp, 's) Operation \<times> event list"

definition writeResponse :: "ResponseWriter \<Rightarrow> payload \<Rightarrow> ResponseWriter" where
  "writeResponse rw v = Write (Encoded v) (Header_Set ''Content-Type'' ''application/json'' rw)"

definition writeErrorResponse ::
  "('h, 'idp, 's) env \<Rightarrow> ResponseWriter \<Rightarrow> nat \<Rightarrow> string \<Rightarrow> string list \<Rightarrow> ResponseWriter" where
  "writeErrorResponse e rw status msg args =
     Write (Bytes (Sprintf e msg args)) (WriteHeader status rw)"

definition deny :: "ResponseWriter \<Rightarrow> nat \<Rightarrow> string \<Rightarrow> ResponseWriter" where
  "deny w status code =
     writeResponse (WriteHeader status w) (PError \<lparr>Error = code, Description = []\<rparr>)"

definition authRequestHandler ::
  "('h, 'idp, 's) env \<Rightarrow> ('h, 'idp, 's) Operation \<Rightarrow> ResponseWriter \<Rightarrow> Request
     \<Rightarrow> ('h, 'idp, 's) outcome" where
  "authRequestHandler e opn w req =
     (case Body req of
        Inl err \<Rightarrow> (deny w StatusInternalServerError errRequestDenied, opn, [])
      | Inr bodyBytes \<Rightarrow>
          (case json_Unmarshal e (decode_AuthRequest (codecs e)) bodyBytes of
             Inl err \<Rightarrow> (deny w StatusBadRequest errInvalidRequest, opn, [])
           | Inr authRequest \<Rightarrow>
               (let v = httpsig_NewVerifier (req\<lparr>Body := Inr bodyBytes\<rparr>) in
                case HandleAccessRequest e (authHandler opn) authRequest v [] of
                  (Inl err, h) \<Rightarrow>
                    (deny w StatusUnauthorized errRequestDenied, opn\<lparr>authHandler := h\<rparr>,
                     [CallHandleAccessRequest authRequest v []])
                | (Inr resp, h) \<Rightarrow>
                    (writeResponse w (PAuth resp), opn\<lparr>authHandler := h\<rparr>,
                     [CallHandleAccessRequest authRequest v []]))))"

definition authContinueHandler ::
  "('h, 'idp, 's) env \<Rightarrow> ('h, 'idp, 's) Operation \<Rightarrow> ResponseWriter \<Rightarrow> Request
     \<Rightarrow> ('h, 'idp, 's) outcome" where
  "authContinueHandler e opn w req =
     (let tokHeader =
            strings_Split (strings_Trim (Values_Get (Header req) ''Authorization'') CHR '' '')
              CHR '' ''
      in if length tokHeader < 2 \<or> tokHeader ! 0 \<noteq> ''GNAP''
         then (deny w StatusUnauthorized errRequestDenied, opn, [])
         else
           (let token = tokHeader ! 1 in
            case Body req of
              Inl err \<Rightarrow> (deny w StatusInternalServerError errRequestDenied, opn, [])
            | Inr bodyBytes \<Rightarrow>
                (case json_Unmarshal e decode_ContinueRequest bodyBytes of
                   Inl err \<Rightarrow> (deny w StatusBadRequest errInvalidRequest, opn, [])
                 | Inr continueRequest \<Rightarrow>
                     (let v = httpsig_NewVerifier (req\<lparr>Body := Inr bodyBytes\<rparr>) in
                      case HandleContinueRequest e (authHandler opn) continueRequest token v of
                        (Inl err, h) \<Rightarrow>
                          (deny w StatusUnauthorized errRequestDenied, opn\<lparr>authHandler := h\<rparr>,
                           [CallHandleContinueRequest continueRequest token v])
                      | (Inr resp, h) \<Rightarrow>
                          (writeResponse w (PAuth resp), opn\<lparr>authHandler := h\<rparr>,
                           [CallHandleContinueRequest continueRequest token v])))))"

text \<open>
  \<open>InternalIntrospectHandler\<close> returns the function the auth server's own handlers call from Go;
  it is no HTTP handler and takes no request.
\<close>

definition InternalIntrospectHandler ::
  "('h, 'idp, 's) env \<Rightarrow> ('h, 'idp, 's) Operation \<Rightarrow> IntrospectRequest
     \<Rightarrow> (string + IntrospectResponse) \<times> ('h, 'idp, 's) Operation \<times> event list" where
  "InternalIntrospectHandler e opn req =
     (case HandleIntrospection e (authHandler opn) req skipVerify of
        (r, h) \<Rightarrow> (r, opn\<lparr>authHandler := h\<rparr>, [CallHandleIntrospection req skipVerify]))"

definition introspectHandler ::
  "('h, 'idp, 's) env \<Rightarrow> ('h, 'idp, 's) Operation \<Rightarrow> ResponseWriter \<Rightarrow> Request
     \<Rightarrow> ('h, 'idp, 's) outcome" where
  "introspectHandler e opn w req =
     (case Body req of
        Inl err \<Rightarrow> (deny w StatusInternalServerError errRequestDenied, opn, [])
      | Inr bodyBytes \<Rightarrow>
          (case json_Unmarshal e (decode_IntrospectRequest (codecs e)) bodyBytes of
             Inl err \<Rightarrow> (deny w StatusBadRequest errInvalidRequest, opn, [])
           | Inr introspectRequest \<Rightarrow>
               (let v = httpsig_NewVerifier (req\<lparr>Body := Inr bodyBytes\<rparr>) in
                case HandleIntrospection e (authHandler opn) introspectRequest v of
                  (Inl err, h) \<Rightarrow>
                    (deny w StatusUnauthorized errRequestDenied, opn\<lparr>authHandler := h\<rparr>,
                     [CallHandleIntrospection introspectRequest v])
                | (Inr resp, h) \<Rightarrow>
                    (writeResponse w (PIntrospect resp), opn\<lparr>authHandler := h\<rparr>,
                     [CallHandleIntrospection introspectRequest v]))))"

definition interactHandler ::
  "('h, 'idp, 's) env \<Rightarrow> ('h, 'idp, 's) Operation \<Rightarrow> ResponseWriter \<Rightarrow> Request
     \<Rightarrow> ('h, 'idp, 's) outcome" where
  "interactHandler e opn w req =
     (let txnID = Values_Get (Query req) txnQueryParam in
      case url_Parse e (uiEndpoint opn @ ''/sign-up'') of
        Inl err \<Rightarrow>
          (writeErrorResponse e w StatusInternalServerError ''failed to construct redirect url'' [],
           opn, [])
      | Inr redirURL \<Rightarrow>
          (let q = Values_Add txnQueryParam txnID (url_ParseQuery e (RawQuery redirURL))
           in (http_Redirect w req (URL_String e (redirURL\<lparr>RawQuery := Values_Encode e q\<rparr>))
                 StatusFound,
               opn, [])))"

definition authProvidersHandler ::
  "('h, 'idp, 's) env \<Rightarrow> ('h, 'idp, 's) Operation \<Rightarrow> ResponseWriter \<Rightarrow> Request
     \<Rightarrow> ('h, 'idp, 's) outcome" where
  "authProvidersHandler e opn w req = (writeResponse w (PProviders (authProviders opn)), opn, [])"

subsection \<open>The provider cache and its initialisation\<close>

text \<open>
  \<open>backoff.WithMaxRetries(backoff.NewConstantBackOff(d), max)\<close>: the constant back-off always
  answers \<open>d\<close>; the wrapper counts the answers it has passed on and answers \<open>Stop\<close> (\<open>None\<close>) once
  a positive \<open>max\<close> is reached. A limit of 0 is no limit (the package imported under the
  unversioned path \<open>github.com/cenkalti/backoff\<close>).
\<close>

record backOffTries =
  delegate :: nat
  maxTries :: nat
  numTries :: nat

definition time_Second :: nat where
  "time_Second = 1000000000"

definition WithMaxRetries :: "nat \<Rightarrow> nat \<Rightarrow> backOffTries" where
  "WithMaxRetries d m = \<lparr>delegate = d, maxTries = m, numTries = 0\<rparr>"

definition NextBackOff :: "backOffTries \<Rightarrow> nat option \<times> backOffTries" where
  "NextBackOff b =
     (if maxTries b > 0
      then (if maxTries b \<le> numTries b then (None, b)
            else (Some (delegate b), b\<lparr>numTries := numTries b + 1\<rparr>))
      else (Some (delegate b), b))"

text \<open>
  The loop of \<open>backoff.RetryNotify\<close>: run the operation; on an error ask the back-off, stop with
  the error when it answers \<open>Stop\<close>, else notify, sleep and run again. \<open>k\<close> counts the runs of the
  operation so far. The loop need not end: its result is \<open>None\<close> then.
\<close>

partial_function (option) retry_loop ::
  "(nat \<Rightarrow> (string + 'a) \<times> event list) \<Rightarrow> backOffTries \<Rightarrow> nat \<Rightarrow> event list
     \<Rightarrow> ((string + 'a) \<times> event list) option" where
  "retry_loop operation b k tr =
     (case operation k of
        (Inr v, ev) \<Rightarrow> Some (Inr v, tr @ ev)
      | (Inl err, ev) \<Rightarrow>
          (case NextBackOff b of
             (None, b') \<Rightarrow> Some (Inl err, tr @ ev)
           | (Some next, b') \<Rightarrow>
               retry_loop operation b' (Suc k) (tr @ ev @ [Notify err next, Sleep next])))"

declare retry_loop.simps [code]

definition RetryNotify ::
  "(nat \<Rightarrow> (string + 'a) \<times> event list) \<Rightarrow> backOffTries
     \<Rightarrow> ((string + 'a) \<times> event list) option" where
  "RetryNotify operation b = retry_loop operation (b\<lparr>numTries := 0\<rparr>) 0 []"

definition initOIDCProvider ::
  "('h, 'idp, 's) env \<Rightarrow> ('h, 'idp, 's) Operation \<Rightarrow> string \<Rightarrow> ProviderConfig
     \<Rightarrow> ((string + 'idp oidcProviderImpl) \<times> event list) option" where
  "initOIDCProvider e opn providerID config =
     (case RetryNotify
             (\<lambda>k. (oidc_NewProvider e k (pc_URL config) (pc_SkipIssuerCheck config),
                    [NewProvider (pc_URL config)]))
             (WithMaxRetries time_Second (timeout opn)) of
        None \<Rightarrow> None
      | Some (Inl err, tr) \<Rightarrow>
          Some (Inl (Sprintf e ''failed to init oidc provider [%s] with url [%s]: %w''
                       [providerID, pc_URL config, err]), tr)
      | Some (Inr idp, tr) \<Rightarrow>
          Some (Inr \<lparr>name = providerID, clientID = pc_ClientID config,
                     clientSecret = pc_ClientSecret config, callback = callbackURL opn,
                     skipIssuerCheck = pc_SkipIssuerCheck config, op = idp\<rparr>, tr))"

definition getProvider ::
  "('h, 'idp, 's) env \<Rightarrow> ('h, 'idp, 's) Operation \<Rightarrow> string
     \<Rightarrow> ((string + 'idp oidcProviderImpl) \<times> ('h, 'idp, 's) Operation \<times> event list) option" where
  "getProvider e opn providerID =
     (case map_of (cachedOIDCProviders opn) providerID of
        Some prov \<Rightarrow> Some (Inr prov, opn, [RLock, CacheRead providerID, RUnlock])
      | None \<Rightarrow>
          (case map_of (oidcProvidersConfig opn) providerID of
             None \<Rightarrow>
               Some (Inl (Sprintf e ''provider not supported: %s'' [providerID]), opn,
                     [RLock, CacheRead providerID, RUnlock])
           | Some provider \<Rightarrow>
               (case initOIDCProvider e opn providerID provider of
                  None \<Rightarrow> None
                | Some (Inl err, tr) \<Rightarrow>
                    Some (Inl (Sprintf e ''failed to init oidc provider: %w'' [err]), opn,
                          [RLock, CacheRead providerID, RUnlock] @ tr)
                | Some (Inr prov, tr) \<Rightarrow>
                    Some (Inr prov,
                          opn\<lparr>cachedOIDCProviders :=
                                 AList.update providerID prov (cachedOIDCProviders opn)\<rparr>,
                          [RLock, CacheRead providerID, RUnlock] @ tr
                            @ [Lock, CacheWrite providerID, Unlock]))))"

subsection \<open>The OIDC login and callback\<close>

record oidcTransientData =
  Provider :: string
  TxnID :: string

definition encode_oidcTransientData :: "oidcTransientData \<Rightarrow> json" where
  "encode_oidcTransientData d =
     JObject ((if Provider d = [] then [] else [(''provider'', JString (Provider d))])
              @ (if TxnID d = [] then [] else [(''txnID'', JString (TxnID d))]))"

definition decode_oidcTransientData :: "json \<Rightarrow> string + oidcTransientData" where
  "decode_oidcTransientData j =
     (case j of
        JNull \<Rightarrow> Inr \<lparr>Provider = [], TxnID = []\<rparr>
      | JObject ms \<Rightarrow>
          (case dec_field ms ''provider'' dec_string [] of
             Inl err \<Rightarrow> Inl err
           | Inr p \<Rightarrow>
               (case dec_field ms ''txnID'' dec_string [] of
                  Inl err \<Rightarrow> Inl err
                | Inr t \<Rightarrow> Inr \<lparr>Provider = p, TxnID = t\<rparr>))
      | _ \<Rightarrow> Inl ''json: cannot unmarshal into Go value of type gnap.oidcTransientData'')"

definition login_scopes :: "ProviderConfig \<Rightarrow> string list" where
  "login_scopes provConfig =
     (if length (pc_Scopes provConfig) \<noteq> 0 then [''openid''] @ pc_Scopes provConfig
      else [''openid''] @ [''profile'', ''email''])"

text \<open>
  \<open>json.Marshal\<close> of the two strings of an \<open>oidcTransientData\<close> cannot fail, so that branch of the
  source has no counterpart. A handler that waits for \<open>getProvider\<close> for ever has no outcome.
\<close>

definition oidcLoginHandler ::
  "('h, 'idp, 's) env \<Rightarrow> ('h, 'idp, 's) Operation \<Rightarrow> ResponseWriter \<Rightarrow> Request
     \<Rightarrow> ('h, 'idp, 's) outcome option" where
  "oidcLoginHandler e opn w r =
     (let providerID = Values_Get (Query r) providerQueryParam in
      if providerID = [] then
        Some (writeErrorResponse e w StatusBadRequest ''missing provider'' [], opn, [])
      else
       (let interactTxnID = Values_Get (Query r) txnQueryParam in
        if interactTxnID = [] then
          Some (writeErrorResponse e w StatusBadRequest ''missing transaction ID'' [], opn, [])
        else
         (case getProvider e opn providerID of
            None \<Rightarrow> None
          | Some (Inl err, opn', tr) \<Rightarrow>
              Some (writeErrorResponse e w StatusBadRequest ''get provider: %s'' [err], opn', tr)
          | Some (Inr provider, opn', tr) \<Rightarrow>
              (case map_of (oidcProvidersConfig opn') providerID of
                 None \<Rightarrow>
                   Some (writeErrorResponse e w StatusInternalServerError
                           ''provider not supported: %s'' [providerID], opn', tr)
               | Some provConfig \<Rightarrow>
                   (let scopes = login_scopes provConfig;
                        state = uuid_New e;
                        dataBytes =
                          json_print e
                            (encode_oidcTransientData
                               \<lparr>Provider = providerID, TxnID = interactTxnID\<rparr>)
                    in case store_Put e (transientStore opn') state dataBytes of
                         Inl err \<Rightarrow>
                           Some (writeErrorResponse e w StatusInternalServerError
                                   (Sprintf e
                                      ''failed to write state data to transient store: %s'' [err])
                                   [],
                                 opn', tr @ [StorePut state dataBytes])
                       | Inr st \<Rightarrow>
                           Some (http_Redirect w r
                                   (AuthCodeURL e provider scopes state
                                      [(''access_type'', ''online''),
                                       (providerQueryParam, providerID)])
                                   StatusFound,
                                 opn'\<lparr>transientStore := st\<rparr>,
                                 tr @ [StorePut state dataBytes]))))))"

definition oidcCallbackHandler ::
  "('h, 'idp, 's) env \<Rightarrow> ('h, 'idp, 's) Operation \<Rightarrow> ResponseWriter \<Rightarrow> Request
     \<Rightarrow> ('h, 'idp, 's) outcome option" where
  "oidcCallbackHandler e opn w r =
     (let state = Values_Get (Query r) ''state'' in
      if state = [] then
        Some (writeErrorResponse e w StatusBadRequest ''missing state'' [], opn, [])
      else
       (let code = Values_Get (Query r) ''code'' in
        if code = [] then
          Some (writeErrorResponse e w StatusBadRequest ''missing code'' [], opn, [])
        else
         (case store_Get e (transientStore opn) state of
            Inl err \<Rightarrow>
              Some (writeErrorResponse e w StatusBadRequest
                      (Sprintf e ''failed to get state data to transient store: %s'' [err]) [],
                    opn, [StoreGet state])
          | Inr dataBytes \<Rightarrow>
          (case json_Unmarshal e decode_oidcTransientData dataBytes of
            Inl err \<Rightarrow>
              Some (writeErrorResponse e w StatusInternalServerError
                      (Sprintf e ''failed to parse oidc txn data : %s'' [err]) [],
                    opn, [StoreGet state])
          | Inr data \<Rightarrow>
          (case getProvider e opn (Provider data) of
            None \<Rightarrow> None
          | Some (Inl err, opn', tr) \<Rightarrow>
              Some (writeErrorResponse e w StatusBadRequest ''get provider : %s'' [err],
                    opn', StoreGet state # tr)
          | Some (Inr provider, opn', tr) \<Rightarrow>
          (case Exchange e provider code of
            Inl err \<Rightarrow>
              Some (writeErrorResponse e w StatusBadGateway
                      (Sprintf e ''failed to exchange oauth2 code for token : %s'' [err]) [],
                    opn', StoreGet state # tr)
          | Inr oauthToken \<Rightarrow>
          (case map_of oauthToken ''id_token'' of
            Some (JString rawIDToken) \<Rightarrow>
              (case provider_Verify e provider rawIDToken of
                Inl err \<Rightarrow>
                  Some (writeErrorResponse e w StatusForbidden
                          (Sprintf e ''failed to verify id_token : %s'' [err]) [],
                        opn', StoreGet state # tr)
              | Inr oidcToken \<Rightarrow>
              (case IDToken_Claims e oidcToken of
                Inl err \<Rightarrow>
                  Some (writeErrorResponse e w StatusInternalServerError
                          (Sprintf e ''failed to extract claims from id_token : %s'' [err]) [],
                        opn', StoreGet state # tr)
              | Inr sub \<Rightarrow>
              (case CompleteInteraction e (authHandler opn') (TxnID data) [(''sub'', sub)] of
                (Inl err, h) \<Rightarrow>
                  Some (writeErrorResponse e w StatusInternalServerError
                          (Sprintf e ''failed to complete GNAP interaction : %s'' [err]) [],
                        opn'\<lparr>authHandler := h\<rparr>,
                        StoreGet state # tr
                          @ [CallCompleteInteraction (TxnID data) [(''sub'', sub)]])
              | (Inr (interactRef, responseHash, clientInteract), h) \<Rightarrow>
              (case url_Parse e (rf_URI (ri_Finish clientInteract)) of
                Inl err \<Rightarrow>
                  Some (writeErrorResponse e w StatusBadRequest
                          ''client provided invalid redirect URI : %s'' [err],
                        opn'\<lparr>authHandler := h\<rparr>,
                        StoreGet state # tr
                          @ [CallCompleteInteraction (TxnID data) [(''sub'', sub)]])
              | Inr clientURI \<Rightarrow>
                 (let q = Values_Add responseHashQueryParam responseHash
                            (Values_Add interactRefQueryParam interactRef
                               (url_ParseQuery e (RawQuery clientURI)));
                      redirect = URL_String e (clientURI\<lparr>RawQuery := Values_Encode e q\<rparr>)
                  in case template_ParseFiles e (closePopupHTML opn') of
                       Inl err \<Rightarrow>
                         Some (writeErrorResponse e w StatusInternalServerError
                                 ''failed to parse template : %s'' [err],
                               opn'\<lparr>authHandler := h\<rparr>,
                               StoreGet state # tr
                                 @ [CallCompleteInteraction (TxnID data) [(''sub'', sub)]])
                     | Inr t \<Rightarrow>
                         Some (Write (Bytes (template_Execute e t redirect)) w,
                               opn'\<lparr>authHandler := h\<rparr>,
                               StoreGet state # tr
                                 @ [CallCompleteInteraction (TxnID data) [(''sub'', sub)]]))))))
          | _ \<Rightarrow>
              Some (writeErrorResponse e w StatusBadGateway ''missing id_token'' [],
                    opn', StoreGet state # tr))))))))"


text \<open>
  Components written one after the other with a single space between two neighbours
  (\<open>strings.Join(ps, " ")\<close>): the reading of a header as space-separated components.
\<close>

fun strings_Join :: "string list \<Rightarrow> char \<Rightarrow> string" where
  "strings_Join [] sep = []"
| "strings_Join [p] sep = p"
| "strings_Join (p # q # ps) sep = p @ sep # strings_Join (q # ps) sep"

text \<open>The components of the \<open>Authorization\<close> header, as \<open>authContinueHandler\<close> computes them.\<close>

definition tokHeader :: "Request \<Rightarrow> string list" where
  "tokHeader req =
     strings_Split (strings_Trim (Values_Get (Header req) ''Authorization'') CHR '' '') CHR '' ''"

section \<open>A sample deployment for the evaluated runs\<close>

text \<open>
  \<open>fmt.Sprintf\<close> on string operands, for formats whose verbs carry no flags, width or precision:
  \<open>%s\<close>, \<open>%v\<close> and \<open>%w\<close> print the operand, \<open>%%\<close> prints a percent sign, a verb without operand
  prints \<open>%!v(MISSING)\<close>.
\<close>

fun fmt_Sprintf :: "string \<Rightarrow> string list \<Rightarrow> string" where
  "fmt_Sprintf [] args = []"
| "fmt_Sprintf [c] args = (if c = CHR ''%'' then ''%!(NOVERB)'' else [c])"
| "fmt_Sprintf (c # v # rest) args =
     (if c \<noteq> CHR ''%'' then c # fmt_Sprintf (v # rest) args
      else if v = CHR ''%'' then CHR ''%'' # fmt_Sprintf rest args
      else (case args of
              [] \<Rightarrow> ''%!'' @ [v] @ ''(MISSING)'' @ fmt_Sprintf rest []
            | a # as \<Rightarrow>
                (if v \<in> set ''svw'' then a @ fmt_Sprintf rest as
                 else ''%!'' @ [v] @ ''(string='' @ a @ '')'' @ fmt_Sprintf rest as)))"

text \<open>An in-memory store: a missing key is the error \<open>data not found\<close>.\<close>

definition mem_Get :: "(string \<times> string) list \<Rightarrow> string \<Rightarrow> string + string" where
  "mem_Get s k = (case map_of s k of None \<Rightarrow> Inl ''data not found'' | Some v \<Rightarrow> Inr v)"

definition mem_Put ::
  "(string \<times> string) list \<Rightarrow> string \<Rightarrow> string \<Rightarrow> string + (string \<times> string) list" where
  "mem_Put s k v = (if k = [] then Inl ''key is mandatory'' else Inr (AList.update k v s))"

definition demo_codec :: codec where
  "demo_codec =
     \<lparr>dec_TokenRequest =
        (\<lambda>j. case j of
                JObject ms \<Rightarrow> Inr \<lparr>tr_Access = [], tr_Label = [], tr_Flags = []\<rparr>
              | _ \<Rightarrow> Inl ''json: cannot unmarshal into Go value of type gnap.TokenRequest''),
      dec_TokenAccess = (\<lambda>j. Inl ''unsupported''),
      dec_RequestClient = (\<lambda>j. Inl ''unsupported''),
      dec_RequestInteract = (\<lambda>j. Inl ''unsupported''),
      enc_TokenRequest = (\<lambda>t. JObject [(''access'', JArray [])]),
      enc_RequestClient = (\<lambda>c. JNull),
      enc_RequestInteract = (\<lambda>i. JNull)\<rparr>"

definition demo_AuthResponse :: AuthResponse where
  "demo_AuthResponse =
     \<lparr>ar_Continue =
        \<lparr>rcn_URI = [],
         rcn_AccessToken = \<lparr>at_Value = [], at_Label = [], at_Manage = [], at_Access = [],
                            at_Expires = 0, at_Key = [], at_Flags = []\<rparr>,
         rcn_Wait = 0\<rparr>,
      ar_AccessToken = [],
      ar_Interact = \<lparr>rsi_Redirect = [], rsi_Finish = []\<rparr>,
      ar_InstanceID = ''as-1'',
      ar_Subject = \<lparr>SubIDs = [], Assertions = []\<rparr>\<rparr>"

definition demo_blob :: json where
  "demo_blob = JObject [(''provider'', JString ''idp1''), (''txnID'', JString ''txn1'')]"

text \<open>
  The auth handler of the sample counts the continuations it has granted and accepts the token
  \<open>tok1\<close> once; every upstream call of the provider \<open>https://down\<close> fails, the provider
  \<open>https://flaky\<close> answers from the third call on.
\<close>

definition demo_env :: "(nat, string, (string \<times> string) list) env" where
  "demo_env =
     \<lparr>HandleAccessRequest =
        (\<lambda>h a v t. if AccessToken a = [] then (Inl ''no access requested'', h)
                    else (Inr demo_AuthResponse, h)),
      HandleContinueRequest =
        (\<lambda>h c t v. if t = ''tok1'' \<and> h = 0 then (Inr demo_AuthResponse, Suc h)
                    else (Inl ''unknown continuation token'', h)),
      HandleIntrospection =
        (\<lambda>h r v. if iq_AccessToken r = [] then (Inl ''missing token'', h)
                  else (Inr \<lparr>ip_Active = False, ip_Access = [], ip_Key = None, ip_Flags = [],
                             ip_SubjectData = []\<rparr>, h)),
      CompleteInteraction =
        (\<lambda>h txn consent.
           if txn = ''txn1''
           then (Inr (''ref1'', ''hash1'',
                      \<lparr>ri_Start = [],
                       ri_Finish = \<lparr>rf_Method = ''redirect'', rf_URI = ''https://client/cb'',
                                    rf_Nonce = ''n1''\<rparr>\<rparr>), h)
           else (Inl ''unknown transaction'', h)),
      json_parse =
        (\<lambda>s. if s = ''{}'' then Some (JObject [])
              else if s = ''blob1'' then Some demo_blob
              else None),
      json_print = (\<lambda>j. if j = demo_blob then ''blob1'' else ''{}''),
      codecs = demo_codec,
      Sprintf = fmt_Sprintf,
      store_Get = mem_Get,
      store_Put = mem_Put,
      uuid_New = ''state-1'',
      oidc_NewProvider =
        (\<lambda>k url insecure.
           if url = ''https://idp1'' \<or> (url = ''https://flaky'' \<and> 2 \<le> k) then Inr url
           else Inl ''connection refused''),
      AuthCodeURL =
        (\<lambda>p scopes state opts.
           ''https://idp1/authorize?scope='' @ concat (map (\<lambda>s. s @ ''+'') scopes)
             @ ''&state='' @ state),
      Exchange =
        (\<lambda>p code. if code = ''code1'' then Inr [(''id_token'', JString ''idt1'')]
                   else Inl ''invalid_grant''),
      provider_Verify = (\<lambda>p raw. Inr raw),
      IDToken_Claims = (\<lambda>t. Inr ''alice''),
      url_Parse = (\<lambda>u. Inr \<lparr>u_Base = u, RawQuery = []\<rparr>),
      url_ParseQuery = (\<lambda>q. []),
      Values_Encode = (\<lambda>vs. concat (map (\<lambda>kv. fst kv @ ''='' @ concat (snd kv) @ ''&'') vs)),
      URL_String = (\<lambda>u. u_Base u @ ''?'' @ RawQuery u),
      template_ParseFiles = (\<lambda>p. Inr ''tmpl''),
      template_Execute = (\<lambda>t r. ''redirect:'' @ r)\<rparr>"

definition demo_provider :: "string \<Rightarrow> ProviderConfig" where
  "demo_provider url =
     \<lparr>pc_URL = url, pc_ClientID = ''client'', pc_ClientSecret = ''secret'', pc_Scopes = [],
      pc_SkipIssuerCheck = False\<rparr>"

definition demo_op :: "(nat, string, (string \<times> string) list) Operation" where
  "demo_op =
     \<lparr>authHandler = 0, uiEndpoint = ''https://ui'', closePopupHTML = ''close.html'',
      authProviders = [],
      oidcProvidersConfig =
        [(''idp1'', demo_provider ''https://idp1''), (''down'', demo_provider ''https://down''),
         (''flaky'', demo_provider ''https://flaky'')],
      cachedOIDCProviders = [], callbackURL = ''https://as/oidc/callback'', timeout = 2,
      transientStore = []\<rparr>"

definition demo_request :: Request where
  "demo_request = \<lparr>Method = ''POST'', Path = [], Query = [], Header = [], Body = Inr ''{}''\<rparr>"


text \<open>
  The answers of the error table: a status together with a body that is one encoded
  \<open>ErrorResponse\<close> with the given code.
\<close>

definition denied :: "nat \<Rightarrow> string \<Rightarrow> ResponseWriter \<Rightarrow> bool" where
  "denied status code rw \<longleftrightarrow>
     StatusCode rw = status
     \<and> rw_Body rw = [Encoded (PError \<lparr>Error = code, Description = []\<rparr>)]"

definition gnapHeader :: "Request \<Rightarrow> bool" where
  "gnapHeader req \<longleftrightarrow> 2 \<le> length (tokHeader req) \<and> tokHeader req ! 0 = ''GNAP''"


text \<open>The verifier an event hands to the auth handler, if it hands one.\<close>

fun event_verifier :: "event \<Rightarrow> verifier option" where
  "event_verifier (CallHandleAccessRequest a v t) = Some v"
| "event_verifier (CallHandleContinueRequest c t v) = Some v"
| "event_verifier (CallHandleIntrospection i v) = Some v"
| "event_verifier ev = None"

text \<open>
  The routes \<open>GetRESTHandlers\<close> registers: path, method and handler. These are all the handlers
  a request from the network can reach.
\<close>

definition GetRESTHandlers ::
  "(string \<times> string
     \<times> (('h, 'idp, 's) env \<Rightarrow> ('h, 'idp, 's) Operation \<Rightarrow> ResponseWriter \<Rightarrow> Request
          \<Rightarrow> ('h, 'idp, 's) outcome option)) list" where
  "GetRESTHandlers =
     [(''/gnap/auth'', ''POST'', \<lambda>e opn w r. Some (authRequestHandler e opn w r)),
      (''/gnap/interact'', ''GET'', \<lambda>e opn w r. Some (interactHandler e opn w r)),
      (''/gnap/continue'', ''POST'', \<lambda>e opn w r. Some (authContinueHandler e opn w r)),
      (''/gnap/introspect'', ''POST'', \<lambda>e opn w r. Some (introspectHandler e opn w r)),
      (''/oidc/providers'', ''GET'', \<lambda>e opn w r. Some (authProvidersHandler e opn w r)),
      (''/oidc/login'', ''GET'', oidcLoginHandler),
      (''/oidc/callback'', ''GET'', oidcCallbackHandler)]"


text \<open>
  The retry loop cut after \<open>n\<close> retries, for the proofs: with a positive limit the loop of
  \<open>RetryNotify\<close> is this function at the retries that are left.
\<close>

fun retry_upto ::
  "nat \<Rightarrow> (nat \<Rightarrow> (string + 'a) \<times> event list) \<Rightarrow> nat \<Rightarrow> nat \<Rightarrow> event list
     \<Rightarrow> (string + 'a) \<times> event list" where
  "retry_upto 0 operation d k tr = (case operation k of (r, ev) \<Rightarrow> (r, tr @ ev))"
| "retry_upto (Suc n) operation d k tr =
     (case operation k of
        (Inr v, ev) \<Rightarrow> (Inr v, tr @ ev)
      | (Inl err, ev) \<Rightarrow>
          retry_upto n operation d (Suc k) (tr @ ev @ [Notify err d, Sleep d]))"

fun is_Sleep :: "event \<Rightarrow> bool" where
  "is_Sleep (Sleep d) = True"
| "is_Sleep ev = False"

fun is_NewProvider :: "event \<Rightarrow> bool" where
  "is_NewProvider (NewProvider u) = True"
| "is_NewProvider ev = False"


text \<open>
  Which lock of the provider cache the running goroutine holds, and the events of a run, each
  with the lock held when it happens.
\<close>

datatype lock_state = Unlocked | ReadLocked | WriteLocked

fun lock_step :: "lock_state \<Rightarrow> event \<Rightarrow> lock_state" where
  "lock_step s RLock = ReadLocked"
| "lock_step s RUnlock = Unlocked"
| "lock_step s Lock = WriteLocked"
| "lock_step s Unlock = Unlocked"
| "lock_step s ev = s"

fun held_at :: "lock_state \<Rightarrow> event list \<Rightarrow> (event \<times> lock_state) list" where
  "held_at s [] = []"
| "held_at s (ev # evs) = (ev, s) # held_at (lock_step s ev) evs"

text \<open>The events of the retry loop around \<open>oidc.NewProvider\<close>.\<close>

fun is_Notify :: "event \<Rightarrow> bool" where
  "is_Notify (Notify err d) = True"
| "is_Notify ev = False"

definition init_event :: "event \<Rightarrow> bool" where
  "init_event ev \<longleftrightarrow> is_NewProvider ev \<or> is_Sleep ev \<or> is_Notify ev"


text \<open>
  Events that hand no verifier to the auth handler and write nothing to the transient store.
\<close>

definition internal_event :: "event \<Rightarrow> bool" where
  "internal_event ev \<longleftrightarrow> event_verifier ev = None \<and> (\<forall>k v. ev \<noteq> StorePut k v)"


text \<open>The sample operation after a login for the provider \<open>idp1\<close> and the transaction \<open>txn1\<close>.\<close>

definition demo_op_login :: "(nat, string, (string \<times> string) list) Operation" where
  "demo_op_login =
     demo_op\<lparr>cachedOIDCProviders :=
                [(''idp1'', \<lparr>name = ''idp1'', clientID = ''client'', clientSecret = ''secret'',
                  callback = ''https://as/oidc/callback'', skipIssuerCheck = False,
                  op = ''https://idp1''\<rparr>)],
             transientStore := [(''state-1'', ''blob1'')]\<rparr>"

definition demo_callback :: Request where
  "demo_callback =
     \<lparr>Method = ''GET'', Path = ''/oidc/callback'',
      Query = [(''state'', [''state-1'']), (''code'', [''code1''])], Header = [],
      Body = Inr []\<rparr>"


section \<open>The Authorization header of a continuation\<close>

lemma strings_Split_not_Nil: "strings_Split s c \<noteq> []"
  by (induction s) (auto split: list.splits)

lemma strings_Split_word:
  "c \<notin> set u \<Longrightarrow> strings_Split (u @ c # t) c = u # strings_Split t c"
  by (induction u) (auto split: list.splits simp: strings_Split_not_Nil)

lemma strings_Trim_keep:
  assumes "x \<noteq> c" "\<exists>y\<in>set t. y \<noteq> c"
  shows "strings_Trim (x # u @ t) c = x # u @ rev (dropWhile (\<lambda>y. y = c) (rev t))"
proof -
  from assms(2) obtain y where y: "y \<in> set (rev t)" "\<not> (y = c)" by auto
  have "dropWhile (\<lambda>y. y = c) (rev t @ rev u @ [x])
          = dropWhile (\<lambda>y. y = c) (rev t) @ rev u @ [x]"
    using y by (rule dropWhile_append1)
  then show ?thesis using assms(1) by (simp add: strings_Trim_def)
qed

lemma double_space_token:
  assumes "\<exists>y\<in>set t. y \<noteq> CHR '' ''"
  shows "\<exists>ps. strings_Split (strings_Trim (''GNAP  '' @ t) CHR '' '') CHR '' ''
               = ''GNAP'' # [] # ps"
proof -
  let ?t' = "rev (dropWhile (\<lambda>y. y = CHR '' '') (rev t))"
  have "strings_Trim (CHR ''G'' # ''NAP  '' @ t) CHR '' '' = CHR ''G'' # ''NAP  '' @ ?t'"
    using assms by (intro strings_Trim_keep) simp_all
  then have tr: "strings_Trim (''GNAP  '' @ t) CHR '' ''
                   = ''GNAP'' @ CHR '' '' # (CHR '' '' # ?t')"
    by simp
  have "strings_Split (''GNAP'' @ CHR '' '' # (CHR '' '' # ?t')) CHR '' ''
          = ''GNAP'' # strings_Split (CHR '' '' # ?t') CHR '' ''"
    by (rule strings_Split_word) simp
  then show ?thesis unfolding tr by simp
qed

lemma authContinueHandler_bad_header:
  "length (tokHeader req) < 2 \<or> tokHeader req ! 0 \<noteq> ''GNAP'' \<Longrightarrow>
   authContinueHandler e opn w req = (deny w StatusUnauthorized errRequestDenied, opn, [])"
  unfolding authContinueHandler_def tokHeader_def Let_def by (simp only: if_True)

lemma authContinueHandler_good_header:
  "\<not> (length (tokHeader req) < 2 \<or> tokHeader req ! 0 \<noteq> ''GNAP'') \<Longrightarrow>
   authContinueHandler e opn w req =
     (case Body req of
        Inl err \<Rightarrow> (deny w StatusInternalServerError errRequestDenied, opn, [])
      | Inr bodyBytes \<Rightarrow>
          (case json_Unmarshal e decode_ContinueRequest bodyBytes of
             Inl err \<Rightarrow> (deny w StatusBadRequest errInvalidRequest, opn, [])
           | Inr continueRequest \<Rightarrow>
               (case HandleContinueRequest e (authHandler opn) continueRequest (tokHeader req ! 1)
                       (httpsig_NewVerifier (req\<lparr>Body := Inr bodyBytes\<rparr>)) of
                  (Inl err, h) \<Rightarrow>
                    (deny w StatusUnauthorized errRequestDenied, opn\<lparr>authHandler := h\<rparr>,
                     [CallHandleContinueRequest continueRequest (tokHeader req ! 1)
                        (httpsig_NewVerifier (req\<lparr>Body := Inr bodyBytes\<rparr>))])
                | (Inr resp, h) \<Rightarrow>
                    (writeResponse w (PAuth resp), opn\<lparr>authHandler := h\<rparr>,
                     [CallHandleContinueRequest continueRequest (tokHeader req ! 1)
                        (httpsig_NewVerifier (req\<lparr>Body := Inr bodyBytes\<rparr>))]))))"
  unfolding authContinueHandler_def tokHeader_def Let_def by (simp only: if_False)

lemma authContinueHandler_events:
  "CallHandleContinueRequest cr tok v \<in> set (snd (snd (authContinueHandler e opn w req))) \<Longrightarrow>
   2 \<le> length (tokHeader req) \<and> tokHeader req ! 0 = ''GNAP'' \<and> tok = tokHeader req ! 1"
proof (cases "length (tokHeader req) < 2 \<or> tokHeader req ! 0 \<noteq> ''GNAP''")
  case True
  assume "CallHandleContinueRequest cr tok v \<in> set (snd (snd (authContinueHandler e opn w req)))"
  then show ?thesis by (simp add: authContinueHandler_bad_header[OF True])
next
  case False
  assume a: "CallHandleContinueRequest cr tok v
               \<in> set (snd (snd (authContinueHandler e opn w req)))"
  have "tok = tokHeader req ! 1"
    using a unfolding authContinueHandler_good_header[OF False]
    by (simp split: sum.splits prod.splits)
  then show ?thesis using False by simp
qed

lemma demo_tokHeader:
  "tokHeader (demo_request\<lparr>Header := [(''Authorization'', [''GNAP  tok1''])]\<rparr>)
     = [''GNAP'', [], ''tok1'']"
  by (simp add: tokHeader_def demo_request_def Values_Get_def strings_Trim_def)

lemma demo_tokHeader_missing: "tokHeader demo_request = [[]]"
  by (simp add: tokHeader_def demo_request_def Values_Get_def strings_Trim_def)

lemma demo_Unmarshal_ContinueRequest:
  "json_Unmarshal demo_env decode_ContinueRequest ''{}'' = Inr \<lparr>InteractRef = []\<rparr>"
  by (simp add: json_Unmarshal_def demo_env_def decode_ContinueRequest_def dec_field_def)



lemma strings_Split_plain: "c \<notin> set u \<Longrightarrow> strings_Split u c = [u]"
  by (induction u) (auto split: list.splits)

lemma strings_Split_Join:
  "ps \<noteq> [] \<Longrightarrow> \<forall>p\<in>set ps. c \<notin> set p \<Longrightarrow> strings_Split (strings_Join ps c) c = ps"
proof (induction ps c rule: strings_Join.induct)
  case (1 sep)
  then show ?case by simp
next
  case (2 p sep)
  then show ?case by (simp add: strings_Split_plain)
next
  case (3 p q ps sep)
  then show ?case by (simp add: strings_Split_word)
qed

lemma strings_Join_hd:
  "ps \<noteq> [] \<Longrightarrow> hd ps \<noteq> [] \<Longrightarrow> strings_Join ps c \<noteq> [] \<and> hd (strings_Join ps c) = hd (hd ps)"
  by (induction ps c rule: strings_Join.induct) auto

lemma strings_Join_not_Nil:
  "ps \<noteq> [] \<Longrightarrow> last ps \<noteq> [] \<Longrightarrow> strings_Join ps c \<noteq> []"
  by (induction ps c rule: strings_Join.induct) auto

lemma strings_Join_last:
  "ps \<noteq> [] \<Longrightarrow> last ps \<noteq> [] \<Longrightarrow> last (strings_Join ps c) = last (last ps)"
proof (induction ps c rule: strings_Join.induct)
  case (3 p q ps sep)
  then have "strings_Join (q # ps) sep \<noteq> []" by (intro strings_Join_not_Nil) simp_all
  with 3 show ?case by simp
qed simp_all

lemma dropWhile_replicate:
  "dropWhile (\<lambda>x. x = c) (replicate a c @ ys) = dropWhile (\<lambda>x. x = c) ys"
  by (induction a) auto

lemma strings_Trim_core:
  assumes "core \<noteq> []" "hd core \<noteq> c" "last core \<noteq> c"
  shows "strings_Trim (replicate a c @ core @ replicate b c) c = core"
proof -
  have 1: "dropWhile (\<lambda>x. x = c) (replicate a c @ core @ replicate b c) = core @ replicate b c"
    using assms(1,2) by (cases core) (simp_all add: dropWhile_replicate)
  have 2: "dropWhile (\<lambda>x. x = c) (rev (core @ replicate b c)) = rev core"
    using assms(1,3) dropWhile_replicate[of c b "rev core"]
    by (cases core rule: rev_cases) simp_all
  show ?thesis by (simp only: strings_Trim_def 1 2 rev_rev_ident)
qed

lemma strings_Trim_spaces: "strings_Trim (replicate a c) c = []"
  using dropWhile_replicate[of c a "[]"] by (simp add: strings_Trim_def)

lemma tokHeader_components:
  assumes h: "Values_Get (Header req) ''Authorization''
                = replicate a CHR '' '' @ strings_Join ps CHR '' '' @ replicate b CHR '' ''"
    and ps: "ps \<noteq> []" "\<forall>p\<in>set ps. CHR '' '' \<notin> set p" "hd ps \<noteq> []" "last ps \<noteq> []"
  shows "tokHeader req = ps"
proof -
  let ?core = "strings_Join ps CHR '' ''"
  from ps have c: "?core \<noteq> []" "hd ?core = hd (hd ps)" "last ?core = last (last ps)"
    by (simp_all add: strings_Join_hd strings_Join_last)
  from ps have "hd (hd ps) \<in> set (hd ps)" "hd ps \<in> set ps" "last (last ps) \<in> set (last ps)"
    "last ps \<in> set ps" by simp_all
  with ps(2) have "hd (hd ps) \<noteq> CHR '' ''" "last (last ps) \<noteq> CHR '' ''" by auto
  with c have "strings_Trim (replicate a CHR '' '' @ ?core @ replicate b CHR '' '') CHR '' '' = ?core"
    by (intro strings_Trim_core) simp_all
  then show ?thesis
    by (simp add: tokHeader_def h strings_Split_Join[OF ps(1,2)])
qed

lemma tokHeader_spaces:
  "Values_Get (Header req) ''Authorization'' = replicate a CHR '' '' \<Longrightarrow> tokHeader req = [[]]"
  by (simp add: tokHeader_def strings_Trim_spaces)


lemma authContinueHandler_token:
  "(length (tokHeader req) < 2 \<or> tokHeader req ! 0 \<noteq> ''GNAP'' \<longrightarrow>
      authContinueHandler e opn w req = (deny w StatusUnauthorized errRequestDenied, opn, [])
      \<and> authContinueHandler e opn w (req\<lparr>Body := b\<rparr>) = authContinueHandler e opn w req)
   \<and> (\<forall>cr tok v. CallHandleContinueRequest cr tok v
                     \<in> set (snd (snd (authContinueHandler e opn w req)))
          \<longrightarrow> 2 \<le> length (tokHeader req) \<and> tokHeader req ! 0 = ''GNAP''
              \<and> tok = tokHeader req ! 1)
   \<and> (\<forall>bytes cr. 2 \<le> length (tokHeader req) \<and> tokHeader req ! 0 = ''GNAP''
          \<and> Body req = Inr bytes \<and> json_Unmarshal e decode_ContinueRequest bytes = Inr cr
          \<longrightarrow> snd (snd (authContinueHandler e opn w req))
                = [CallHandleContinueRequest cr (tokHeader req ! 1)
                     (httpsig_NewVerifier (req\<lparr>Body := Inr bytes\<rparr>))])
   \<and> (\<forall>t. Values_Get (Header req) ''Authorization'' = ''GNAP  '' @ t
            \<and> (\<exists>y\<in>set t. y \<noteq> CHR '' '')
          \<longrightarrow> 2 \<le> length (tokHeader req) \<and> tokHeader req ! 0 = ''GNAP''
              \<and> tokHeader req ! 1 = [])"
proof (intro conjI allI impI)
  assume h: "length (tokHeader req) < 2 \<or> tokHeader req ! 0 \<noteq> ''GNAP''"
  then show "authContinueHandler e opn w req
               = (deny w StatusUnauthorized errRequestDenied, opn, [])"
    by (rule authContinueHandler_bad_header)
  have "tokHeader (req\<lparr>Body := b\<rparr>) = tokHeader req" by (simp add: tokHeader_def)
  with h have "authContinueHandler e opn w (req\<lparr>Body := b\<rparr>)
                 = (deny w StatusUnauthorized errRequestDenied, opn, [])"
    by (intro authContinueHandler_bad_header) simp
  then show "authContinueHandler e opn w (req\<lparr>Body := b\<rparr>) = authContinueHandler e opn w req"
    by (simp add: authContinueHandler_bad_header[OF h])
next
  fix cr tok v
  assume a: "CallHandleContinueRequest cr tok v
               \<in> set (snd (snd (authContinueHandler e opn w req)))"
  from authContinueHandler_events[OF a]
  show "2 \<le> length (tokHeader req)" "tokHeader req ! 0 = ''GNAP''" "tok = tokHeader req ! 1"
    by simp_all
next
  fix bytes cr
  assume a: "2 \<le> length (tokHeader req) \<and> tokHeader req ! 0 = ''GNAP''
          \<and> Body req = Inr bytes \<and> json_Unmarshal e decode_ContinueRequest bytes = Inr cr"
  then have g: "\<not> (length (tokHeader req) < 2 \<or> tokHeader req ! 0 \<noteq> ''GNAP'')" by simp
  show "snd (snd (authContinueHandler e opn w req))
          = [CallHandleContinueRequest cr (tokHeader req ! 1)
               (httpsig_NewVerifier (req\<lparr>Body := Inr bytes\<rparr>))]"
    unfolding authContinueHandler_good_header[OF g] using a
    by (simp split: sum.splits prod.splits)
next
  fix t
  assume a: "Values_Get (Header req) ''Authorization'' = ''GNAP  '' @ t
            \<and> (\<exists>y\<in>set t. y \<noteq> CHR '' '')"
  then obtain ps where
    "strings_Split (strings_Trim (''GNAP  '' @ t) CHR '' '') CHR '' '' = ''GNAP'' # [] # ps"
    using double_space_token by blast
  then have p: "tokHeader req = ''GNAP'' # [] # ps" using a by (simp add: tokHeader_def)
  show "2 \<le> length (tokHeader req)" "tokHeader req ! 0 = ''GNAP''" "tokHeader req ! 1 = []"
    by (simp_all add: p)
qed


lemma authContinueHandler_components:
  "(Values_Get (Header req) ''Authorization''
      = replicate a CHR '' '' @ strings_Join ps CHR '' '' @ replicate b CHR '' ''
    \<and> ps \<noteq> [] \<and> (\<forall>p\<in>set ps. CHR '' '' \<notin> set p) \<and> hd ps \<noteq> [] \<and> last ps \<noteq> []
    \<longrightarrow> (length ps < 2 \<or> hd ps \<noteq> ''GNAP'' \<longrightarrow>
           authContinueHandler e opn w (req\<lparr>Body := body\<rparr>)
             = (deny w StatusUnauthorized errRequestDenied, opn, []))
        \<and> (2 \<le> length ps \<and> hd ps = ''GNAP'' \<longrightarrow>
             (\<forall>bytes cr. Body req = Inr bytes
                 \<and> json_Unmarshal e decode_ContinueRequest bytes = Inr cr
               \<longrightarrow> snd (snd (authContinueHandler e opn w req))
                     = [CallHandleContinueRequest cr (ps ! 1)
                          (httpsig_NewVerifier (req\<lparr>Body := Inr bytes\<rparr>))])
             \<and> (\<forall>cr tok v. CallHandleContinueRequest cr tok v
                               \<in> set (snd (snd (authContinueHandler e opn w req)))
                   \<longrightarrow> tok = ps ! 1)))
   \<and> (Values_Get (Header req) ''Authorization'' = replicate a CHR '' ''
        \<longrightarrow> authContinueHandler e opn w (req\<lparr>Body := body\<rparr>)
              = (deny w StatusUnauthorized errRequestDenied, opn, []))
   \<and> (Values_Get (Header req) ''Authorization''
          = replicate a CHR '' '' @ ''GNAP  '' @ strings_Join qs CHR '' '' @ replicate b CHR '' ''
        \<and> qs \<noteq> [] \<and> (\<forall>p\<in>set qs. CHR '' '' \<notin> set p) \<and> hd qs \<noteq> [] \<and> last qs \<noteq> []
        \<longrightarrow> (\<forall>bytes cr. Body req = Inr bytes
                 \<and> json_Unmarshal e decode_ContinueRequest bytes = Inr cr
               \<longrightarrow> snd (snd (authContinueHandler e opn w req))
                     = [CallHandleContinueRequest cr []
                          (httpsig_NewVerifier (req\<lparr>Body := Inr bytes\<rparr>))]))"
proof (intro conjI impI)
  assume h: "Values_Get (Header req) ''Authorization''
      = replicate a CHR '' '' @ strings_Join ps CHR '' '' @ replicate b CHR '' ''
    \<and> ps \<noteq> [] \<and> (\<forall>p\<in>set ps. CHR '' '' \<notin> set p) \<and> hd ps \<noteq> [] \<and> last ps \<noteq> []"
  then have t: "tokHeader req = ps" by (intro tokHeader_components) simp_all
  from h have n: "ps \<noteq> []" by simp
  have tb: "tokHeader (req\<lparr>Body := body\<rparr>) = ps" using t by (simp add: tokHeader_def)
  {
    assume "length ps < 2 \<or> hd ps \<noteq> ''GNAP''"
    then have "length (tokHeader (req\<lparr>Body := body\<rparr>)) < 2
                 \<or> tokHeader (req\<lparr>Body := body\<rparr>) ! 0 \<noteq> ''GNAP''"
      using n by (simp add: tb hd_conv_nth)
    then show "authContinueHandler e opn w (req\<lparr>Body := body\<rparr>)
             = (deny w StatusUnauthorized errRequestDenied, opn, [])"
      by (rule authContinueHandler_bad_header)
  }
  {
    assume g: "2 \<le> length ps \<and> hd ps = ''GNAP''"
    then have g': "2 \<le> length (tokHeader req)" "tokHeader req ! 0 = ''GNAP''"
      using n by (simp_all add: t hd_conv_nth)
    show "\<forall>bytes cr. Body req = Inr bytes
                 \<and> json_Unmarshal e decode_ContinueRequest bytes = Inr cr
               \<longrightarrow> snd (snd (authContinueHandler e opn w req))
                     = [CallHandleContinueRequest cr (ps ! 1)
                          (httpsig_NewVerifier (req\<lparr>Body := Inr bytes\<rparr>))]"
      using authContinueHandler_token[of req e opn w body] g' unfolding t by blast
    show "\<forall>cr tok v. CallHandleContinueRequest cr tok v
                               \<in> set (snd (snd (authContinueHandler e opn w req)))
                   \<longrightarrow> tok = ps ! 1"
      using authContinueHandler_events[of _ _ _ e opn w req] unfolding t by blast
  }
next
  assume "Values_Get (Header req) ''Authorization'' = replicate a CHR '' ''"
  then have "tokHeader (req\<lparr>Body := body\<rparr>) = [[]]"
    by (intro tokHeader_spaces) simp
  then have "length (tokHeader (req\<lparr>Body := body\<rparr>)) < 2
               \<or> tokHeader (req\<lparr>Body := body\<rparr>) ! 0 \<noteq> ''GNAP''" by simp
  then show "authContinueHandler e opn w (req\<lparr>Body := body\<rparr>)
              = (deny w StatusUnauthorized errRequestDenied, opn, [])"
    by (rule authContinueHandler_bad_header)
next
  assume h: "Values_Get (Header req) ''Authorization''
          = replicate a CHR '' '' @ ''GNAP  '' @ strings_Join qs CHR '' '' @ replicate b CHR '' ''
        \<and> qs \<noteq> [] \<and> (\<forall>p\<in>set qs. CHR '' '' \<notin> set p) \<and> hd qs \<noteq> [] \<and> last qs \<noteq> []"
  then obtain q qs' where q: "qs = q # qs'" by (cases qs) auto
  let ?ps = "''GNAP'' # [] # qs"
  have j: "strings_Join ?ps CHR '' '' = ''GNAP  '' @ strings_Join qs CHR '' ''"
    by (simp add: q)
  have "tokHeader req = ?ps"
  proof (rule tokHeader_components)
    show "Values_Get (Header req) ''Authorization''
            = replicate a CHR '' '' @ strings_Join ?ps CHR '' '' @ replicate b CHR '' ''"
      using h unfolding j by simp
  qed (use h q in auto)
  then have t: "tokHeader req = ''GNAP'' # [] # qs" .
  show "\<forall>bytes cr. Body req = Inr bytes
                 \<and> json_Unmarshal e decode_ContinueRequest bytes = Inr cr
               \<longrightarrow> snd (snd (authContinueHandler e opn w req))
                     = [CallHandleContinueRequest cr []
                          (httpsig_NewVerifier (req\<lparr>Body := Inr bytes\<rparr>))]"
    using authContinueHandler_token[of req e opn w body] unfolding t by simp
qed

lemma Values_Get_first: "map_of q k = Some (v # vs) \<Longrightarrow> Values_Get q k = v"
  by (simp add: Values_Get_def)

lemma Values_Get_empty:
  "\<forall>v vs. map_of q k = Some (v # vs) \<longrightarrow> v = [] \<Longrightarrow> Values_Get q k = []"
  by (cases "map_of q k") (auto simp: Values_Get_def split: list.splits)

text \<open>
  Claim C10. Read the first value of the \<open>Authorization\<close> header of a POST /gnap/continue
  as any number of spaces, then components without spaces joined by single spaces (the first
  and the last component not empty), then any number of spaces. With fewer than two components, or a first
  component other than \<open>GNAP\<close>, the answer is 401 \<open>request_denied\<close> whatever the body is, and
  nothing is called; so it is for a header of spaces only and for a missing header. Otherwise
  the token handed to \<open>HandleContinueRequest\<close> is the second component, as soon as the body
  decodes, however many components follow. After \<open>GNAP\<close> and two spaces the second component is
  the empty string, and that is the token.
\<close>

theorem continue_token_is_second_component:
  "(map_of (Header req) ''Authorization''
      = Some ((replicate a CHR '' '' @ strings_Join ps CHR '' '' @ replicate b CHR '' '') # others)
    \<and> ps \<noteq> [] \<and> (\<forall>p\<in>set ps. CHR '' '' \<notin> set p) \<and> hd ps \<noteq> [] \<and> last ps \<noteq> []
    \<longrightarrow> (length ps < 2 \<or> hd ps \<noteq> ''GNAP'' \<longrightarrow>
           authContinueHandler e opn w (req\<lparr>Body := body\<rparr>)
             = (deny w StatusUnauthorized errRequestDenied, opn, []))
        \<and> (2 \<le> length ps \<and> hd ps = ''GNAP'' \<longrightarrow>
             (\<forall>bytes cr. Body req = Inr bytes
                 \<and> json_Unmarshal e decode_ContinueRequest bytes = Inr cr
               \<longrightarrow> snd (snd (authContinueHandler e opn w req))
                     = [CallHandleContinueRequest cr (ps ! 1)
                          (httpsig_NewVerifier (req\<lparr>Body := Inr bytes\<rparr>))])
             \<and> (\<forall>cr tok v. CallHandleContinueRequest cr tok v
                               \<in> set (snd (snd (authContinueHandler e opn w req)))
                   \<longrightarrow> tok = ps ! 1)))
   \<and> ((\<forall>v vs. map_of (Header req) ''Authorization'' = Some (v # vs)
                 \<longrightarrow> v = replicate a CHR '' '')
        \<longrightarrow> authContinueHandler e opn w (req\<lparr>Body := body\<rparr>)
              = (deny w StatusUnauthorized errRequestDenied, opn, []))
   \<and> (map_of (Header req) ''Authorization''
          = Some ((replicate a CHR '' '' @ ''GNAP  '' @ strings_Join qs CHR '' ''
                     @ replicate b CHR '' '') # others)
        \<and> qs \<noteq> [] \<and> (\<forall>p\<in>set qs. CHR '' '' \<notin> set p) \<and> hd qs \<noteq> [] \<and> last qs \<noteq> []
        \<longrightarrow> (\<forall>bytes cr. Body req = Inr bytes
                 \<and> json_Unmarshal e decode_ContinueRequest bytes = Inr cr
               \<longrightarrow> snd (snd (authContinueHandler e opn w req))
                     = [CallHandleContinueRequest cr []
                          (httpsig_NewVerifier (req\<lparr>Body := Inr bytes\<rparr>))]))"
proof (intro conjI)
    show "map_of (Header req) ''Authorization''
      = Some ((replicate a CHR '' '' @ strings_Join ps CHR '' '' @ replicate b CHR '' '') # others)
    \<and> ps \<noteq> [] \<and> (\<forall>p\<in>set ps. CHR '' '' \<notin> set p) \<and> hd ps \<noteq> [] \<and> last ps \<noteq> []
    \<longrightarrow> (length ps < 2 \<or> hd ps \<noteq> ''GNAP'' \<longrightarrow>
           authContinueHandler e opn w (req\<lparr>Body := body\<rparr>)
             = (deny w StatusUnauthorized errRequestDenied, opn, []))
        \<and> (2 \<le> length ps \<and> hd ps = ''GNAP'' \<longrightarrow>
             (\<forall>bytes cr. Body req = Inr bytes
                 \<and> json_Unmarshal e decode_ContinueRequest bytes = Inr cr
               \<longrightarrow> snd (snd (authContinueHandler e opn w req))
                     = [CallHandleContinueRequest cr (ps ! 1)
                          (httpsig_NewVerifier (req\<lparr>Body := Inr bytes\<rparr>))])
             \<and> (\<forall>cr tok v. CallHandleContinueRequest cr tok v
                               \<in> set (snd (snd (authContinueHandler e opn w req)))
                   \<longrightarrow> tok = ps ! 1))"
  proof
    assume h: "map_of (Header req) ''Authorization''
      = Some ((replicate a CHR '' '' @ strings_Join ps CHR '' '' @ replicate b CHR '' '') # others)
    \<and> ps \<noteq> [] \<and> (\<forall>p\<in>set ps. CHR '' '' \<notin> set p) \<and> hd ps \<noteq> [] \<and> last ps \<noteq> []"
    then have v: "Values_Get (Header req) ''Authorization''
         = replicate a CHR '' '' @ strings_Join ps CHR '' '' @ replicate b CHR '' ''"
      by (intro Values_Get_first) simp
    from authContinueHandler_components
           [where req = req and a = a and ps = ps and b = b and e = e and opn = opn and w = w
              and body = body, THEN conjunct1, rule_format, OF conjI[OF v]] h
    show "(length ps < 2 \<or> hd ps \<noteq> ''GNAP'' \<longrightarrow>
           authContinueHandler e opn w (req\<lparr>Body := body\<rparr>)
             = (deny w StatusUnauthorized errRequestDenied, opn, []))
        \<and> (2 \<le> length ps \<and> hd ps = ''GNAP'' \<longrightarrow>
             (\<forall>bytes cr. Body req = Inr bytes
                 \<and> json_Unmarshal e decode_ContinueRequest bytes = Inr cr
               \<longrightarrow> snd (snd (authContinueHandler e opn w req))
                     = [CallHandleContinueRequest cr (ps ! 1)
                          (httpsig_NewVerifier (req\<lparr>Body := Inr bytes\<rparr>))])
             \<and> (\<forall>cr tok v. CallHandleContinueRequest cr tok v
                               \<in> set (snd (snd (authContinueHandler e opn w req)))
                   \<longrightarrow> tok = ps ! 1))"
      by blast
  qed
  show "(\<forall>v vs. map_of (Header req) ''Authorization'' = Some (v # vs)
                 \<longrightarrow> v = replicate a CHR '' '')
        \<longrightarrow> authContinueHandler e opn w (req\<lparr>Body := body\<rparr>)
              = (deny w StatusUnauthorized errRequestDenied, opn, [])"
  proof
    assume h: "\<forall>v vs. map_of (Header req) ''Authorization'' = Some (v # vs)
                 \<longrightarrow> v = replicate a CHR '' ''"
    have "\<exists>n. Values_Get (Header req) ''Authorization'' = replicate n CHR '' ''"
    proof (cases "map_of (Header req) ''Authorization''")
      case None
      then have "Values_Get (Header req) ''Authorization'' = replicate 0 CHR '' ''"
        by (simp add: Values_Get_def)
      then show ?thesis by blast
    next
      case (Some vs)
      show ?thesis
      proof (cases vs)
        case Nil
        with Some have "Values_Get (Header req) ''Authorization'' = replicate 0 CHR '' ''"
          by (simp add: Values_Get_def)
        then show ?thesis by blast
      next
        case (Cons v vs')
        with Some h have "Values_Get (Header req) ''Authorization'' = replicate a CHR '' ''"
          by (simp add: Values_Get_def)
        then show ?thesis by blast
      qed
    qed
    then obtain n where n: "Values_Get (Header req) ''Authorization'' = replicate n CHR '' ''" ..
    from authContinueHandler_components
           [where req = req and a = n and e = e and opn = opn and w = w and body = body,
            THEN conjunct2, THEN conjunct1, rule_format, OF n]
    show "authContinueHandler e opn w (req\<lparr>Body := body\<rparr>)
              = (deny w StatusUnauthorized errRequestDenied, opn, [])" .
  qed
  show "map_of (Header req) ''Authorization''
          = Some ((replicate a CHR '' '' @ ''GNAP  '' @ strings_Join qs CHR '' ''
                     @ replicate b CHR '' '') # others)
        \<and> qs \<noteq> [] \<and> (\<forall>p\<in>set qs. CHR '' '' \<notin> set p) \<and> hd qs \<noteq> [] \<and> last qs \<noteq> []
        \<longrightarrow> (\<forall>bytes cr. Body req = Inr bytes
                 \<and> json_Unmarshal e decode_ContinueRequest bytes = Inr cr
               \<longrightarrow> snd (snd (authContinueHandler e opn w req))
                     = [CallHandleContinueRequest cr []
                          (httpsig_NewVerifier (req\<lparr>Body := Inr bytes\<rparr>))])"
  proof
    assume h: "map_of (Header req) ''Authorization''
          = Some ((replicate a CHR '' '' @ ''GNAP  '' @ strings_Join qs CHR '' ''
                     @ replicate b CHR '' '') # others)
        \<and> qs \<noteq> [] \<and> (\<forall>p\<in>set qs. CHR '' '' \<notin> set p) \<and> hd qs \<noteq> [] \<and> last qs \<noteq> []"
    then have v: "Values_Get (Header req) ''Authorization''
         = replicate a CHR '' '' @ ''GNAP  '' @ strings_Join qs CHR '' '' @ replicate b CHR '' ''"
      by (intro Values_Get_first) simp
    from authContinueHandler_components
           [where req = req and a = a and qs = qs and b = b and e = e and opn = opn and w = w,
            THEN conjunct2, THEN conjunct2, rule_format, OF conjI[OF v]] h
    show "\<forall>bytes cr. Body req = Inr bytes
                 \<and> json_Unmarshal e decode_ContinueRequest bytes = Inr cr
               \<longrightarrow> snd (snd (authContinueHandler e opn w req))
                     = [CallHandleContinueRequest cr []
                          (httpsig_NewVerifier (req\<lparr>Body := Inr bytes\<rparr>))]"
      by blast
  qed
qed

theorem continue_token_is_second_component_witness:
  "authContinueHandler demo_env demo_op newResponseWriter
     (demo_request\<lparr>Header := [(''Authorization'', [''  ''])], Body := Inl ''EOF''\<rparr>)
     = (deny newResponseWriter StatusUnauthorized errRequestDenied, demo_op, [])
   \<and> snd (snd (authContinueHandler demo_env demo_op newResponseWriter
                  (demo_request\<lparr>Header := [(''Authorization'', ['' GNAP  tok1 ''])]\<rparr>)))
       = [CallHandleContinueRequest \<lparr>InteractRef = []\<rparr> []
            (httpsig_NewVerifier
               (demo_request\<lparr>Header := [(''Authorization'', ['' GNAP  tok1 ''])],
                             Body := Inr ''{}''\<rparr>))]
   \<and> snd (snd (authContinueHandler demo_env demo_op newResponseWriter
                  (demo_request\<lparr>Header := [(''Authorization'', ['' GNAP tok1 x  ''])]\<rparr>)))
       = [CallHandleContinueRequest \<lparr>InteractRef = []\<rparr> ''tok1''
            (httpsig_NewVerifier
               (demo_request\<lparr>Header := [(''Authorization'', ['' GNAP tok1 x  ''])],
                             Body := Inr ''{}''\<rparr>))]"
proof (intro conjI)
  let ?r0 = "demo_request\<lparr>Header := [(''Authorization'', [''  ''])]\<rparr>"
  have h0: "\<forall>v vs. map_of (Header ?r0) ''Authorization'' = Some (v # vs)
              \<longrightarrow> v = replicate 2 CHR '' ''"
    by (simp add: numeral_2_eq_2)
  from continue_token_is_second_component
         [where req = ?r0 and a = 2 and e = demo_env and opn = demo_op
            and w = newResponseWriter and body = "Inl ''EOF''",
          THEN conjunct2, THEN conjunct1, THEN mp, OF h0]
  show "authContinueHandler demo_env demo_op newResponseWriter
     (demo_request\<lparr>Header := [(''Authorization'', [''  ''])], Body := Inl ''EOF''\<rparr>)
     = (deny newResponseWriter StatusUnauthorized errRequestDenied, demo_op, [])"
    by simp
next
  let ?r = "demo_request\<lparr>Header := [(''Authorization'', ['' GNAP  tok1 ''])]\<rparr>"
  have h: "map_of (Header ?r) ''Authorization''
             = Some ((replicate 1 CHR '' '' @ ''GNAP  '' @ strings_Join [''tok1''] CHR '' ''
                        @ replicate 1 CHR '' '') # [])"
    by simp
  have b: "Body ?r = Inr ''{}''" by (simp add: demo_request_def)
  from continue_token_is_second_component
         [where req = ?r and a = 1 and b = 1 and qs = "[''tok1'']" and others = "[]"
            and e = demo_env and opn = demo_op and w = newResponseWriter,
          THEN conjunct2, THEN conjunct2, rule_format, OF _ conjI[OF b demo_Unmarshal_ContinueRequest]]
       h
  show "snd (snd (authContinueHandler demo_env demo_op newResponseWriter ?r))
       = [CallHandleContinueRequest \<lparr>InteractRef = []\<rparr> []
            (httpsig_NewVerifier
               (demo_request\<lparr>Header := [(''Authorization'', ['' GNAP  tok1 ''])],
                             Body := Inr ''{}''\<rparr>))]"
    by simp
next
  let ?r = "demo_request\<lparr>Header := [(''Authorization'', ['' GNAP tok1 x  ''])]\<rparr>"
  have h: "map_of (Header ?r) ''Authorization''
             = Some ((replicate 1 CHR '' '' @ strings_Join [''GNAP'', ''tok1'', ''x''] CHR '' ''
                        @ replicate 2 CHR '' '') # [])"
    by (simp add: numeral_2_eq_2)
  have b: "Body ?r = Inr ''{}''" by (simp add: demo_request_def)
  from continue_token_is_second_component
         [where req = ?r and a = 1 and b = 2 and ps = "[''GNAP'', ''tok1'', ''x'']"
            and others = "[]" and e = demo_env and opn = demo_op and w = newResponseWriter,
          THEN conjunct1, rule_format, THEN conjunct2, rule_format, THEN conjunct1, rule_format,
          OF _ _ conjI[OF b demo_Unmarshal_ContinueRequest]]
       h
  show "snd (snd (authContinueHandler demo_env demo_op newResponseWriter ?r))
       = [CallHandleContinueRequest \<lparr>InteractRef = []\<rparr> ''tok1''
            (httpsig_NewVerifier
               (demo_request\<lparr>Header := [(''Authorization'', ['' GNAP tok1 x  ''])],
                             Body := Inr ''{}''\<rparr>))]"
    by simp
qed

section \<open>The three POST handlers, branch by branch\<close>

lemma deny_new: "denied status code (deny newResponseWriter status code)"
  by (simp add: denied_def deny_def writeResponse_def Write_def WriteHeader_def Header_Set_def
      newResponseWriter_def Let_def)

lemma writeResponse_new:
  "StatusCode (writeResponse newResponseWriter v) = 200
   \<and> rw_Body (writeResponse newResponseWriter v) = [Encoded v]"
  by (simp add: writeResponse_def Write_def WriteHeader_def Header_Set_def
      newResponseWriter_def Let_def)

lemma json_Unmarshal_invalid: "json_parse e bytes = None \<Longrightarrow> \<exists>err. json_Unmarshal e dec bytes = Inl err"
  by (simp add: json_Unmarshal_def)

lemma authRequestHandler_unreadable:
  "Body req = Inl err \<Longrightarrow>
   authRequestHandler e opn w req = (deny w StatusInternalServerError errRequestDenied, opn, [])"
  by (simp add: authRequestHandler_def)

lemma authRequestHandler_malformed:
  "Body req = Inr bytes \<Longrightarrow> json_Unmarshal e (decode_AuthRequest (codecs e)) bytes = Inl err \<Longrightarrow>
   authRequestHandler e opn w req = (deny w StatusBadRequest errInvalidRequest, opn, [])"
  by (simp add: authRequestHandler_def)

lemma authRequestHandler_decoded:
  "Body req = Inr bytes \<Longrightarrow> json_Unmarshal e (decode_AuthRequest (codecs e)) bytes = Inr a \<Longrightarrow>
   authRequestHandler e opn w req =
     (case HandleAccessRequest e (authHandler opn) a (httpsig_NewVerifier (req\<lparr>Body := Inr bytes\<rparr>)) [] of
        (Inl err, h) \<Rightarrow>
          (deny w StatusUnauthorized errRequestDenied, opn\<lparr>authHandler := h\<rparr>,
           [CallHandleAccessRequest a (httpsig_NewVerifier (req\<lparr>Body := Inr bytes\<rparr>)) []])
      | (Inr resp, h) \<Rightarrow>
          (writeResponse w (PAuth resp), opn\<lparr>authHandler := h\<rparr>,
           [CallHandleAccessRequest a (httpsig_NewVerifier (req\<lparr>Body := Inr bytes\<rparr>)) []]))"
  by (simp add: authRequestHandler_def Let_def)

lemma introspectHandler_unreadable:
  "Body req = Inl err \<Longrightarrow>
   introspectHandler e opn w req = (deny w StatusInternalServerError errRequestDenied, opn, [])"
  by (simp add: introspectHandler_def)

lemma introspectHandler_malformed:
  "Body req = Inr bytes \<Longrightarrow> json_Unmarshal e (decode_IntrospectRequest (codecs e)) bytes = Inl err \<Longrightarrow>
   introspectHandler e opn w req = (deny w StatusBadRequest errInvalidRequest, opn, [])"
  by (simp add: introspectHandler_def)

lemma introspectHandler_decoded:
  "Body req = Inr bytes \<Longrightarrow> json_Unmarshal e (decode_IntrospectRequest (codecs e)) bytes = Inr a \<Longrightarrow>
   introspectHandler e opn w req =
     (case HandleIntrospection e (authHandler opn) a (httpsig_NewVerifier (req\<lparr>Body := Inr bytes\<rparr>)) of
        (Inl err, h) \<Rightarrow>
          (deny w StatusUnauthorized errRequestDenied, opn\<lparr>authHandler := h\<rparr>,
           [CallHandleIntrospection a (httpsig_NewVerifier (req\<lparr>Body := Inr bytes\<rparr>))])
      | (Inr resp, h) \<Rightarrow>
          (writeResponse w (PIntrospect resp), opn\<lparr>authHandler := h\<rparr>,
           [CallHandleIntrospection a (httpsig_NewVerifier (req\<lparr>Body := Inr bytes\<rparr>))]))"
  by (simp add: introspectHandler_def Let_def)

lemma authRequestHandler_events:
  "ev \<in> set (snd (snd (authRequestHandler e opn w req))) \<Longrightarrow>
   \<exists>a bytes. Body req = Inr bytes
      \<and> ev = CallHandleAccessRequest a (httpsig_NewVerifier (req\<lparr>Body := Inr bytes\<rparr>)) []"
proof (cases "Body req")
  case (Inl err)
  assume "ev \<in> set (snd (snd (authRequestHandler e opn w req)))"
  then show ?thesis by (simp add: authRequestHandler_unreadable[OF Inl])
next
  case (Inr bytes)
  assume a: "ev \<in> set (snd (snd (authRequestHandler e opn w req)))"
  show ?thesis
  proof (cases "json_Unmarshal e (decode_AuthRequest (codecs e)) bytes")
    case (Inl err)
    from a show ?thesis by (simp add: authRequestHandler_malformed[OF Inr Inl])
  next
    case r: (Inr ar)
    from a show ?thesis
      unfolding authRequestHandler_decoded[OF Inr r] using Inr
      by (simp split: prod.splits sum.splits)
  qed
qed

lemma introspectHandler_events:
  "ev \<in> set (snd (snd (introspectHandler e opn w req))) \<Longrightarrow>
   \<exists>a bytes. Body req = Inr bytes
      \<and> ev = CallHandleIntrospection a (httpsig_NewVerifier (req\<lparr>Body := Inr bytes\<rparr>))"
proof (cases "Body req")
  case (Inl err)
  assume "ev \<in> set (snd (snd (introspectHandler e opn w req)))"
  then show ?thesis by (simp add: introspectHandler_unreadable[OF Inl])
next
  case (Inr bytes)
  assume a: "ev \<in> set (snd (snd (introspectHandler e opn w req)))"
  show ?thesis
  proof (cases "json_Unmarshal e (decode_IntrospectRequest (codecs e)) bytes")
    case (Inl err)
    from a show ?thesis by (simp add: introspectHandler_malformed[OF Inr Inl])
  next
    case r: (Inr ar)
    from a show ?thesis
      unfolding introspectHandler_decoded[OF Inr r] using Inr
      by (simp split: prod.splits sum.splits)
  qed
qed


lemma authRequestHandler_mapping:
  "(Body req = Inl err \<longrightarrow>
      denied StatusInternalServerError errRequestDenied
        (fst (authRequestHandler e opn newResponseWriter req)))
   \<and> (Body req = Inr bytes \<and> json_parse e bytes = None \<longrightarrow>
      denied StatusBadRequest errInvalidRequest
        (fst (authRequestHandler e opn newResponseWriter req)))
   \<and> (Body req = Inr bytes
        \<and> json_Unmarshal e (decode_AuthRequest (codecs e)) bytes = Inr a \<longrightarrow>
      (case fst (HandleAccessRequest e (authHandler opn) a
                   (httpsig_NewVerifier (req\<lparr>Body := Inr bytes\<rparr>)) []) of
         Inl err \<Rightarrow>
           denied StatusUnauthorized errRequestDenied
             (fst (authRequestHandler e opn newResponseWriter req))
       | Inr resp \<Rightarrow>
           StatusCode (fst (authRequestHandler e opn newResponseWriter req)) = 200
           \<and> rw_Body (fst (authRequestHandler e opn newResponseWriter req))
               = [Encoded (PAuth resp)]))"
  (is "_ \<and> _ \<and> (_ \<longrightarrow> ?decoded)")
proof (intro conjI impI)
  assume "Body req = Inl err"
  then show "denied StatusInternalServerError errRequestDenied
        (fst (authRequestHandler e opn newResponseWriter req))"
    by (simp add: authRequestHandler_unreadable deny_new)
next
  assume a: "Body req = Inr bytes \<and> json_parse e bytes = None"
  then obtain err' where "json_Unmarshal e (decode_AuthRequest (codecs e)) bytes = Inl err'"
    using json_Unmarshal_invalid by blast
  with a show "denied StatusBadRequest errInvalidRequest
        (fst (authRequestHandler e opn newResponseWriter req))"
    by (simp add: authRequestHandler_malformed deny_new)
next
  assume "Body req = Inr bytes \<and> json_Unmarshal e (decode_AuthRequest (codecs e)) bytes = Inr a"
  then have b: "Body req = Inr bytes"
    and u: "json_Unmarshal e (decode_AuthRequest (codecs e)) bytes = Inr a" by simp_all
  show "?decoded"
    unfolding authRequestHandler_decoded[OF b u]
    by (simp add: deny_new writeResponse_new split: prod.splits sum.splits)
qed

lemma introspectHandler_mapping:
  "(Body req = Inl err \<longrightarrow>
      denied StatusInternalServerError errRequestDenied
        (fst (introspectHandler e opn newResponseWriter req)))
   \<and> (Body req = Inr bytes \<and> json_parse e bytes = None \<longrightarrow>
      denied StatusBadRequest errInvalidRequest
        (fst (introspectHandler e opn newResponseWriter req)))
   \<and> (Body req = Inr bytes
        \<and> json_Unmarshal e (decode_IntrospectRequest (codecs e)) bytes = Inr i \<longrightarrow>
      (case fst (HandleIntrospection e (authHandler opn) i
                   (httpsig_NewVerifier (req\<lparr>Body := Inr bytes\<rparr>))) of
         Inl err \<Rightarrow>
           denied StatusUnauthorized errRequestDenied
             (fst (introspectHandler e opn newResponseWriter req))
       | Inr resp \<Rightarrow>
           StatusCode (fst (introspectHandler e opn newResponseWriter req)) = 200
           \<and> rw_Body (fst (introspectHandler e opn newResponseWriter req))
               = [Encoded (PIntrospect resp)]))"
  (is "_ \<and> _ \<and> (_ \<longrightarrow> ?decoded)")
proof (intro conjI impI)
  assume "Body req = Inl err"
  then show "denied StatusInternalServerError errRequestDenied
        (fst (introspectHandler e opn newResponseWriter req))"
    by (simp add: introspectHandler_unreadable deny_new)
next
  assume a: "Body req = Inr bytes \<and> json_parse e bytes = None"
  then obtain err' where "json_Unmarshal e (decode_IntrospectRequest (codecs e)) bytes = Inl err'"
    using json_Unmarshal_invalid by blast
  with a show "denied StatusBadRequest errInvalidRequest
        (fst (introspectHandler e opn newResponseWriter req))"
    by (simp add: introspectHandler_malformed deny_new)
next
  assume "Body req = Inr bytes \<and> json_Unmarshal e (decode_IntrospectRequest (codecs e)) bytes = Inr i"
  then have b: "Body req = Inr bytes"
    and u: "json_Unmarshal e (decode_IntrospectRequest (codecs e)) bytes = Inr i" by simp_all
  show "?decoded"
    unfolding introspectHandler_decoded[OF b u]
    by (simp add: deny_new writeResponse_new split: prod.splits sum.splits)
qed

lemma authContinueHandler_mapping:
  "(\<not> gnapHeader req \<longrightarrow>
      denied StatusUnauthorized errRequestDenied
        (fst (authContinueHandler e opn newResponseWriter req)))
   \<and> (gnapHeader req \<and> Body req = Inl err \<longrightarrow>
      denied StatusInternalServerError errRequestDenied
        (fst (authContinueHandler e opn newResponseWriter req)))
   \<and> (gnapHeader req \<and> Body req = Inr bytes \<and> json_parse e bytes = None \<longrightarrow>
      denied StatusBadRequest errInvalidRequest
        (fst (authContinueHandler e opn newResponseWriter req)))
   \<and> (gnapHeader req \<and> Body req = Inr bytes
        \<and> json_Unmarshal e decode_ContinueRequest bytes = Inr c \<longrightarrow>
      (case fst (HandleContinueRequest e (authHandler opn) c (tokHeader req ! 1)
                   (httpsig_NewVerifier (req\<lparr>Body := Inr bytes\<rparr>))) of
         Inl err \<Rightarrow>
           denied StatusUnauthorized errRequestDenied
             (fst (authContinueHandler e opn newResponseWriter req))
       | Inr resp \<Rightarrow>
           StatusCode (fst (authContinueHandler e opn newResponseWriter req)) = 200
           \<and> rw_Body (fst (authContinueHandler e opn newResponseWriter req))
               = [Encoded (PAuth resp)]))"
  (is "_ \<and> _ \<and> _ \<and> (_ \<longrightarrow> ?decoded)")
proof (intro conjI impI)
  assume "\<not> gnapHeader req"
  then have "length (tokHeader req) < 2 \<or> tokHeader req ! 0 \<noteq> ''GNAP''"
    by (auto simp: gnapHeader_def)
  then show "denied StatusUnauthorized errRequestDenied
        (fst (authContinueHandler e opn newResponseWriter req))"
    by (simp add: authContinueHandler_bad_header deny_new)
next
  assume a: "gnapHeader req \<and> Body req = Inl err"
  then have g: "\<not> (length (tokHeader req) < 2 \<or> tokHeader req ! 0 \<noteq> ''GNAP'')"
    by (auto simp: gnapHeader_def)
  show "denied StatusInternalServerError errRequestDenied
        (fst (authContinueHandler e opn newResponseWriter req))"
    unfolding authContinueHandler_good_header[OF g] using a by (simp add: deny_new)
next
  assume a: "gnapHeader req \<and> Body req = Inr bytes \<and> json_parse e bytes = None"
  then have g: "\<not> (length (tokHeader req) < 2 \<or> tokHeader req ! 0 \<noteq> ''GNAP'')"
    by (auto simp: gnapHeader_def)
  from a obtain err' where "json_Unmarshal e decode_ContinueRequest bytes = Inl err'"
    using json_Unmarshal_invalid by blast
  then show "denied StatusBadRequest errInvalidRequest
        (fst (authContinueHandler e opn newResponseWriter req))"
    unfolding authContinueHandler_good_header[OF g] using a by (simp add: deny_new)
next
  assume a: "gnapHeader req \<and> Body req = Inr bytes
        \<and> json_Unmarshal e decode_ContinueRequest bytes = Inr c"
  then have g: "\<not> (length (tokHeader req) < 2 \<or> tokHeader req ! 0 \<noteq> ''GNAP'')"
    by (auto simp: gnapHeader_def)
  show "?decoded"
    unfolding authContinueHandler_good_header[OF g] using a
    by (simp add: deny_new writeResponse_new split: prod.splits sum.splits)
qed



lemma gnapHeader_components:
  "(Values_Get (Header req) ''Authorization''
      = replicate a CHR '' '' @ strings_Join ps CHR '' '' @ replicate b CHR '' ''
    \<and> ps \<noteq> [] \<and> (\<forall>p\<in>set ps. CHR '' '' \<notin> set p) \<and> hd ps \<noteq> [] \<and> last ps \<noteq> []
    \<longrightarrow> (gnapHeader req \<longleftrightarrow> 2 \<le> length ps \<and> hd ps = ''GNAP'') \<and> tokHeader req = ps)
   \<and> (Values_Get (Header req) ''Authorization'' = replicate a CHR '' '' \<longrightarrow> \<not> gnapHeader req)"
proof (intro conjI impI)
  assume h: "Values_Get (Header req) ''Authorization''
      = replicate a CHR '' '' @ strings_Join ps CHR '' '' @ replicate b CHR '' ''
    \<and> ps \<noteq> [] \<and> (\<forall>p\<in>set ps. CHR '' '' \<notin> set p) \<and> hd ps \<noteq> [] \<and> last ps \<noteq> []"
  then show t: "tokHeader req = ps" by (intro tokHeader_components) simp_all
  from h have "ps \<noteq> []" by simp
  then show "gnapHeader req \<longleftrightarrow> 2 \<le> length ps \<and> hd ps = ''GNAP''"
    by (simp add: gnapHeader_def t hd_conv_nth)
next
  assume "Values_Get (Header req) ''Authorization'' = replicate a CHR '' ''"
  then have "tokHeader req = [[]]" by (rule tokHeader_spaces)
  then show "\<not> gnapHeader req" by (simp add: gnapHeader_def)
qed

text \<open>
  Claim C3, as amended. The answers of POST /gnap/auth, POST /gnap/continue and POST
  /gnap/introspect to a fresh response writer. On /gnap/continue the header comes first: a
  header that is not \<open>GNAP\<close> and a token gives 401 with \<open>request_denied\<close>, whatever the body is,
  readable or not. Otherwise, and on the other two endpoints always: a body that cannot be read
  gives 500 with \<open>request_denied\<close>; a body that is no JSON text gives 400 with
  \<open>invalid_request\<close>; an error of the underlying handler gives 401 with \<open>request_denied\<close>; its
  success gives 200 with the encoded response object as the whole body. A header is \<open>GNAP\<close> and
  a token when, between any surrounding spaces, it has at least two components separated by
  single spaces and the first is \<open>GNAP\<close>.
\<close>

theorem post_handlers_error_mapping:
  "((Body req = Inl err \<longrightarrow>
      denied StatusInternalServerError errRequestDenied
        (fst (authRequestHandler e opn newResponseWriter req)))
   \<and> (Body req = Inr bytes \<and> json_parse e bytes = None \<longrightarrow>
      denied StatusBadRequest errInvalidRequest
        (fst (authRequestHandler e opn newResponseWriter req)))
   \<and> (Body req = Inr bytes
        \<and> json_Unmarshal e (decode_AuthRequest (codecs e)) bytes = Inr a \<longrightarrow>
      (case fst (HandleAccessRequest e (authHandler opn) a
                   (httpsig_NewVerifier (req\<lparr>Body := Inr bytes\<rparr>)) []) of
         Inl err \<Rightarrow>
           denied StatusUnauthorized errRequestDenied
             (fst (authRequestHandler e opn newResponseWriter req))
       | Inr resp \<Rightarrow>
           StatusCode (fst (authRequestHandler e opn newResponseWriter req)) = 200
           \<and> rw_Body (fst (authRequestHandler e opn newResponseWriter req))
               = [Encoded (PAuth resp)])))
   \<and> ((\<not> gnapHeader req \<longrightarrow>
      denied StatusUnauthorized errRequestDenied
        (fst (authContinueHandler e opn newResponseWriter req)))
   \<and> (gnapHeader req \<and> Body req = Inl err \<longrightarrow>
      denied StatusInternalServerError errRequestDenied
        (fst (authContinueHandler e opn newResponseWriter req)))
   \<and> (gnapHeader req \<and> Body req = Inr bytes \<and> json_parse e bytes = None \<longrightarrow>
      denied StatusBadRequest errInvalidRequest
        (fst (authContinueHandler e opn newResponseWriter req)))
   \<and> (gnapHeader req \<and> Body req = Inr bytes
        \<and> json_Unmarshal e decode_ContinueRequest bytes = Inr c \<longrightarrow>
      (case fst (HandleContinueRequest e (authHandler opn) c (tokHeader req ! 1)
                   (httpsig_NewVerifier (req\<lparr>Body := Inr bytes\<rparr>))) of
         Inl err \<Rightarrow>
           denied StatusUnauthorized errRequestDenied
             (fst (authContinueHandler e opn newResponseWriter req))
       | Inr resp \<Rightarrow>
           StatusCode (fst (authContinueHandler e opn newResponseWriter req)) = 200
           \<and> rw_Body (fst (authContinueHandler e opn newResponseWriter req))
               = [Encoded (PAuth resp)])))
   \<and> ((Body req = Inl err \<longrightarrow>
      denied StatusInternalServerError errRequestDenied
        (fst (introspectHandler e opn newResponseWriter req)))
   \<and> (Body req = Inr bytes \<and> json_parse e bytes = None \<longrightarrow>
      denied StatusBadRequest errInvalidRequest
        (fst (introspectHandler e opn newResponseWriter req)))
   \<and> (Body req = Inr bytes
        \<and> json_Unmarshal e (decode_IntrospectRequest (codecs e)) bytes = Inr i \<longrightarrow>
      (case fst (HandleIntrospection e (authHandler opn) i
                   (httpsig_NewVerifier (req\<lparr>Body := Inr bytes\<rparr>))) of
         Inl err \<Rightarrow>
           denied StatusUnauthorized errRequestDenied
             (fst (introspectHandler e opn newResponseWriter req))
       | Inr resp \<Rightarrow>
           StatusCode (fst (introspectHandler e opn newResponseWriter req)) = 200
           \<and> rw_Body (fst (introspectHandler e opn newResponseWriter req))
               = [Encoded (PIntrospect resp)])))
   \<and> ((Values_Get (Header req) ''Authorization''
      = replicate n CHR '' '' @ strings_Join ps CHR '' '' @ replicate m CHR '' ''
    \<and> ps \<noteq> [] \<and> (\<forall>p\<in>set ps. CHR '' '' \<notin> set p) \<and> hd ps \<noteq> [] \<and> last ps \<noteq> []
    \<longrightarrow> (gnapHeader req \<longleftrightarrow> 2 \<le> length ps \<and> hd ps = ''GNAP'') \<and> tokHeader req = ps)
   \<and> (Values_Get (Header req) ''Authorization'' = replicate n CHR '' '' \<longrightarrow> \<not> gnapHeader req))"
  by (rule conjI[OF authRequestHandler_mapping
                 conjI[OF authContinueHandler_mapping
                   conjI[OF introspectHandler_mapping gnapHeader_components]]])


lemma demo_Unmarshal_AuthRequest:
  "json_Unmarshal demo_env (decode_AuthRequest (codecs demo_env)) ''{}''
     = Inr \<lparr>AccessToken = [], Client = None, Interact = None\<rparr>"
  by (simp add: json_Unmarshal_def demo_env_def decode_AuthRequest_def dec_field_def)

lemma demo_gnapHeader:
  "gnapHeader (demo_request\<lparr>Header := [(''Authorization'', [''GNAP tok1''])]\<rparr>)"
  "tokHeader (demo_request\<lparr>Header := [(''Authorization'', [''GNAP tok1''])]\<rparr>) ! 1 = ''tok1''"
  "\<not> gnapHeader demo_request"
  by (simp_all add: gnapHeader_def tokHeader_def demo_request_def Values_Get_def strings_Trim_def)

theorem post_handlers_error_mapping_witness:
  "denied StatusInternalServerError errRequestDenied
     (fst (authRequestHandler demo_env demo_op newResponseWriter
             (demo_request\<lparr>Body := Inl ''EOF''\<rparr>)))
   \<and> denied StatusBadRequest errInvalidRequest
       (fst (introspectHandler demo_env demo_op newResponseWriter
               (demo_request\<lparr>Body := Inr ''<xml/>''\<rparr>)))
   \<and> denied StatusUnauthorized errRequestDenied
       (fst (authContinueHandler demo_env demo_op newResponseWriter demo_request))
   \<and> denied StatusUnauthorized errRequestDenied
       (fst (authRequestHandler demo_env demo_op newResponseWriter demo_request))
   \<and> StatusCode (fst (authContinueHandler demo_env demo_op newResponseWriter
                        (demo_request\<lparr>Header := [(''Authorization'', [''GNAP tok1''])]\<rparr>))) = 200
   \<and> rw_Body (fst (authContinueHandler demo_env demo_op newResponseWriter
                     (demo_request\<lparr>Header := [(''Authorization'', [''GNAP tok1''])]\<rparr>)))
       = [Encoded (PAuth demo_AuthResponse)]"
proof (intro conjI)
  show "denied StatusInternalServerError errRequestDenied
     (fst (authRequestHandler demo_env demo_op newResponseWriter
             (demo_request\<lparr>Body := Inl ''EOF''\<rparr>)))"
    using post_handlers_error_mapping
            [where req = "demo_request\<lparr>Body := Inl ''EOF''\<rparr>" and err = "''EOF''"
               and e = demo_env and opn = demo_op]
    by simp
  show "denied StatusBadRequest errInvalidRequest
       (fst (introspectHandler demo_env demo_op newResponseWriter
               (demo_request\<lparr>Body := Inr ''<xml/>''\<rparr>)))"
    using post_handlers_error_mapping
            [where req = "demo_request\<lparr>Body := Inr ''<xml/>''\<rparr>" and bytes = "''<xml/>''"
               and e = demo_env and opn = demo_op]
    by (simp add: demo_env_def)
  show "denied StatusUnauthorized errRequestDenied
       (fst (authContinueHandler demo_env demo_op newResponseWriter demo_request))"
    using post_handlers_error_mapping[where req = demo_request and e = demo_env and opn = demo_op]
    by (simp add: demo_gnapHeader)
  show "denied StatusUnauthorized errRequestDenied
       (fst (authRequestHandler demo_env demo_op newResponseWriter demo_request))"
    using post_handlers_error_mapping
            [where req = demo_request and e = demo_env and opn = demo_op and bytes = "''{}''"
               and a = "\<lparr>AccessToken = [], Client = None, Interact = None\<rparr>"]
          demo_Unmarshal_AuthRequest
    by (simp add: demo_request_def demo_env_def)
  let ?r = "demo_request\<lparr>Header := [(''Authorization'', [''GNAP tok1''])]\<rparr>"
  have "StatusCode (fst (authContinueHandler demo_env demo_op newResponseWriter ?r)) = 200
      \<and> rw_Body (fst (authContinueHandler demo_env demo_op newResponseWriter ?r))
          = [Encoded (PAuth demo_AuthResponse)]"
    using post_handlers_error_mapping
            [where req = ?r and e = demo_env and opn = demo_op and bytes = "''{}''"
               and c = "\<lparr>InteractRef = []\<rparr>"]
          demo_Unmarshal_ContinueRequest demo_gnapHeader
    by (simp add: demo_request_def demo_env_def demo_op_def)
  then show "StatusCode (fst (authContinueHandler demo_env demo_op newResponseWriter ?r)) = 200"
    and "rw_Body (fst (authContinueHandler demo_env demo_op newResponseWriter ?r))
          = [Encoded (PAuth demo_AuthResponse)]"
    by simp_all
qed


theorem continue_header_checked_first_counterexample:
  "Body (demo_request\<lparr>Body := Inl ''EOF''\<rparr>) = Inl ''EOF''
   \<and> Values_Get (Header (demo_request\<lparr>Body := Inl ''EOF''\<rparr>)) ''Authorization'' = []
   \<and> denied StatusUnauthorized errRequestDenied
       (fst (authContinueHandler demo_env demo_op newResponseWriter
               (demo_request\<lparr>Body := Inl ''EOF''\<rparr>)))
   \<and> \<not> denied StatusInternalServerError errRequestDenied
       (fst (authContinueHandler demo_env demo_op newResponseWriter
               (demo_request\<lparr>Body := Inl ''EOF''\<rparr>)))
   \<and> json_parse demo_env ''<xml/>'' = None
   \<and> denied StatusUnauthorized errRequestDenied
       (fst (authContinueHandler demo_env demo_op newResponseWriter
               (demo_request\<lparr>Body := Inr ''<xml/>''\<rparr>)))
   \<and> \<not> denied StatusBadRequest errInvalidRequest
       (fst (authContinueHandler demo_env demo_op newResponseWriter
               (demo_request\<lparr>Body := Inr ''<xml/>''\<rparr>)))"
proof -
  have t: "tokHeader (demo_request\<lparr>Body := x\<rparr>) = [[]]" for x
    by (simp add: tokHeader_def demo_request_def Values_Get_def strings_Trim_def)
  have r: "authContinueHandler demo_env demo_op newResponseWriter (demo_request\<lparr>Body := x\<rparr>)
             = (deny newResponseWriter StatusUnauthorized errRequestDenied, demo_op, [])" for x
    by (rule authContinueHandler_bad_header) (simp add: t)
  have s: "StatusCode (deny newResponseWriter StatusUnauthorized errRequestDenied) = 401"
    using deny_new[of StatusUnauthorized errRequestDenied]
    by (simp add: denied_def StatusUnauthorized_def)
  have p: "json_parse demo_env ''<xml/>'' = None" by (simp add: demo_env_def)
  have v: "Values_Get (Header demo_request) ''Authorization'' = []"
    by (simp add: demo_request_def Values_Get_def)
  show ?thesis
    by (simp add: r deny_new p v)
       (simp add: denied_def s StatusInternalServerError_def StatusBadRequest_def)
qed

section \<open>The retry loop\<close>


lemma retry_loop_events:
  assumes a: "retry_loop operation b k tr = Some y"
    and t0: "\<forall>ev\<in>set tr. Q ev"
    and o0: "\<forall>k. \<forall>ev\<in>set (snd (operation k)). Q ev"
    and q: "\<forall>err d. Q (Notify err d)" "\<forall>d. Q (Sleep d)"
  shows "\<forall>ev\<in>set (snd y). Q ev"
proof -
  have "(\<forall>ev\<in>set tr. Q ev) \<longrightarrow> (\<forall>k. \<forall>ev\<in>set (snd (operation k)). Q ev)
          \<longrightarrow> (\<forall>ev\<in>set (snd y). Q ev)"
    apply (rule retry_loop.raw_induct
             [where P = "\<lambda>operation b k tr y.
                (\<forall>ev\<in>set tr. Q ev) \<longrightarrow> (\<forall>k. \<forall>ev\<in>set (snd (operation k)). Q ev)
                  \<longrightarrow> (\<forall>ev\<in>set (snd y). Q ev)", OF _ a])
    subgoal premises p for rl operation b k tr y
    proof (intro impI)
      assume t: "\<forall>ev\<in>set tr. Q ev" and o: "\<forall>k. \<forall>ev\<in>set (snd (operation k)). Q ev"
      obtain r ev where ok: "operation k = (r, ev)" by (cases "operation k")
      with o have ev: "\<forall>x\<in>set ev. Q x" by (metis snd_conv)
      show "\<forall>ev\<in>set (snd y). Q ev"
      proof (cases r)
        case (Inr v)
        with p(2) ok have "y = (Inr v, tr @ ev)" by simp
        with t ev show ?thesis by auto
      next
        case (Inl err)
        obtain n b' where nb: "NextBackOff b = (n, b')" by (cases "NextBackOff b")
        show ?thesis
        proof (cases n)
          case None
          with p(2) ok Inl nb have "y = (Inl err, tr @ ev)" by simp
          with t ev show ?thesis by auto
        next
          case (Some d)
          with p(2) ok Inl nb
          have "rl operation b' (Suc k) (tr @ ev @ [Notify err d, Sleep d]) = Some y"
            by simp
          from p(1)[OF this] t ev o q show ?thesis by auto
        qed
      qed
    qed
    done
  with t0 o0 show ?thesis by blast
qed

lemma retry_loop_forever:
  assumes m: "maxTries b = 0" and f: "\<forall>k. \<exists>err ev. operation k = (Inl err, ev)"
  shows "retry_loop operation b k tr = None"
proof (cases "retry_loop operation b k tr")
  case None
  then show ?thesis .
next
  case (Some y)
  have "\<not> (maxTries b = 0 \<and> (\<forall>k. \<exists>err ev. operation k = (Inl err, ev)))"
    apply (rule retry_loop.raw_induct
             [where P = "\<lambda>operation b k tr y.
                \<not> (maxTries b = 0 \<and> (\<forall>k. \<exists>err ev. operation k = (Inl err, ev)))", OF _ Some])
    subgoal premises p for rl operation b k tr y
    proof
      assume a: "maxTries b = 0 \<and> (\<forall>k. \<exists>err ev. operation k = (Inl err, ev))"
      then obtain err ev where ok: "operation k = (Inl err, ev)" by blast
      from a have nb: "NextBackOff b = (Some (delegate b), b)" by (simp add: NextBackOff_def)
      from p(2) ok nb
      have "rl operation b (Suc k) (tr @ ev @ [Notify err (delegate b), Sleep (delegate b)])
              = Some y"
        by simp
      from p(1)[OF this] a show False by simp
    qed
    done
  with m f show ?thesis by simp
qed



lemma retry_loop_upto:
  "0 < maxTries b \<Longrightarrow> numTries b \<le> maxTries b \<Longrightarrow> n = maxTries b - numTries b \<Longrightarrow>
   retry_loop operation b k tr = Some (retry_upto n operation (delegate b) k tr)"
proof (induction n arbitrary: b k tr)
  case 0
  then have nb: "NextBackOff b = (None, b)" by (simp add: NextBackOff_def)
  show ?case
    by (subst retry_loop.simps) (simp add: nb split: prod.splits sum.splits)
next
  case (Suc n)
  let ?b = "b\<lparr>numTries := Suc (numTries b)\<rparr>"
  from Suc.prems have nb: "NextBackOff b = (Some (delegate b), ?b)"
    by (simp add: NextBackOff_def)
  from Suc.prems have n: "n = maxTries ?b - numTries ?b" "numTries ?b \<le> maxTries ?b"
    "0 < maxTries ?b" by simp_all
  have ih: "\<And>k tr. retry_loop operation ?b k tr
                    = Some (retry_upto n operation (delegate b) k tr)"
    using Suc.IH[OF n(3) n(2) n(1)] by simp
  show ?case
    by (subst retry_loop.simps) (simp add: nb ih split: prod.splits sum.splits)
qed

lemma retry_upto_trace:
  "\<exists>evs. snd (retry_upto n (\<lambda>k. (f k, [NewProvider u])) d k tr) = tr @ evs
     \<and> length (filter is_NewProvider evs) \<le> n + 1
     \<and> length (filter is_NewProvider evs) = length (filter is_Sleep evs) + 1
     \<and> (\<forall>x. Sleep x \<in> set evs \<longrightarrow> x = d)
     \<and> (\<forall>ev\<in>set evs. ev = NewProvider u \<or> is_Sleep ev \<or> (\<exists>err. ev = Notify err d))
     \<and> ((\<forall>j. isl (f j)) \<longrightarrow>
          isl (fst (retry_upto n (\<lambda>k. (f k, [NewProvider u])) d k tr))
          \<and> length (filter is_NewProvider evs) = n + 1)"
proof (induction n arbitrary: k tr)
  case 0
  show ?case by (rule exI[of _ "[NewProvider u]"]) simp
next
  case (Suc n)
  show ?case
  proof (cases "f k")
    case (Inr v)
    then have "\<not> isl (f k)" by simp
    then have nf: "\<not> (\<forall>j. isl (f j))" by blast
    show ?thesis by (rule exI[of _ "[NewProvider u]"]) (use Inr nf in simp)
  next
    case (Inl err)
    from Suc.IH[of "Suc k" "tr @ [NewProvider u] @ [Notify err d, Sleep d]"]
    obtain evs where evs:
      "snd (retry_upto n (\<lambda>k. (f k, [NewProvider u])) d (Suc k)
              (tr @ [NewProvider u] @ [Notify err d, Sleep d]))
         = (tr @ [NewProvider u] @ [Notify err d, Sleep d]) @ evs"
      "length (filter is_NewProvider evs) \<le> n + 1"
      "length (filter is_NewProvider evs) = length (filter is_Sleep evs) + 1"
      "\<forall>x. Sleep x \<in> set evs \<longrightarrow> x = d"
      "\<forall>ev\<in>set evs. ev = NewProvider u \<or> is_Sleep ev \<or> (\<exists>err. ev = Notify err d)"
      "(\<forall>j. isl (f j)) \<longrightarrow>
          isl (fst (retry_upto n (\<lambda>k. (f k, [NewProvider u])) d (Suc k)
                     (tr @ [NewProvider u] @ [Notify err d, Sleep d])))
          \<and> length (filter is_NewProvider evs) = n + 1"
      by blast
    show ?thesis
      by (rule exI[of _ "[NewProvider u, Notify err d, Sleep d] @ evs"]) (use Inl evs in auto)
  qed
qed


section \<open>The provider cache\<close>


lemma initOIDCProvider_events:
  assumes "initOIDCProvider e opn pid cfg = Some (r, tr)"
  shows "\<forall>ev\<in>set tr. init_event ev"
proof -
  let ?operation = "\<lambda>k. (oidc_NewProvider e k (pc_URL cfg) (pc_SkipIssuerCheck cfg),
                         [NewProvider (pc_URL cfg)])"
  let ?b = "(WithMaxRetries time_Second (timeout opn))\<lparr>numTries := 0\<rparr>"
  from assms obtain r' where y: "retry_loop ?operation ?b 0 [] = Some (r', tr)"
    by (auto simp: initOIDCProvider_def RetryNotify_def split: option.splits sum.splits)
  from retry_loop_events[OF y, of init_event] show ?thesis
    by (simp add: init_event_def)
qed

lemma getProvider_cases:
  assumes "getProvider e opn pid = Some (r, opn', tr)"
  shows "(\<exists>prov. map_of (cachedOIDCProviders opn) pid = Some prov \<and> r = Inr prov \<and> opn' = opn
            \<and> tr = [RLock, CacheRead pid, RUnlock])
       \<or> (map_of (cachedOIDCProviders opn) pid = None \<and> isl r \<and> opn' = opn
            \<and> (\<exists>mid. tr = [RLock, CacheRead pid, RUnlock] @ mid \<and> (\<forall>ev\<in>set mid. init_event ev)))
       \<or> (\<exists>prov mid cfg. map_of (cachedOIDCProviders opn) pid = None
            \<and> map_of (oidcProvidersConfig opn) pid = Some cfg
            \<and> initOIDCProvider e opn pid cfg = Some (Inr prov, mid)
            \<and> r = Inr prov
            \<and> opn' = opn\<lparr>cachedOIDCProviders :=
                           AList.update pid prov (cachedOIDCProviders opn)\<rparr>
            \<and> tr = [RLock, CacheRead pid, RUnlock] @ mid @ [Lock, CacheWrite pid, Unlock]
            \<and> (\<forall>ev\<in>set mid. init_event ev))"
proof (cases "map_of (cachedOIDCProviders opn) pid")
  case (Some prov)
  with assms show ?thesis by (simp add: getProvider_def)
next
  case None
  show ?thesis
  proof (cases "map_of (oidcProvidersConfig opn) pid")
    case n: None
    with assms None show ?thesis by (auto simp: getProvider_def)
  next
    case (Some cfg)
    show ?thesis
    proof (cases "initOIDCProvider e opn pid cfg")
      case n: None
      with assms None Some show ?thesis by (simp add: getProvider_def)
    next
      case s: (Some y)
      obtain r' mid where y: "y = (r', mid)" by (cases y)
      from initOIDCProvider_events[OF s[unfolded y]] have m: "\<forall>ev\<in>set mid. init_event ev" .
      show ?thesis
      proof (cases r')
        case (Inl err)
        with assms None Some s y m show ?thesis by (auto simp: getProvider_def)
      next
        case (Inr prov)
        with assms None Some s y m show ?thesis by (auto simp: getProvider_def)
      qed
    qed
  qed
qed

lemma held_at_append: "held_at s (xs @ ys) = held_at s xs @ held_at (foldl lock_step s xs) ys"
  by (induction xs arbitrary: s) auto

lemma init_event_lock_step: "init_event ev \<Longrightarrow> lock_step s ev = s"
  by (cases ev) (auto simp: init_event_def)

lemma held_at_init:
  "\<forall>ev\<in>set mid. init_event ev \<Longrightarrow>
   held_at s mid = map (\<lambda>ev. (ev, s)) mid \<and> foldl lock_step s mid = s"
  by (induction mid) (auto simp: init_event_lock_step)


section \<open>Initialising a provider\<close>


lemma initOIDCProvider_positive:
  assumes "0 < timeout opn"
  shows "initOIDCProvider e opn pid cfg =
     (case retry_upto (timeout opn)
             (\<lambda>k. (oidc_NewProvider e k (pc_URL cfg) (pc_SkipIssuerCheck cfg),
                    [NewProvider (pc_URL cfg)])) time_Second 0 [] of
        (Inl err, tr) \<Rightarrow>
          Some (Inl (Sprintf e ''failed to init oidc provider [%s] with url [%s]: %w''
                       [pid, pc_URL cfg, err]), tr)
      | (Inr idp, tr) \<Rightarrow>
          Some (Inr \<lparr>name = pid, clientID = pc_ClientID cfg,
                     clientSecret = pc_ClientSecret cfg, callback = callbackURL opn,
                     skipIssuerCheck = pc_SkipIssuerCheck cfg, op = idp\<rparr>, tr))"
proof -
  let ?b = "(WithMaxRetries time_Second (timeout opn))\<lparr>numTries := 0\<rparr>"
  have "retry_loop (\<lambda>k. (oidc_NewProvider e k (pc_URL cfg) (pc_SkipIssuerCheck cfg),
                    [NewProvider (pc_URL cfg)])) ?b 0 []
        = Some (retry_upto (timeout opn)
             (\<lambda>k. (oidc_NewProvider e k (pc_URL cfg) (pc_SkipIssuerCheck cfg),
                    [NewProvider (pc_URL cfg)])) (delegate ?b) 0 [])"
    by (rule retry_loop_upto) (use assms in \<open>simp_all add: WithMaxRetries_def\<close>)
  then show ?thesis
    by (simp add: initOIDCProvider_def RetryNotify_def WithMaxRetries_def split: prod.splits sum.splits)
qed

lemma initOIDCProvider_forever:
  assumes "timeout opn = 0"
    and "\<forall>k. isl (oidc_NewProvider e k (pc_URL cfg) (pc_SkipIssuerCheck cfg))"
  shows "initOIDCProvider e opn pid cfg = None"
proof -
  let ?operation = "\<lambda>k. (oidc_NewProvider e k (pc_URL cfg) (pc_SkipIssuerCheck cfg),
                    [NewProvider (pc_URL cfg)])"
  have f: "\<forall>k. \<exists>err ev. ?operation k = (Inl err, ev)"
  proof
    fix k
    from assms(2) have "isl (oidc_NewProvider e k (pc_URL cfg) (pc_SkipIssuerCheck cfg))" by blast
    then obtain err where "oidc_NewProvider e k (pc_URL cfg) (pc_SkipIssuerCheck cfg) = Inl err"
      by (cases "oidc_NewProvider e k (pc_URL cfg) (pc_SkipIssuerCheck cfg)") auto
    then show "\<exists>err ev. ?operation k = (Inl err, ev)" by simp
  qed
  have "retry_loop ?operation ((WithMaxRetries time_Second (timeout opn))\<lparr>numTries := 0\<rparr>) 0 []
          = None"
    by (rule retry_loop_forever[OF _ f]) (simp add: WithMaxRetries_def assms(1))
  then show ?thesis by (simp add: initOIDCProvider_def RetryNotify_def)
qed

text \<open>
  Claim C9, as amended. With a positive startup timeout \<open>n\<close> the initialisation of a provider
  returns: it calls \<open>oidc.NewProvider\<close> at most \<open>n + 1\<close> times (the first call and at most \<open>n\<close>
  retries), sleeps exactly once between two calls, always for one second, and when every call
  fails it returns an error after the call number \<open>n + 1\<close>. (With the timeout 0 the back-off
  never answers \<open>Stop\<close>, and a provider that stays down is retried without end.)
\<close>

theorem init_retries_bounded:
  "0 < timeout opn \<Longrightarrow>
   \<exists>r tr. initOIDCProvider e opn pid cfg = Some (r, tr)
     \<and> length (filter is_NewProvider tr) \<le> timeout opn + 1
     \<and> length (filter is_NewProvider tr) = length (filter is_Sleep tr) + 1
     \<and> (\<forall>d. Sleep d \<in> set tr \<longrightarrow> d = time_Second)
     \<and> ((\<forall>k. isl (oidc_NewProvider e k (pc_URL cfg) (pc_SkipIssuerCheck cfg))) \<longrightarrow>
          isl r \<and> length (filter is_NewProvider tr) = timeout opn + 1)"
proof -
  assume pos: "0 < timeout opn"
  let ?f = "\<lambda>k. oidc_NewProvider e k (pc_URL cfg) (pc_SkipIssuerCheck cfg)"
  let ?y = "retry_upto (timeout opn) (\<lambda>k. (?f k, [NewProvider (pc_URL cfg)])) time_Second 0 []"
  from retry_upto_trace[of "timeout opn" ?f "pc_URL cfg" time_Second 0 "[]"]
  obtain evs where evs: "snd ?y = evs"
     "length (filter is_NewProvider evs) \<le> timeout opn + 1"
     "length (filter is_NewProvider evs) = length (filter is_Sleep evs) + 1"
     "\<forall>x. Sleep x \<in> set evs \<longrightarrow> x = time_Second"
     "(\<forall>j. isl (?f j)) \<longrightarrow> isl (fst ?y) \<and> length (filter is_NewProvider evs) = timeout opn + 1"
    by auto
  obtain r0 where y: "?y = (r0, evs)" using evs(1) by (cases ?y) auto
  show ?thesis
  proof (cases r0)
    case (Inl err)
    have "initOIDCProvider e opn pid cfg
            = Some (Inl (Sprintf e ''failed to init oidc provider [%s] with url [%s]: %w''
                       [pid, pc_URL cfg, err]), evs)"
      by (simp add: initOIDCProvider_positive[OF pos] y Inl)
    with evs show ?thesis by simp
  next
    case (Inr idp)
    have "initOIDCProvider e opn pid cfg
            = Some (Inr \<lparr>name = pid, clientID = pc_ClientID cfg,
                     clientSecret = pc_ClientSecret cfg, callback = callbackURL opn,
                     skipIssuerCheck = pc_SkipIssuerCheck cfg, op = idp\<rparr>, evs)"
      by (simp add: initOIDCProvider_positive[OF pos] y Inr)
    with evs y Inr show ?thesis by simp
  qed
qed

lemma demo_down: "\<forall>k. isl (oidc_NewProvider demo_env k (pc_URL (demo_provider ''https://down''))
                           (pc_SkipIssuerCheck (demo_provider ''https://down'')))"
  by (simp add: demo_env_def demo_provider_def)

theorem init_retries_unbounded_counterexample:
  "initOIDCProvider demo_env (demo_op\<lparr>timeout := 0\<rparr>) ''down'' (demo_provider ''https://down'')
     = None"
  by (rule initOIDCProvider_forever[OF _ demo_down]) simp

theorem init_retries_bounded_witness:
  "0 < timeout demo_op
   \<and> (\<exists>r tr. initOIDCProvider demo_env demo_op ''down'' (demo_provider ''https://down'')
               = Some (r, tr)
        \<and> length (filter is_NewProvider tr) \<le> 3
        \<and> length (filter is_Sleep tr) + 1 = 3
        \<and> isl r \<and> length (filter is_NewProvider tr) = 3)"
proof -
  have p: "0 < timeout demo_op" by (simp add: demo_op_def)
  have t: "timeout demo_op = 2" by (simp add: demo_op_def)
  from init_retries_bounded[OF p, of demo_env "''down''" "demo_provider ''https://down''"]
       demo_down t p
  show ?thesis by auto
qed


section \<open>Locks around the provider cache\<close>


lemma held_at_getProvider:
  assumes m: "\<forall>ev\<in>set mid. init_event ev"
  shows "held_at Unlocked ([RLock, CacheRead pid, RUnlock] @ mid @ rest)
           = [(RLock, Unlocked), (CacheRead pid, ReadLocked), (RUnlock, ReadLocked)]
             @ map (\<lambda>ev. (ev, Unlocked)) mid @ held_at Unlocked rest"
  using held_at_init[OF m, of Unlocked] by (simp add: held_at_append)

lemma init_event_simps [simp]:
  "\<not> init_event RLock" "\<not> init_event RUnlock" "\<not> init_event Lock" "\<not> init_event Unlock"
  "\<not> init_event (CacheRead p)" "\<not> init_event (CacheWrite p)"
  by (simp_all add: init_event_def)

text \<open>
  Claim C5, as amended. In every run of \<open>getProvider\<close> that returns, the cache is looked up once,
  at the start and under the shared read lock, and the read lock is released at once; every call
  of \<open>oidc.NewProvider\<close> and every back-off sleep happens with no lock held; under the exclusive
  lock the run only stores the new provider in the cache and unlocks (no second look-up, no
  initialisation).
\<close>

theorem provider_cache_locking:
  "getProvider e opn pid = Some (r, opn', tr) \<Longrightarrow>
   take 3 tr = [RLock, CacheRead pid, RUnlock]
   \<and> (\<forall>x\<in>set (held_at Unlocked tr).
         (snd x = ReadLocked \<longrightarrow> fst x = CacheRead pid \<or> fst x = RUnlock)
       \<and> (snd x = WriteLocked \<longrightarrow> fst x = CacheWrite pid \<or> fst x = Unlock)
       \<and> (init_event (fst x) \<longrightarrow> snd x = Unlocked))
   \<and> length (filter (\<lambda>ev. ev = CacheRead pid) tr) = 1"
proof -
  assume a: "getProvider e opn pid = Some (r, opn', tr)"
  from getProvider_cases[OF a]
  consider (hit) "tr = [RLock, CacheRead pid, RUnlock] @ [] @ []"
    | (fail) mid where "tr = [RLock, CacheRead pid, RUnlock] @ mid @ []"
        "\<forall>ev\<in>set mid. init_event ev"
    | (init) mid where "tr = [RLock, CacheRead pid, RUnlock] @ mid @ [Lock, CacheWrite pid, Unlock]"
        "\<forall>ev\<in>set mid. init_event ev"
    by auto
  then show ?thesis
  proof cases
    case hit
    then show ?thesis by simp
  next
    case (fail mid)
    have f: "filter (\<lambda>ev. ev = CacheRead pid) mid = []"
      using fail(2) by (auto simp: filter_empty_conv)
    show ?thesis
      unfolding fail(1) held_at_getProvider[OF fail(2)] using fail(2) f by auto
  next
    case (init mid)
    have f: "filter (\<lambda>ev. ev = CacheRead pid) mid = []"
      using init(2) by (auto simp: filter_empty_conv)
    show ?thesis
      unfolding init(1) held_at_getProvider[OF init(2)] using init(2) f by auto
  qed
qed

lemma demo_init_idp1:
  "initOIDCProvider demo_env demo_op ''idp1'' (demo_provider ''https://idp1'')
     = Some (Inr \<lparr>name = ''idp1'', clientID = ''client'', clientSecret = ''secret'',
                  callback = ''https://as/oidc/callback'', skipIssuerCheck = False,
                  op = ''https://idp1''\<rparr>,
             [NewProvider ''https://idp1''])"
proof -
  have p: "0 < timeout demo_op" by (simp add: demo_op_def)
  have t: "timeout demo_op = Suc (Suc 0)" by (simp add: demo_op_def)
  show ?thesis
    unfolding initOIDCProvider_positive[OF p] t
    by (simp add: demo_env_def demo_provider_def demo_op_def)
qed

lemma demo_getProvider_idp1:
  "getProvider demo_env demo_op ''idp1''
     = Some (Inr \<lparr>name = ''idp1'', clientID = ''client'', clientSecret = ''secret'',
                  callback = ''https://as/oidc/callback'', skipIssuerCheck = False,
                  op = ''https://idp1''\<rparr>,
             demo_op\<lparr>cachedOIDCProviders :=
                [(''idp1'', \<lparr>name = ''idp1'', clientID = ''client'', clientSecret = ''secret'',
                  callback = ''https://as/oidc/callback'', skipIssuerCheck = False,
                  op = ''https://idp1''\<rparr>)]\<rparr>,
             [RLock, CacheRead ''idp1'', RUnlock, NewProvider ''https://idp1'',
              Lock, CacheWrite ''idp1'', Unlock])"
proof -
  have c: "map_of (cachedOIDCProviders demo_op) ''idp1'' = None"
    "map_of (oidcProvidersConfig demo_op) ''idp1'' = Some (demo_provider ''https://idp1'')"
    "cachedOIDCProviders demo_op = []"
    by (simp_all add: demo_op_def)
  show ?thesis
    by (simp add: getProvider_def c demo_init_idp1)
qed

theorem provider_init_outside_locks_counterexample:
  "map_option (\<lambda>y. held_at Unlocked (snd (snd y))) (getProvider demo_env demo_op ''idp1'')
     = Some [(RLock, Unlocked), (CacheRead ''idp1'', ReadLocked), (RUnlock, ReadLocked),
             (NewProvider ''https://idp1'', Unlocked),
             (Lock, Unlocked), (CacheWrite ''idp1'', WriteLocked), (Unlock, WriteLocked)]"
  by (simp add: demo_getProvider_idp1)

theorem provider_cache_locking_witness:
  "getProvider demo_env demo_op ''idp1''
     = Some (Inr \<lparr>name = ''idp1'', clientID = ''client'', clientSecret = ''secret'',
                  callback = ''https://as/oidc/callback'', skipIssuerCheck = False,
                  op = ''https://idp1''\<rparr>,
             demo_op\<lparr>cachedOIDCProviders :=
                [(''idp1'', \<lparr>name = ''idp1'', clientID = ''client'', clientSecret = ''secret'',
                  callback = ''https://as/oidc/callback'', skipIssuerCheck = False,
                  op = ''https://idp1''\<rparr>)]\<rparr>,
             [RLock, CacheRead ''idp1'', RUnlock, NewProvider ''https://idp1'',
              Lock, CacheWrite ''idp1'', Unlock])
   \<and> take 3 [RLock, CacheRead ''idp1'', RUnlock, NewProvider ''https://idp1'',
              Lock, CacheWrite ''idp1'', Unlock] = [RLock, CacheRead ''idp1'', RUnlock]
   \<and> length (filter (\<lambda>ev. ev = CacheRead ''idp1'')
               [RLock, CacheRead ''idp1'', RUnlock, NewProvider ''https://idp1'',
                Lock, CacheWrite ''idp1'', Unlock]) = 1"
  using provider_cache_locking[OF demo_getProvider_idp1] demo_getProvider_idp1 by blast


section \<open>The continuation token of an access request\<close>


text \<open>
  Claim C6, as amended. POST /gnap/auth always invokes \<open>HandleAccessRequest\<close> with the empty
  continuation token: every call the handler makes carries the token \<open>""\<close>, and a request whose
  body decodes makes exactly that one call, whatever its headers are.
\<close>

theorem auth_request_passes_empty_token:
  "(\<forall>a v tok. CallHandleAccessRequest a v tok \<in> set (snd (snd (authRequestHandler e opn w req)))
        \<longrightarrow> tok = [])
   \<and> (\<forall>bytes a. Body req = Inr bytes
          \<and> json_Unmarshal e (decode_AuthRequest (codecs e)) bytes = Inr a
        \<longrightarrow> snd (snd (authRequestHandler e opn w req))
              = [CallHandleAccessRequest a (httpsig_NewVerifier (req\<lparr>Body := Inr bytes\<rparr>)) []])"
proof (intro conjI allI impI)
  fix a v tok
  assume "CallHandleAccessRequest a v tok \<in> set (snd (snd (authRequestHandler e opn w req)))"
  from authRequestHandler_events[OF this] show "tok = []" by auto
next
  fix bytes a
  assume "Body req = Inr bytes \<and> json_Unmarshal e (decode_AuthRequest (codecs e)) bytes = Inr a"
  then have b: "Body req = Inr bytes"
    and u: "json_Unmarshal e (decode_AuthRequest (codecs e)) bytes = Inr a" by simp_all
  show "snd (snd (authRequestHandler e opn w req))
          = [CallHandleAccessRequest a (httpsig_NewVerifier (req\<lparr>Body := Inr bytes\<rparr>)) []]"
    unfolding authRequestHandler_decoded[OF b u] by (simp split: prod.splits sum.splits)
qed

theorem auth_request_token_counterexample:
  "\<not> (\<exists>(e :: (nat, string, (string \<times> string) list) env) opn w req a v tok.
        CallHandleAccessRequest a v tok \<in> set (snd (snd (authRequestHandler e opn w req)))
        \<and> tok \<noteq> [])"
proof
  assume "\<exists>(e :: (nat, string, (string \<times> string) list) env) opn w req a v tok.
        CallHandleAccessRequest a v tok \<in> set (snd (snd (authRequestHandler e opn w req)))
        \<and> tok \<noteq> []"
  then obtain e :: "(nat, string, (string \<times> string) list) env" and opn w req a v tok
    where ev: "CallHandleAccessRequest a v tok \<in> set (snd (snd (authRequestHandler e opn w req)))"
      and t: "tok \<noteq> []"
    by blast
  from authRequestHandler_events[OF ev] t show False by auto
qed

theorem auth_request_passes_empty_token_witness:
  "snd (snd (authRequestHandler demo_env demo_op newResponseWriter
               (demo_request\<lparr>Header := [(''Authorization'', [''GNAP tok1''])]\<rparr>)))
     = [CallHandleAccessRequest \<lparr>AccessToken = [], Client = None, Interact = None\<rparr>
          (httpsig_NewVerifier
             (demo_request\<lparr>Header := [(''Authorization'', [''GNAP tok1''])],
                           Body := Inr ''{}''\<rparr>)) []]"
  using auth_request_passes_empty_token
          [where req = "demo_request\<lparr>Header := [(''Authorization'', [''GNAP tok1''])]\<rparr>"
             and e = demo_env and opn = demo_op and w = newResponseWriter]
        demo_Unmarshal_AuthRequest
  by (simp add: demo_request_def)


section \<open>The OIDC handlers and the events of a run\<close>


lemma init_event_internal: "init_event ev \<Longrightarrow> internal_event ev"
  by (cases ev) (auto simp: init_event_def internal_event_def)

lemma internal_event_simps [simp]:
  "internal_event RLock" "internal_event RUnlock" "internal_event Lock" "internal_event Unlock"
  "internal_event (CacheRead p)" "internal_event (CacheWrite p)" "internal_event (StoreGet k)"
  "internal_event (CallCompleteInteraction t c)"
  by (simp_all add: internal_event_def)

lemma getProvider_internal:
  assumes "getProvider e opn pid = Some (r, opn', tr)"
  shows "(\<forall>ev\<in>set tr. internal_event ev) \<and> transientStore opn' = transientStore opn
         \<and> authHandler opn' = authHandler opn
         \<and> oidcProvidersConfig opn' = oidcProvidersConfig opn
         \<and> closePopupHTML opn' = closePopupHTML opn"
  using getProvider_cases[OF assms]
  by (elim disjE exE conjE) (auto dest: init_event_internal)

lemma oidcCallbackHandler_internal:
  assumes "oidcCallbackHandler e opn w r = Some (w', opn', tr)"
  shows "(\<forall>ev\<in>set tr. internal_event ev) \<and> transientStore opn' = transientStore opn"
  using assms
  apply (simp add: oidcCallbackHandler_def Let_def split: if_splits)
  apply (simp split: sum.splits option.splits prod.splits json.splits)
  apply (auto dest!: getProvider_internal)
  done

lemma oidcLoginHandler_missing:
  "Values_Get (Query r) providerQueryParam = [] \<or> Values_Get (Query r) txnQueryParam = [] \<Longrightarrow>
   \<exists>msg. oidcLoginHandler e opn w r
           = Some (writeErrorResponse e w StatusBadRequest msg [], opn, [])"
  by (auto simp: oidcLoginHandler_def Let_def)

lemma oidcLoginHandler_provider:
  assumes "Values_Get (Query r) providerQueryParam \<noteq> []"
    and "Values_Get (Query r) txnQueryParam \<noteq> []"
    and "getProvider e opn (Values_Get (Query r) providerQueryParam) = Some (Inr provider, opn', tr)"
    and "map_of (oidcProvidersConfig opn) (Values_Get (Query r) providerQueryParam)
           = Some provConfig"
  shows "oidcLoginHandler e opn w r =
     (case store_Put e (transientStore opn) (uuid_New e)
             (json_print e
                (encode_oidcTransientData
                   \<lparr>Provider = Values_Get (Query r) providerQueryParam,
                    TxnID = Values_Get (Query r) txnQueryParam\<rparr>)) of
        Inl err \<Rightarrow>
          Some (writeErrorResponse e w StatusInternalServerError
                  (Sprintf e ''failed to write state data to transient store: %s'' [err]) [],
                opn',
                tr @ [StorePut (uuid_New e)
                        (json_print e
                           (encode_oidcTransientData
                              \<lparr>Provider = Values_Get (Query r) providerQueryParam,
                               TxnID = Values_Get (Query r) txnQueryParam\<rparr>))])
      | Inr st \<Rightarrow>
          Some (http_Redirect w r
                  (AuthCodeURL e provider (login_scopes provConfig) (uuid_New e)
                     [(''access_type'', ''online''),
                      (providerQueryParam, Values_Get (Query r) providerQueryParam)])
                  StatusFound,
                opn'\<lparr>transientStore := st\<rparr>,
                tr @ [StorePut (uuid_New e)
                        (json_print e
                           (encode_oidcTransientData
                              \<lparr>Provider = Values_Get (Query r) providerQueryParam,
                               TxnID = Values_Get (Query r) txnQueryParam\<rparr>))]))"
proof -
  from getProvider_internal[OF assms(3)]
  have s: "transientStore opn' = transientStore opn"
    "oidcProvidersConfig opn' = oidcProvidersConfig opn" by simp_all
  show ?thesis
    using assms by (simp add: oidcLoginHandler_def Let_def s split: sum.splits)
qed

lemma oidcLoginHandler_events:
  assumes "oidcLoginHandler e opn w r = Some (w', opn', tr)"
  shows "\<forall>ev\<in>set tr. event_verifier ev = None"
  using assms
  apply (simp add: oidcLoginHandler_def Let_def split: if_splits)
  apply (simp add: Let_def split: sum.splits option.splits prod.splits)
  apply (auto dest!: getProvider_internal simp: internal_event_def)
  done

lemma interactHandler_events: "snd (snd (interactHandler e opn w r)) = []"
  by (simp add: interactHandler_def Let_def split: sum.splits)

lemma authProvidersHandler_events: "snd (snd (authProvidersHandler e opn w r)) = []"
  by (simp add: authProvidersHandler_def)


section \<open>The bypass verifier\<close>


lemma authContinueHandler_verifier:
  assumes "ev \<in> set (snd (snd (authContinueHandler e opn w req)))"
  shows "event_verifier ev \<noteq> Some skipVerify"
proof (cases "length (tokHeader req) < 2 \<or> tokHeader req ! 0 \<noteq> ''GNAP''")
  case True
  with assms show ?thesis by (simp add: authContinueHandler_bad_header)
next
  case False
  from assms show ?thesis
    unfolding authContinueHandler_good_header[OF False]
    by (auto split: sum.splits prod.splits)
qed

lemma demo_Unmarshal_IntrospectRequest:
  "json_Unmarshal demo_env (decode_IntrospectRequest (codecs demo_env)) ''{}''
     = Inr \<lparr>iq_AccessToken = [], iq_Proof = [], iq_Access = [], iq_ResourceServer = None\<rparr>"
  by (simp add: json_Unmarshal_def demo_env_def decode_IntrospectRequest_def dec_field_def)

text \<open>
  Claim C1. The bypass verifier accepts every client key. \<open>InternalIntrospectHandler\<close> hands it
  to \<open>HandleIntrospection\<close>. The handler of POST /gnap/introspect hands over only the
  HTTP-signature verifier built over the request it serves (with the body it has read put
  back), and it does so for every request whose body decodes. No handler among the registered
  routes ever hands the bypass verifier to the auth handler.
\<close>

theorem bypass_verifier_unreachable:
  "skipVerify_Verify k = None
   \<and> snd (snd (InternalIntrospectHandler e opn ireq)) = [CallHandleIntrospection ireq skipVerify]
   \<and> (\<forall>ev\<in>set (snd (snd (introspectHandler e opn w req))).
         \<exists>i bytes. Body req = Inr bytes
           \<and> ev = CallHandleIntrospection i (httpsig_NewVerifier (req\<lparr>Body := Inr bytes\<rparr>)))
   \<and> (\<forall>bytes i. Body req = Inr bytes
           \<and> json_Unmarshal e (decode_IntrospectRequest (codecs e)) bytes = Inr i
         \<longrightarrow> snd (snd (introspectHandler e opn w req))
               = [CallHandleIntrospection i (httpsig_NewVerifier (req\<lparr>Body := Inr bytes\<rparr>))])
   \<and> (\<forall>route\<in>set GetRESTHandlers. \<forall>out.
         snd (snd route) e opn w req = Some out
         \<longrightarrow> (\<forall>ev\<in>set (snd (snd out)). event_verifier ev \<noteq> Some skipVerify))"
proof (intro conjI ballI allI impI)
  show "skipVerify_Verify k = None" by (simp add: skipVerify_Verify_def)
  show "snd (snd (InternalIntrospectHandler e opn ireq)) = [CallHandleIntrospection ireq skipVerify]"
    by (simp add: InternalIntrospectHandler_def split: prod.splits)
next
  fix ev assume "ev \<in> set (snd (snd (introspectHandler e opn w req)))"
  then show "\<exists>i bytes. Body req = Inr bytes
           \<and> ev = CallHandleIntrospection i (httpsig_NewVerifier (req\<lparr>Body := Inr bytes\<rparr>))"
    by (rule introspectHandler_events)
next
  fix bytes i
  assume "Body req = Inr bytes \<and> json_Unmarshal e (decode_IntrospectRequest (codecs e)) bytes = Inr i"
  then have b: "Body req = Inr bytes"
    and u: "json_Unmarshal e (decode_IntrospectRequest (codecs e)) bytes = Inr i" by simp_all
  show "snd (snd (introspectHandler e opn w req))
          = [CallHandleIntrospection i (httpsig_NewVerifier (req\<lparr>Body := Inr bytes\<rparr>))]"
    unfolding introspectHandler_decoded[OF b u] by (simp split: prod.splits sum.splits)
next
  fix route :: "string \<times> string
     \<times> (('a, 'b, 'c) env \<Rightarrow> ('a, 'b, 'c) Operation \<Rightarrow> ResponseWriter \<Rightarrow> Request
          \<Rightarrow> ('a, 'b, 'c) outcome option)"
    and out ev
  assume r: "route \<in> set GetRESTHandlers"
    and o: "snd (snd route) e opn w req = Some out"
    and ev: "ev \<in> set (snd (snd out))"
  obtain w' opn' tr where out: "out = (w', opn', tr)" by (cases out)
  from r consider
      "snd (snd route) = (\<lambda>e opn w r. Some (authRequestHandler e opn w r))"
    | "snd (snd route) = (\<lambda>e opn w r. Some (interactHandler e opn w r))"
    | "snd (snd route) = (\<lambda>e opn w r. Some (authContinueHandler e opn w r))"
    | "snd (snd route) = (\<lambda>e opn w r. Some (introspectHandler e opn w r))"
    | "snd (snd route) = (\<lambda>e opn w r. Some (authProvidersHandler e opn w r))"
    | "snd (snd route) = oidcLoginHandler"
    | "snd (snd route) = oidcCallbackHandler"
    by (auto simp: GetRESTHandlers_def)
  then show "event_verifier ev \<noteq> Some skipVerify"
  proof cases
    case 1
    with o ev have "ev \<in> set (snd (snd (authRequestHandler e opn w req)))" by auto
    from authRequestHandler_events[OF this] show ?thesis by auto
  next
    case 2
    with o ev show ?thesis by (auto simp: interactHandler_events)
  next
    case 3
    with o ev have "ev \<in> set (snd (snd (authContinueHandler e opn w req)))" by auto
    then show ?thesis by (rule authContinueHandler_verifier)
  next
    case 4
    with o ev have "ev \<in> set (snd (snd (introspectHandler e opn w req)))" by auto
    from introspectHandler_events[OF this] show ?thesis by auto
  next
    case 5
    with o ev show ?thesis by (auto simp: authProvidersHandler_events)
  next
    case 6
    with o out have "oidcLoginHandler e opn w req = Some (w', opn', tr)" by simp
    from oidcLoginHandler_events[OF this] ev out show ?thesis by auto
  next
    case 7
    with o out have "oidcCallbackHandler e opn w req = Some (w', opn', tr)" by simp
    from oidcCallbackHandler_internal[OF this] ev out show ?thesis
      by (auto simp: internal_event_def)
  qed
qed

theorem bypass_verifier_unreachable_witness:
  "snd (snd (introspectHandler demo_env demo_op newResponseWriter demo_request))
     = [CallHandleIntrospection
          \<lparr>iq_AccessToken = [], iq_Proof = [], iq_Access = [], iq_ResourceServer = None\<rparr>
          (httpsig_NewVerifier (demo_request\<lparr>Body := Inr ''{}''\<rparr>))]"
proof -
  have r: "(''/gnap/introspect'', ''POST'',
            \<lambda>e opn w r. Some (introspectHandler e opn w r))
           \<in> set (GetRESTHandlers :: (string \<times> string
               \<times> ((nat, string, (string \<times> string) list) env \<Rightarrow> _)) list)"
    by (simp add: GetRESTHandlers_def)
  have b: "Body demo_request = Inr ''{}''" by (simp add: demo_request_def)
  from bypass_verifier_unreachable
         [where e = demo_env and opn = demo_op and w = newResponseWriter and req = demo_request]
       b demo_Unmarshal_IntrospectRequest r
  show ?thesis by fastforce
qed


section \<open>The OIDC login\<close>


lemma http_Redirect_new:
  "StatusCode (http_Redirect newResponseWriter r url code) = code
   \<and> map_of (rw_Header (http_Redirect newResponseWriter r url code)) ''Location'' = Some url"
  by (simp add: http_Redirect_def Write_def WriteHeader_def Header_Set_def newResponseWriter_def
      Let_def update_conv')

lemma writeErrorResponse_new:
  "StatusCode (writeErrorResponse e newResponseWriter status msg args) = status
   \<and> rw_Body (writeErrorResponse e newResponseWriter status msg args) = [Bytes (Sprintf e msg args)]"
  by (simp add: writeErrorResponse_def Write_def WriteHeader_def newResponseWriter_def Let_def)



lemma encode_oidcTransientData_full:
  "p \<noteq> [] \<Longrightarrow> t \<noteq> [] \<Longrightarrow>
   encode_oidcTransientData \<lparr>Provider = p, TxnID = t\<rparr>
     = JObject [(''provider'', JString p), (''txnID'', JString t)]"
  by (simp add: encode_oidcTransientData_def)

lemma oidcLoginHandler_provider_failed:
  assumes "Values_Get (Query r) providerQueryParam \<noteq> []"
    and "Values_Get (Query r) txnQueryParam \<noteq> []"
    and "getProvider e opn (Values_Get (Query r) providerQueryParam) = Some (Inl err, opn', tr)"
  shows "oidcLoginHandler e opn w r
           = Some (writeErrorResponse e w StatusBadRequest ''get provider: %s'' [err], opn', tr)"
  using assms by (simp add: oidcLoginHandler_def Let_def)

lemma oidcLoginHandler_no_provider:
  assumes "Values_Get (Query r) providerQueryParam \<noteq> []"
    and "Values_Get (Query r) txnQueryParam \<noteq> []"
    and "getProvider e opn (Values_Get (Query r) providerQueryParam) = None"
  shows "oidcLoginHandler e opn w r = None"
  using assms by (simp add: oidcLoginHandler_def Let_def)

lemma internal_no_StorePut: "internal_event ev \<Longrightarrow> ev \<noteq> StorePut k v"
  by (auto simp: internal_event_def)

lemma demo_init_down:
  "initOIDCProvider demo_env demo_op ''down'' (demo_provider ''https://down'')
     = Some (Inl (fmt_Sprintf ''failed to init oidc provider [%s] with url [%s]: %w''
                    [''down'', ''https://down'', ''connection refused'']),
             [NewProvider ''https://down'', Notify ''connection refused'' time_Second,
              Sleep time_Second,
              NewProvider ''https://down'', Notify ''connection refused'' time_Second,
              Sleep time_Second,
              NewProvider ''https://down''])"
proof -
  have p: "0 < timeout demo_op" by (simp add: demo_op_def)
  have t: "timeout demo_op = Suc (Suc 0)" by (simp add: demo_op_def)
  have n: "oidc_NewProvider demo_env k ''https://down'' False = Inl ''connection refused''" for k
    by (simp add: demo_env_def)
  have s: "Sprintf demo_env = fmt_Sprintf" by (simp add: demo_env_def)
  show ?thesis
    unfolding initOIDCProvider_positive[OF p] t
    by (simp add: demo_provider_def n s del: fmt_Sprintf.simps)
qed

lemma demo_getProvider_down:
  "getProvider demo_env demo_op ''down''
     = Some (Inl (fmt_Sprintf ''failed to init oidc provider: %w''
                   [fmt_Sprintf ''failed to init oidc provider [%s] with url [%s]: %w''
                      [''down'', ''https://down'', ''connection refused'']]),
             demo_op,
             [RLock, CacheRead ''down'', RUnlock,
              NewProvider ''https://down'', Notify ''connection refused'' time_Second,
              Sleep time_Second,
              NewProvider ''https://down'', Notify ''connection refused'' time_Second,
              Sleep time_Second,
              NewProvider ''https://down''])"
proof -
  have c: "map_of (cachedOIDCProviders demo_op) ''down'' = None"
    "map_of (oidcProvidersConfig demo_op) ''down'' = Some (demo_provider ''https://down'')"
    by (simp_all add: demo_op_def)
  have s: "Sprintf demo_env = fmt_Sprintf" by (simp add: demo_env_def)
  show ?thesis
    by (simp add: getProvider_def c demo_init_down s del: fmt_Sprintf.simps)
qed

lemma demo_login_down_request:
  "Values_Get (Query (demo_request\<lparr>Method := ''GET'',
       Query := [(''provider'', [''down'']), (''txnID'', [''txn1''])]\<rparr>)) providerQueryParam = ''down''"
  "Values_Get (Query (demo_request\<lparr>Method := ''GET'',
       Query := [(''provider'', [''down'']), (''txnID'', [''txn1''])]\<rparr>)) txnQueryParam = ''txn1''"
  by (simp_all add: Values_Get_def providerQueryParam_def txnQueryParam_def)


lemma rw_Header_writeErrorResponse_new:
  "rw_Header (writeErrorResponse e newResponseWriter status msg args) = []"
  by (simp add: writeErrorResponse_def Write_def WriteHeader_def newResponseWriter_def Let_def)

lemma oidcLoginHandler_cases:
  "(let providerID = Values_Get (Query r) providerQueryParam;
        interactTxnID = Values_Get (Query r) txnQueryParam;
        state = uuid_New e;
        dataBytes = json_print e
                      (JObject [(''provider'', JString providerID),
                                (''txnID'', JString interactTxnID)])
    in (providerID = [] \<or> interactTxnID = [] \<longrightarrow>
          (\<exists>w'. oidcLoginHandler e opn newResponseWriter r = Some (w', opn, [])
                \<and> StatusCode w' = 400))
     \<and> (providerID \<noteq> [] \<and> interactTxnID \<noteq> []
          \<and> map_of (oidcProvidersConfig opn) providerID = Some provConfig
          \<and> getProvider e opn providerID = Some (Inr provider, opn', tr)
          \<and> store_Put e (transientStore opn) state dataBytes = Inr st \<longrightarrow>
          (\<exists>w'. oidcLoginHandler e opn newResponseWriter r
                   = Some (w', opn'\<lparr>transientStore := st\<rparr>, tr @ [StorePut state dataBytes])
                \<and> StatusCode w' = 302
                \<and> map_of (rw_Header w') ''Location''
                    = Some (AuthCodeURL e provider
                              (''openid'' # (if pc_Scopes provConfig = [] then [''profile'', ''email'']
                                             else pc_Scopes provConfig))
                              state
                              [(''access_type'', ''online''), (''provider'', providerID)])))
     \<and> (providerID \<noteq> [] \<and> interactTxnID \<noteq> []
          \<and> map_of (oidcProvidersConfig opn) providerID = Some provConfig
          \<and> getProvider e opn providerID = Some (Inr provider, opn', tr)
          \<and> store_Put e (transientStore opn) state dataBytes = Inl err \<longrightarrow>
          (\<exists>w'. oidcLoginHandler e opn newResponseWriter r
                   = Some (w', opn', tr @ [StorePut state dataBytes])
                \<and> StatusCode w' = 500
                \<and> map_of (rw_Header w') ''Location'' = None
                \<and> transientStore opn' = transientStore opn))
     \<and> (providerID \<noteq> [] \<and> interactTxnID \<noteq> []
          \<and> getProvider e opn providerID = Some (Inl err, opn', tr) \<longrightarrow>
          (\<exists>w'. oidcLoginHandler e opn newResponseWriter r = Some (w', opn', tr)
                \<and> StatusCode w' = 400
                \<and> map_of (rw_Header w') ''Location'' = None
                \<and> transientStore opn' = transientStore opn
                \<and> (\<forall>ev\<in>set tr. \<forall>k v. ev \<noteq> StorePut k v)))
     \<and> (providerID \<noteq> [] \<and> interactTxnID \<noteq> []
          \<and> getProvider e opn providerID = None \<longrightarrow>
          oidcLoginHandler e opn newResponseWriter r = None))"
proof -
  let ?pid = "Values_Get (Query r) providerQueryParam"
  let ?txn = "Values_Get (Query r) txnQueryParam"
  let ?data = "json_print e (JObject [(''provider'', JString ?pid), (''txnID'', JString ?txn)])"
  let ?H = "oidcLoginHandler e opn newResponseWriter r"
  have a: "?pid = [] \<or> ?txn = [] \<longrightarrow> (\<exists>w'. ?H = Some (w', opn, []) \<and> StatusCode w' = 400)"
  proof
    assume "?pid = [] \<or> ?txn = []"
    from oidcLoginHandler_missing[OF this, of e opn newResponseWriter]
    show "\<exists>w'. ?H = Some (w', opn, []) \<and> StatusCode w' = 400"
      by (auto simp: writeErrorResponse_new StatusBadRequest_def)
  qed
  have sc: "login_scopes provConfig
              = ''openid'' # (if pc_Scopes provConfig = [] then [''profile'', ''email'']
                              else pc_Scopes provConfig)"
    by (simp add: login_scopes_def)
  have run: "?H =
     (case store_Put e (transientStore opn) (uuid_New e) ?data of
        Inl err \<Rightarrow>
          Some (writeErrorResponse e newResponseWriter StatusInternalServerError
                  (Sprintf e ''failed to write state data to transient store: %s'' [err]) [],
                opn', tr @ [StorePut (uuid_New e) ?data])
      | Inr st \<Rightarrow>
          Some (http_Redirect newResponseWriter r
                  (AuthCodeURL e provider (login_scopes provConfig) (uuid_New e)
                     [(''access_type'', ''online''), (providerQueryParam, ?pid)])
                  StatusFound,
                opn'\<lparr>transientStore := st\<rparr>, tr @ [StorePut (uuid_New e) ?data]))"
    if p: "?pid \<noteq> []" "?txn \<noteq> []"
      "getProvider e opn ?pid = Some (Inr provider, opn', tr)"
      "map_of (oidcProvidersConfig opn) ?pid = Some provConfig"
    using oidcLoginHandler_provider[OF p, of newResponseWriter]
    by (simp only: encode_oidcTransientData_full[OF p(1,2)])
  have b: "?pid \<noteq> [] \<and> ?txn \<noteq> []
          \<and> map_of (oidcProvidersConfig opn) ?pid = Some provConfig
          \<and> getProvider e opn ?pid = Some (Inr provider, opn', tr)
          \<and> store_Put e (transientStore opn) (uuid_New e) ?data = Inr st \<longrightarrow>
        (\<exists>w'. ?H = Some (w', opn'\<lparr>transientStore := st\<rparr>, tr @ [StorePut (uuid_New e) ?data])
                \<and> StatusCode w' = 302
                \<and> map_of (rw_Header w') ''Location''
                    = Some (AuthCodeURL e provider
                              (''openid'' # (if pc_Scopes provConfig = [] then [''profile'', ''email'']
                                             else pc_Scopes provConfig))
                              (uuid_New e)
                              [(''access_type'', ''online''), (''provider'', ?pid)]))"
  proof
    assume h: "?pid \<noteq> [] \<and> ?txn \<noteq> []
          \<and> map_of (oidcProvidersConfig opn) ?pid = Some provConfig
          \<and> getProvider e opn ?pid = Some (Inr provider, opn', tr)
          \<and> store_Put e (transientStore opn) (uuid_New e) ?data = Inr st"
    then have "?H = Some (http_Redirect newResponseWriter r
                  (AuthCodeURL e provider (login_scopes provConfig) (uuid_New e)
                     [(''access_type'', ''online''), (providerQueryParam, ?pid)])
                  StatusFound,
                opn'\<lparr>transientStore := st\<rparr>, tr @ [StorePut (uuid_New e) ?data])"
      by (simp add: run)
    then show "\<exists>w'. ?H = Some (w', opn'\<lparr>transientStore := st\<rparr>, tr @ [StorePut (uuid_New e) ?data])
                \<and> StatusCode w' = 302
                \<and> map_of (rw_Header w') ''Location''
                    = Some (AuthCodeURL e provider
                              (''openid'' # (if pc_Scopes provConfig = [] then [''profile'', ''email'']
                                             else pc_Scopes provConfig))
                              (uuid_New e)
                              [(''access_type'', ''online''), (''provider'', ?pid)])"
      by (simp add: http_Redirect_new sc StatusFound_def providerQueryParam_def)
  qed
  have c: "?pid \<noteq> [] \<and> ?txn \<noteq> []
          \<and> map_of (oidcProvidersConfig opn) ?pid = Some provConfig
          \<and> getProvider e opn ?pid = Some (Inr provider, opn', tr)
          \<and> store_Put e (transientStore opn) (uuid_New e) ?data = Inl err \<longrightarrow>
        (\<exists>w'. ?H = Some (w', opn', tr @ [StorePut (uuid_New e) ?data])
                \<and> StatusCode w' = 500
                \<and> map_of (rw_Header w') ''Location'' = None
                \<and> transientStore opn' = transientStore opn)"
  proof
    assume h: "?pid \<noteq> [] \<and> ?txn \<noteq> []
          \<and> map_of (oidcProvidersConfig opn) ?pid = Some provConfig
          \<and> getProvider e opn ?pid = Some (Inr provider, opn', tr)
          \<and> store_Put e (transientStore opn) (uuid_New e) ?data = Inl err"
    then have g: "getProvider e opn ?pid = Some (Inr provider, opn', tr)" by simp
    from h have "?H = Some (writeErrorResponse e newResponseWriter StatusInternalServerError
                  (Sprintf e ''failed to write state data to transient store: %s'' [err]) [],
                opn', tr @ [StorePut (uuid_New e) ?data])"
      by (simp add: run)
    with getProvider_internal[OF g]
    show "\<exists>w'. ?H = Some (w', opn', tr @ [StorePut (uuid_New e) ?data])
                \<and> StatusCode w' = 500
                \<and> map_of (rw_Header w') ''Location'' = None
                \<and> transientStore opn' = transientStore opn"
      by (simp add: writeErrorResponse_new rw_Header_writeErrorResponse_new
          StatusInternalServerError_def)
  qed
  have d: "?pid \<noteq> [] \<and> ?txn \<noteq> []
          \<and> getProvider e opn ?pid = Some (Inl err, opn', tr) \<longrightarrow>
          (\<exists>w'. ?H = Some (w', opn', tr)
                \<and> StatusCode w' = 400
                \<and> map_of (rw_Header w') ''Location'' = None
                \<and> transientStore opn' = transientStore opn
                \<and> (\<forall>ev\<in>set tr. \<forall>k v. ev \<noteq> StorePut k v))"
  proof
    assume h: "?pid \<noteq> [] \<and> ?txn \<noteq> [] \<and> getProvider e opn ?pid = Some (Inl err, opn', tr)"
    then have p: "?pid \<noteq> []" "?txn \<noteq> []" "getProvider e opn ?pid = Some (Inl err, opn', tr)"
      by simp_all
    from getProvider_internal[OF p(3)]
    have i: "\<forall>ev\<in>set tr. \<forall>k v. ev \<noteq> StorePut k v" "transientStore opn' = transientStore opn"
      by (auto dest: internal_no_StorePut)
    show "\<exists>w'. ?H = Some (w', opn', tr)
                \<and> StatusCode w' = 400
                \<and> map_of (rw_Header w') ''Location'' = None
                \<and> transientStore opn' = transientStore opn
                \<and> (\<forall>ev\<in>set tr. \<forall>k v. ev \<noteq> StorePut k v)"
      unfolding oidcLoginHandler_provider_failed[OF p] using i
      by (simp add: writeErrorResponse_new rw_Header_writeErrorResponse_new StatusBadRequest_def)
  qed
  have n: "?pid \<noteq> [] \<and> ?txn \<noteq> [] \<and> getProvider e opn ?pid = None \<longrightarrow> ?H = None"
    by (simp add: oidcLoginHandler_no_provider)
  show ?thesis unfolding Let_def
    by (rule conjI[OF a conjI[OF b conjI[OF c conjI[OF d n]]]])
qed

lemma demo_login_request:
  "Values_Get (Query (demo_request\<lparr>Method := ''GET'',
       Query := [(''provider'', [''idp1'']), (''txnID'', [''txn1''])]\<rparr>)) providerQueryParam = ''idp1''"
  "Values_Get (Query (demo_request\<lparr>Method := ''GET'',
       Query := [(''provider'', [''idp1'']), (''txnID'', [''txn1''])]\<rparr>)) txnQueryParam = ''txn1''"
  by (simp_all add: Values_Get_def providerQueryParam_def txnQueryParam_def)

lemma demo_blob_print:
  "json_print demo_env (JObject [(''provider'', JString ''idp1''), (''txnID'', JString ''txn1'')])
     = ''blob1''"
  by (simp add: demo_env_def demo_blob_def)

text \<open>
  Claim C8, as amended. GET /oidc/login without a \<open>provider\<close> or without a \<open>txnID\<close> parameter,
  or with an empty first value for one of them, answers 400, leaves the operation as it was
  and stores nothing. With a non-empty first value for both and a configured provider: when \<open>getProvider\<close> returns the provider and the transient store accepts
  the write, the handler stores the JSON object with the members \<open>provider\<close> and \<open>txnID\<close> of the
  request under the state value minted for this request and answers 302 with the provider's
  authorize URL as \<open>Location\<close>, built for that state and for the scopes \<open>openid\<close> followed by
  the configured scopes, or by \<open>profile\<close> and \<open>email\<close> when none are configured; when the store
  refuses the write the answer is 500 with no redirect and the store is as before; when
  \<open>getProvider\<close> fails the answer is 400, nothing is written to the store and there is no
  redirect; when \<open>getProvider\<close> never returns, neither does the handler.
\<close>

theorem oidc_login_persists_and_redirects:
  "((\<forall>v vs. map_of (Query r) ''provider'' = Some (v # vs) \<longrightarrow> v = [])
      \<or> (\<forall>v vs. map_of (Query r) ''txnID'' = Some (v # vs) \<longrightarrow> v = [])
     \<longrightarrow> (\<exists>w'. oidcLoginHandler e opn newResponseWriter r = Some (w', opn, [])
              \<and> StatusCode w' = 400))
   \<and> (map_of (Query r) ''provider'' = Some (providerID # ps)
        \<and> map_of (Query r) ''txnID'' = Some (interactTxnID # ts)
        \<and> providerID \<noteq> [] \<and> interactTxnID \<noteq> []
      \<longrightarrow> (let state = uuid_New e;
               dataBytes = json_print e
                             (JObject [(''provider'', JString providerID),
                                       (''txnID'', JString interactTxnID)])
           in (map_of (oidcProvidersConfig opn) providerID = Some provConfig
                 \<and> getProvider e opn providerID = Some (Inr provider, opn', tr)
                 \<and> store_Put e (transientStore opn) state dataBytes = Inr st \<longrightarrow>
                 (\<exists>w'. oidcLoginHandler e opn newResponseWriter r
                          = Some (w', opn'\<lparr>transientStore := st\<rparr>,
                                  tr @ [StorePut state dataBytes])
                       \<and> StatusCode w' = 302
                       \<and> map_of (rw_Header w') ''Location''
                           = Some (AuthCodeURL e provider
                                     (''openid'' # (if pc_Scopes provConfig = []
                                                    then [''profile'', ''email'']
                                                    else pc_Scopes provConfig))
                                     state
                                     [(''access_type'', ''online''), (''provider'', providerID)])))
            \<and> (map_of (oidcProvidersConfig opn) providerID = Some provConfig
                 \<and> getProvider e opn providerID = Some (Inr provider, opn', tr)
                 \<and> store_Put e (transientStore opn) state dataBytes = Inl err \<longrightarrow>
                 (\<exists>w'. oidcLoginHandler e opn newResponseWriter r
                          = Some (w', opn', tr @ [StorePut state dataBytes])
                       \<and> StatusCode w' = 500
                       \<and> map_of (rw_Header w') ''Location'' = None
                       \<and> transientStore opn' = transientStore opn))
            \<and> (getProvider e opn providerID = Some (Inl err, opn', tr) \<longrightarrow>
                 (\<exists>w'. oidcLoginHandler e opn newResponseWriter r = Some (w', opn', tr)
                       \<and> StatusCode w' = 400
                       \<and> map_of (rw_Header w') ''Location'' = None
                       \<and> transientStore opn' = transientStore opn
                       \<and> (\<forall>ev\<in>set tr. \<forall>k v. ev \<noteq> StorePut k v)))
            \<and> (getProvider e opn providerID = None \<longrightarrow>
                 oidcLoginHandler e opn newResponseWriter r = None)))"
proof (rule conjI)
  show "(\<forall>v vs. map_of (Query r) ''provider'' = Some (v # vs) \<longrightarrow> v = [])
      \<or> (\<forall>v vs. map_of (Query r) ''txnID'' = Some (v # vs) \<longrightarrow> v = [])
     \<longrightarrow> (\<exists>w'. oidcLoginHandler e opn newResponseWriter r = Some (w', opn, [])
              \<and> StatusCode w' = 400)"
  proof
    assume "(\<forall>v vs. map_of (Query r) ''provider'' = Some (v # vs) \<longrightarrow> v = [])
      \<or> (\<forall>v vs. map_of (Query r) ''txnID'' = Some (v # vs) \<longrightarrow> v = [])"
    then have "Values_Get (Query r) providerQueryParam = []
               \<or> Values_Get (Query r) txnQueryParam = []"
      unfolding providerQueryParam_def txnQueryParam_def
      using Values_Get_empty[of "Query r" "''provider''"] Values_Get_empty[of "Query r" "''txnID''"]
      by blast
    with oidcLoginHandler_cases[of r e opn, unfolded Let_def, THEN conjunct1]
    show "\<exists>w'. oidcLoginHandler e opn newResponseWriter r = Some (w', opn, [])
              \<and> StatusCode w' = 400"
      by (rule mp)
  qed
next
  show "map_of (Query r) ''provider'' = Some (providerID # ps)
        \<and> map_of (Query r) ''txnID'' = Some (interactTxnID # ts)
        \<and> providerID \<noteq> [] \<and> interactTxnID \<noteq> []
      \<longrightarrow> (let state = uuid_New e;
               dataBytes = json_print e
                             (JObject [(''provider'', JString providerID),
                                       (''txnID'', JString interactTxnID)])
           in (map_of (oidcProvidersConfig opn) providerID = Some provConfig
                 \<and> getProvider e opn providerID = Some (Inr provider, opn', tr)
                 \<and> store_Put e (transientStore opn) state dataBytes = Inr st \<longrightarrow>
                 (\<exists>w'. oidcLoginHandler e opn newResponseWriter r
                          = Some (w', opn'\<lparr>transientStore := st\<rparr>,
                                  tr @ [StorePut state dataBytes])
                       \<and> StatusCode w' = 302
                       \<and> map_of (rw_Header w') ''Location''
                           = Some (AuthCodeURL e provider
                                     (''openid'' # (if pc_Scopes provConfig = []
                                                    then [''profile'', ''email'']
                                                    else pc_Scopes provConfig))
                                     state
                                     [(''access_type'', ''online''), (''provider'', providerID)])))
            \<and> (map_of (oidcProvidersConfig opn) providerID = Some provConfig
                 \<and> getProvider e opn providerID = Some (Inr provider, opn', tr)
                 \<and> store_Put e (transientStore opn) state dataBytes = Inl err \<longrightarrow>
                 (\<exists>w'. oidcLoginHandler e opn newResponseWriter r
                          = Some (w', opn', tr @ [StorePut state dataBytes])
                       \<and> StatusCode w' = 500
                       \<and> map_of (rw_Header w') ''Location'' = None
                       \<and> transientStore opn' = transientStore opn))
            \<and> (getProvider e opn providerID = Some (Inl err, opn', tr) \<longrightarrow>
                 (\<exists>w'. oidcLoginHandler e opn newResponseWriter r = Some (w', opn', tr)
                       \<and> StatusCode w' = 400
                       \<and> map_of (rw_Header w') ''Location'' = None
                       \<and> transientStore opn' = transientStore opn
                       \<and> (\<forall>ev\<in>set tr. \<forall>k v. ev \<noteq> StorePut k v)))
            \<and> (getProvider e opn providerID = None \<longrightarrow>
                 oidcLoginHandler e opn newResponseWriter r = None))"
  proof
    assume h: "map_of (Query r) ''provider'' = Some (providerID # ps)
        \<and> map_of (Query r) ''txnID'' = Some (interactTxnID # ts)
        \<and> providerID \<noteq> [] \<and> interactTxnID \<noteq> []"
    then have v: "Values_Get (Query r) providerQueryParam = providerID"
      "Values_Get (Query r) txnQueryParam = interactTxnID"
      unfolding providerQueryParam_def txnQueryParam_def
      by (simp_all add: Values_Get_first)
    from h have ne: "providerID \<noteq> []" "interactTxnID \<noteq> []" by simp_all
    note rest = oidcLoginHandler_cases
                  [of r e opn provConfig provider opn' tr st err,
                   unfolded Let_def v, THEN conjunct2]
    show "(let state = uuid_New e;
               dataBytes = json_print e
                             (JObject [(''provider'', JString providerID),
                                       (''txnID'', JString interactTxnID)])
           in (map_of (oidcProvidersConfig opn) providerID = Some provConfig
                 \<and> getProvider e opn providerID = Some (Inr provider, opn', tr)
                 \<and> store_Put e (transientStore opn) state dataBytes = Inr st \<longrightarrow>
                 (\<exists>w'. oidcLoginHandler e opn newResponseWriter r
                          = Some (w', opn'\<lparr>transientStore := st\<rparr>,
                                  tr @ [StorePut state dataBytes])
                       \<and> StatusCode w' = 302
                       \<and> map_of (rw_Header w') ''Location''
                           = Some (AuthCodeURL e provider
                                     (''openid'' # (if pc_Scopes provConfig = []
                                                    then [''profile'', ''email'']
                                                    else pc_Scopes provConfig))
                                     state
                                     [(''access_type'', ''online''), (''provider'', providerID)])))
            \<and> (map_of (oidcProvidersConfig opn) providerID = Some provConfig
                 \<and> getProvider e opn providerID = Some (Inr provider, opn', tr)
                 \<and> store_Put e (transientStore opn) state dataBytes = Inl err \<longrightarrow>
                 (\<exists>w'. oidcLoginHandler e opn newResponseWriter r
                          = Some (w', opn', tr @ [StorePut state dataBytes])
                       \<and> StatusCode w' = 500
                       \<and> map_of (rw_Header w') ''Location'' = None
                       \<and> transientStore opn' = transientStore opn))
            \<and> (getProvider e opn providerID = Some (Inl err, opn', tr) \<longrightarrow>
                 (\<exists>w'. oidcLoginHandler e opn newResponseWriter r = Some (w', opn', tr)
                       \<and> StatusCode w' = 400
                       \<and> map_of (rw_Header w') ''Location'' = None
                       \<and> transientStore opn' = transientStore opn
                       \<and> (\<forall>ev\<in>set tr. \<forall>k v. ev \<noteq> StorePut k v)))
            \<and> (getProvider e opn providerID = None \<longrightarrow>
                 oidcLoginHandler e opn newResponseWriter r = None))"
      unfolding Let_def using rest ne by blast
  qed
qed

theorem oidc_login_persists_and_redirects_witness:
  "\<exists>w'. oidcLoginHandler demo_env demo_op newResponseWriter
           (demo_request\<lparr>Method := ''GET'',
              Query := [(''provider'', [''idp1'']), (''txnID'', [''txn1''])]\<rparr>)
         = Some (w',
                 demo_op\<lparr>cachedOIDCProviders :=
                    [(''idp1'', \<lparr>name = ''idp1'', clientID = ''client'', clientSecret = ''secret'',
                      callback = ''https://as/oidc/callback'', skipIssuerCheck = False,
                      op = ''https://idp1''\<rparr>)],
                    transientStore := [(''state-1'', ''blob1'')]\<rparr>,
                 [RLock, CacheRead ''idp1'', RUnlock, NewProvider ''https://idp1'',
                  Lock, CacheWrite ''idp1'', Unlock, StorePut ''state-1'' ''blob1''])
       \<and> StatusCode w' = 302
       \<and> map_of (rw_Header w') ''Location''
           = Some ''https://idp1/authorize?scope=openid+profile+email+&state=state-1''"
proof -
  let ?r = "demo_request\<lparr>Method := ''GET'',
              Query := [(''provider'', [''idp1'']), (''txnID'', [''txn1''])]\<rparr>"
  have q: "map_of (Query ?r) ''provider'' = Some (''idp1'' # [])
           \<and> map_of (Query ?r) ''txnID'' = Some (''txn1'' # [])
           \<and> ''idp1'' \<noteq> [] \<and> ''txn1'' \<noteq> []"
    by simp
  have c: "map_of (oidcProvidersConfig demo_op) ''idp1'' = Some (demo_provider ''https://idp1'')"
    by (simp add: demo_op_def)
  have s: "store_Put demo_env (transientStore demo_op) (uuid_New demo_env) ''blob1''
             = Inr [(''state-1'', ''blob1'')]"
    by (simp add: demo_env_def demo_op_def mem_Put_def)
  have u: "uuid_New demo_env = ''state-1''" by (simp add: demo_env_def)
  have au: "AuthCodeURL demo_env = (\<lambda>p scopes state opts.
           ''https://idp1/authorize?scope='' @ concat (map (\<lambda>s. s @ ''+'') scopes)
             @ ''&state='' @ state)" by (simp add: demo_env_def)
  from oidc_login_persists_and_redirects
         [where r = ?r and e = demo_env and opn = demo_op
            and providerID = "''idp1''" and interactTxnID = "''txn1''" and ps = "[]" and ts = "[]"
            and provConfig = "demo_provider ''https://idp1''"
            and st = "[(''state-1'', ''blob1'')]",
          THEN conjunct2, THEN mp, OF q, unfolded Let_def demo_blob_print,
          THEN conjunct1, THEN mp,
          OF conjI[OF c conjI[OF demo_getProvider_idp1 s]]]
  show ?thesis
    by (simp add: u au demo_provider_def)
qed

theorem oidc_login_provider_down_counterexample:
  "map_of (oidcProvidersConfig demo_op) ''down'' = Some (demo_provider ''https://down'')
   \<and> (case oidcLoginHandler demo_env demo_op newResponseWriter
              (demo_request\<lparr>Method := ''GET'',
                 Query := [(''provider'', [''down'']), (''txnID'', [''txn1''])]\<rparr>) of
         None \<Rightarrow> False
       | Some (w', op', tr) \<Rightarrow>
           StatusCode w' = 400 \<and> map_of (rw_Header w') ''Location'' = None
           \<and> transientStore op' = [] \<and> op' = demo_op)"
proof -
  let ?r = "demo_request\<lparr>Method := ''GET'',
                 Query := [(''provider'', [''down'']), (''txnID'', [''txn1''])]\<rparr>"
  have c: "map_of (oidcProvidersConfig demo_op) ''down'' = Some (demo_provider ''https://down'')"
    "transientStore demo_op = []"
    by (simp_all add: demo_op_def)
  have g: "getProvider demo_env demo_op (Values_Get (Query ?r) providerQueryParam)
             = Some (Inl (fmt_Sprintf ''failed to init oidc provider: %w''
                   [fmt_Sprintf ''failed to init oidc provider [%s] with url [%s]: %w''
                      [''down'', ''https://down'', ''connection refused'']]),
             demo_op,
             [RLock, CacheRead ''down'', RUnlock,
              NewProvider ''https://down'', Notify ''connection refused'' time_Second,
              Sleep time_Second,
              NewProvider ''https://down'', Notify ''connection refused'' time_Second,
              Sleep time_Second,
              NewProvider ''https://down''])"
    unfolding demo_login_down_request by (rule demo_getProvider_down)
  have h: "rw_Header (writeErrorResponse e newResponseWriter status msg args) = []"
    for e :: "(nat, string, (string \<times> string) list) env" and status msg args
    by (simp add: writeErrorResponse_def Write_def WriteHeader_def newResponseWriter_def Let_def)
  have "oidcLoginHandler demo_env demo_op newResponseWriter ?r
          = Some (writeErrorResponse demo_env newResponseWriter StatusBadRequest ''get provider: %s''
                    [fmt_Sprintf ''failed to init oidc provider: %w''
                   [fmt_Sprintf ''failed to init oidc provider [%s] with url [%s]: %w''
                      [''down'', ''https://down'', ''connection refused'']]], demo_op,
             [RLock, CacheRead ''down'', RUnlock,
              NewProvider ''https://down'', Notify ''connection refused'' time_Second,
              Sleep time_Second,
              NewProvider ''https://down'', Notify ''connection refused'' time_Second,
              Sleep time_Second,
              NewProvider ''https://down''])"
    by (rule oidcLoginHandler_provider_failed[OF _ _ g]) (unfold demo_login_down_request, simp_all)
  then show ?thesis
    by (simp add: c writeErrorResponse_new h StatusBadRequest_def del: fmt_Sprintf.simps)
qed



section \<open>The OIDC callback\<close>


lemma EqualFold_provider [simp]:
  "EqualFold ''provider'' ''provider''" "\<not> EqualFold ''provider'' ''txnID''"
  "EqualFold ''txnID'' ''txnID''" "\<not> EqualFold ''txnID'' ''provider''"
  by (simp_all add: EqualFold_def to_lower_def)

lemma demo_blob_parse:
  "json_Unmarshal demo_env decode_oidcTransientData ''blob1''
     = Inr \<lparr>Provider = ''idp1'', TxnID = ''txn1''\<rparr>"
  by (simp add: json_Unmarshal_def demo_env_def demo_blob_def decode_oidcTransientData_def
      dec_field_def dec_string_def)

lemma demo_getProvider_cached:
  "getProvider demo_env demo_op_login ''idp1''
     = Some (Inr \<lparr>name = ''idp1'', clientID = ''client'', clientSecret = ''secret'',
                  callback = ''https://as/oidc/callback'', skipIssuerCheck = False,
                  op = ''https://idp1''\<rparr>, demo_op_login, [RLock, CacheRead ''idp1'', RUnlock])"
  by (simp add: getProvider_def demo_op_login_def)

lemma demo_callback_run:
  "oidcCallbackHandler demo_env demo_op_login newResponseWriter demo_callback
     = Some (Write (Bytes ''redirect:https://client/cb?interact_ref=ref1&hash=hash1&'')
               newResponseWriter,
             demo_op_login,
             [StoreGet ''state-1'', RLock, CacheRead ''idp1'', RUnlock,
              CallCompleteInteraction ''txn1'' [(''sub'', ''alice'')]])"
proof -
  have q: "Values_Get (Query demo_callback) ''state'' = ''state-1''"
    "Values_Get (Query demo_callback) ''code'' = ''code1''"
    by (simp_all add: demo_callback_def Values_Get_def)
  have g: "store_Get demo_env (transientStore demo_op_login) ''state-1'' = Inr ''blob1''"
    by (simp add: demo_env_def demo_op_login_def mem_Get_def)
  have h: "authHandler demo_op_login = 0" "closePopupHTML demo_op_login = ''close.html''"
    by (simp_all add: demo_op_login_def demo_op_def)
  have x: "Exchange demo_env = (\<lambda>p code. if code = ''code1'' then Inr [(''id_token'', JString ''idt1'')]
                   else Inl ''invalid_grant'')"
    "provider_Verify demo_env = (\<lambda>p raw. Inr raw)"
    "IDToken_Claims demo_env = (\<lambda>t. Inr ''alice'')"
    "CompleteInteraction demo_env = (\<lambda>h txn consent.
           if txn = ''txn1''
           then (Inr (''ref1'', ''hash1'',
                      \<lparr>ri_Start = [],
                       ri_Finish = \<lparr>rf_Method = ''redirect'', rf_URI = ''https://client/cb'',
                                    rf_Nonce = ''n1''\<rparr>\<rparr>), h)
           else (Inl ''unknown transaction'', h))"
    "url_Parse demo_env = (\<lambda>u. Inr \<lparr>u_Base = u, RawQuery = []\<rparr>)"
    "url_ParseQuery demo_env = (\<lambda>q. [])"
    "Values_Encode demo_env = (\<lambda>vs. concat (map (\<lambda>kv. fst kv @ ''='' @ concat (snd kv) @ ''&'') vs))"
    "URL_String demo_env = (\<lambda>u. u_Base u @ ''?'' @ RawQuery u)"
    "template_ParseFiles demo_env = (\<lambda>p. Inr ''tmpl'')"
    "template_Execute demo_env = (\<lambda>t r. ''redirect:'' @ r)"
    by (simp_all add: demo_env_def)
  have o: "demo_op_login\<lparr>authHandler := 0\<rparr> = demo_op_login"
    by (simp add: demo_op_login_def demo_op_def)
  show ?thesis
    by (simp add: oidcCallbackHandler_def Let_def q g demo_blob_parse demo_getProvider_cached h x o
        Values_Add_def interactRefQueryParam_def responseHashQueryParam_def)
qed


section \<open>Handles that are presented again or not known\<close>


text \<open>
  Claim C4, as amended. GET /oidc/callback only reads the record stored under the OIDC state: a
  callback that returns leaves the transient store as it found it and writes nothing to it, so
  the record it has found is found again by a later callback presenting the same state.
\<close>

theorem callback_keeps_transient_record:
  "oidcCallbackHandler e opn w r = Some (w', opn', tr) \<Longrightarrow>
   transientStore opn' = transientStore opn
   \<and> (\<forall>ev\<in>set tr. \<forall>k v. ev \<noteq> StorePut k v)
   \<and> (\<forall>dataBytes. store_Get e (transientStore opn) (Values_Get (Query r) ''state'') = Inr dataBytes
         \<longrightarrow> store_Get e (transientStore opn') (Values_Get (Query r) ''state'') = Inr dataBytes)"
proof -
  assume "oidcCallbackHandler e opn w r = Some (w', opn', tr)"
  from oidcCallbackHandler_internal[OF this]
  show ?thesis by (auto simp: internal_event_def)
qed

theorem callback_record_not_consumed_counterexample:
  "(case oidcCallbackHandler demo_env demo_op_login newResponseWriter demo_callback of
      None \<Rightarrow> False
    | Some (w1, op1, tr1) \<Rightarrow>
        StatusCode w1 = 200 \<and> StoreGet ''state-1'' \<in> set tr1
        \<and> store_Get demo_env (transientStore op1) ''state-1'' = Inr ''blob1''
        \<and> (case oidcCallbackHandler demo_env op1 newResponseWriter demo_callback of
              None \<Rightarrow> False
            | Some (w2, op2, tr2) \<Rightarrow>
                StatusCode w2 = 200
                \<and> rw_Body w2
                    = [Bytes ''redirect:https://client/cb?interact_ref=ref1&hash=hash1&'']))"
proof -
  have g: "store_Get demo_env (transientStore demo_op_login) ''state-1'' = Inr ''blob1''"
    by (simp add: demo_env_def demo_op_login_def mem_Get_def)
  have w: "StatusCode (Write c newResponseWriter) = 200"
    "rw_Body (Write c newResponseWriter) = [c]" for c
    by (simp_all add: Write_def WriteHeader_def newResponseWriter_def Let_def)
  show ?thesis
    by (simp add: demo_callback_run g w)
qed

theorem callback_keeps_transient_record_witness:
  "transientStore demo_op_login = [(''state-1'', ''blob1'')]
   \<and> store_Get demo_env (transientStore demo_op_login) (Values_Get (Query demo_callback) ''state'')
       = Inr ''blob1''
   \<and> store_Get demo_env (transientStore demo_op_login) ''state-1'' = Inr ''blob1''"
proof -
  have q: "Values_Get (Query demo_callback) ''state'' = ''state-1''"
    by (simp add: demo_callback_def Values_Get_def)
  have g: "store_Get demo_env (transientStore demo_op_login) ''state-1'' = Inr ''blob1''"
    by (simp add: demo_env_def demo_op_login_def mem_Get_def)
  have t: "transientStore demo_op_login = [(''state-1'', ''blob1'')]"
    by (simp add: demo_op_login_def)
  from callback_keeps_transient_record[OF demo_callback_run] q g t
  show ?thesis by simp
qed

lemma oidcCallbackHandler_lookup_failed:
  assumes "Values_Get (Query r) ''state'' \<noteq> []" "Values_Get (Query r) ''code'' \<noteq> []"
    and "store_Get e (transientStore opn) (Values_Get (Query r) ''state'') = Inl err"
  shows "oidcCallbackHandler e opn w r
           = Some (writeErrorResponse e w StatusBadRequest
                     (Sprintf e ''failed to get state data to transient store: %s'' [err]) [],
                   opn, [StoreGet (Values_Get (Query r) ''state'')])"
  using assms by (simp add: oidcCallbackHandler_def Let_def)

lemma authContinueHandler_failed:
  assumes "gnapHeader req" "Body req = Inr bytes"
    "json_Unmarshal e decode_ContinueRequest bytes = Inr c"
    "fst (HandleContinueRequest e (authHandler opn) c (tokHeader req ! 1)
            (httpsig_NewVerifier (req\<lparr>Body := Inr bytes\<rparr>))) = Inl err"
  shows "fst (authContinueHandler e opn w req) = deny w StatusUnauthorized errRequestDenied"
proof -
  from assms(1) have g: "\<not> (length (tokHeader req) < 2 \<or> tokHeader req ! 0 \<noteq> ''GNAP'')"
    by (auto simp: gnapHeader_def)
  obtain x h where x: "HandleContinueRequest e (authHandler opn) c (tokHeader req ! 1)
            (httpsig_NewVerifier (req\<lparr>Body := Inr bytes\<rparr>)) = (x, h)"
    by (cases "HandleContinueRequest e (authHandler opn) c (tokHeader req ! 1)
            (httpsig_NewVerifier (req\<lparr>Body := Inr bytes\<rparr>))")
  with assms(4) have "x = Inl err" by simp
  with x show ?thesis
    unfolding authContinueHandler_good_header[OF g] using assms(2,3)
    by simp
qed

text \<open>
  Claim C2, as amended. On POST /gnap/continue two runs in which \<open>HandleContinueRequest\<close> fails
  (for whatever reason: a continue token or an \<open>interact_ref\<close> that is unknown, expired or
  replayed) write the same response, 401 with the one error code \<open>request_denied\<close>. On
  GET /oidc/callback a state that the transient store does not return is answered with 400 and
  a text body that carries the store's error message.
\<close>

theorem handle_failures_continue_and_callback:
  "(gnapHeader req1 \<and> Body req1 = Inr bytes1
      \<and> json_Unmarshal e1 decode_ContinueRequest bytes1 = Inr c1
      \<and> fst (HandleContinueRequest e1 (authHandler opn1) c1 (tokHeader req1 ! 1)
               (httpsig_NewVerifier (req1\<lparr>Body := Inr bytes1\<rparr>))) = Inl err1
      \<and> gnapHeader req2 \<and> Body req2 = Inr bytes2
      \<and> json_Unmarshal e2 decode_ContinueRequest bytes2 = Inr c2
      \<and> fst (HandleContinueRequest e2 (authHandler opn2) c2 (tokHeader req2 ! 1)
               (httpsig_NewVerifier (req2\<lparr>Body := Inr bytes2\<rparr>))) = Inl err2
    \<longrightarrow> fst (authContinueHandler e1 opn1 newResponseWriter req1)
          = fst (authContinueHandler e2 opn2 newResponseWriter req2)
        \<and> denied StatusUnauthorized errRequestDenied
            (fst (authContinueHandler e1 opn1 newResponseWriter req1)))
   \<and> (Values_Get (Query r) ''state'' \<noteq> [] \<and> Values_Get (Query r) ''code'' \<noteq> []
      \<and> store_Get e (transientStore opn) (Values_Get (Query r) ''state'') = Inl err
    \<longrightarrow> (\<exists>w'. oidcCallbackHandler e opn newResponseWriter r
                 = Some (w', opn, [StoreGet (Values_Get (Query r) ''state'')])
             \<and> StatusCode w' = 400
             \<and> rw_Body w'
                 = [Bytes (Sprintf e
                             (Sprintf e ''failed to get state data to transient store: %s'' [err])
                             [])]))"
proof (intro conjI impI)
  assume a: "gnapHeader req1 \<and> Body req1 = Inr bytes1
      \<and> json_Unmarshal e1 decode_ContinueRequest bytes1 = Inr c1
      \<and> fst (HandleContinueRequest e1 (authHandler opn1) c1 (tokHeader req1 ! 1)
               (httpsig_NewVerifier (req1\<lparr>Body := Inr bytes1\<rparr>))) = Inl err1
      \<and> gnapHeader req2 \<and> Body req2 = Inr bytes2
      \<and> json_Unmarshal e2 decode_ContinueRequest bytes2 = Inr c2
      \<and> fst (HandleContinueRequest e2 (authHandler opn2) c2 (tokHeader req2 ! 1)
               (httpsig_NewVerifier (req2\<lparr>Body := Inr bytes2\<rparr>))) = Inl err2"
  then have 1: "fst (authContinueHandler e1 opn1 newResponseWriter req1)
                  = deny newResponseWriter StatusUnauthorized errRequestDenied"
    by (elim conjE) (rule authContinueHandler_failed, assumption+)
  from a have 2: "fst (authContinueHandler e2 opn2 newResponseWriter req2)
                  = deny newResponseWriter StatusUnauthorized errRequestDenied"
    by (elim conjE) (rule authContinueHandler_failed, assumption+)
  from 1 2 show "fst (authContinueHandler e1 opn1 newResponseWriter req1)
          = fst (authContinueHandler e2 opn2 newResponseWriter req2)" by simp
  from 1 show "denied StatusUnauthorized errRequestDenied
            (fst (authContinueHandler e1 opn1 newResponseWriter req1))"
    by (simp add: deny_new)
next
  assume "Values_Get (Query r) ''state'' \<noteq> [] \<and> Values_Get (Query r) ''code'' \<noteq> []
      \<and> store_Get e (transientStore opn) (Values_Get (Query r) ''state'') = Inl err"
  then have "oidcCallbackHandler e opn newResponseWriter r
           = Some (writeErrorResponse e newResponseWriter StatusBadRequest
                     (Sprintf e ''failed to get state data to transient store: %s'' [err]) [],
                   opn, [StoreGet (Values_Get (Query r) ''state'')])"
    by (elim conjE) (rule oidcCallbackHandler_lookup_failed, assumption+)
  then show "\<exists>w'. oidcCallbackHandler e opn newResponseWriter r
                 = Some (w', opn, [StoreGet (Values_Get (Query r) ''state'')])
             \<and> StatusCode w' = 400
             \<and> rw_Body w'
                 = [Bytes (Sprintf e
                             (Sprintf e ''failed to get state data to transient store: %s'' [err])
                             [])]"
    by (simp add: writeErrorResponse_new StatusBadRequest_def)
qed

lemma demo_callback_unknown_state:
  "oidcCallbackHandler demo_env demo_op newResponseWriter demo_callback
     = Some (writeErrorResponse demo_env newResponseWriter StatusBadRequest
               ''failed to get state data to transient store: data not found'' [],
             demo_op, [StoreGet ''state-1''])"
proof -
  have q: "Values_Get (Query demo_callback) ''state'' = ''state-1''"
    "Values_Get (Query demo_callback) ''code'' = ''code1''"
    by (simp_all add: demo_callback_def Values_Get_def)
  have g: "store_Get demo_env (transientStore demo_op) ''state-1'' = Inl ''data not found''"
    by (simp add: demo_env_def demo_op_def mem_Get_def)
  have s: "Sprintf demo_env = fmt_Sprintf" by (simp add: demo_env_def)
  show ?thesis
    by (simp add: oidcCallbackHandler_lookup_failed q g s)
qed

theorem unknown_state_not_request_denied_counterexample:
  "(case oidcCallbackHandler demo_env demo_op newResponseWriter demo_callback of
      None \<Rightarrow> False
    | Some (w', op', tr) \<Rightarrow>
        StatusCode w' = 400
        \<and> rw_Body w' = [Bytes ''failed to get state data to transient store: data not found'']
        \<and> \<not> denied StatusUnauthorized errRequestDenied w')"
proof -
  have s: "Sprintf demo_env = fmt_Sprintf" by (simp add: demo_env_def)
  show ?thesis
    by (simp add: demo_callback_unknown_state writeErrorResponse_new denied_def s
        StatusBadRequest_def)
qed

lemma demo_continue_headers:
  "gnapHeader (demo_request\<lparr>Header := [(''Authorization'', [''GNAP nope''])]\<rparr>)"
  "tokHeader (demo_request\<lparr>Header := [(''Authorization'', [''GNAP nope''])]\<rparr>) ! 1 = ''nope''"
  by (simp_all add: gnapHeader_def tokHeader_def demo_request_def Values_Get_def strings_Trim_def)

theorem handle_failures_continue_and_callback_witness:
  "fst (authContinueHandler demo_env demo_op newResponseWriter
          (demo_request\<lparr>Header := [(''Authorization'', [''GNAP nope''])]\<rparr>))
     = fst (authContinueHandler demo_env (demo_op\<lparr>authHandler := 1\<rparr>) newResponseWriter
              (demo_request\<lparr>Header := [(''Authorization'', [''GNAP tok1''])]\<rparr>))
   \<and> denied StatusUnauthorized errRequestDenied
       (fst (authContinueHandler demo_env demo_op newResponseWriter
               (demo_request\<lparr>Header := [(''Authorization'', [''GNAP nope''])]\<rparr>)))
   \<and> (\<exists>w'. oidcCallbackHandler demo_env demo_op newResponseWriter demo_callback
              = Some (w', demo_op, [StoreGet ''state-1''])
          \<and> StatusCode w' = 400)"
proof -
  let ?r1 = "demo_request\<lparr>Header := [(''Authorization'', [''GNAP nope''])]\<rparr>"
  let ?r2 = "demo_request\<lparr>Header := [(''Authorization'', [''GNAP tok1''])]\<rparr>"
  have b: "Body ?r1 = Inr ''{}''" "Body ?r2 = Inr ''{}''" by (simp_all add: demo_request_def)
  have f1: "fst (HandleContinueRequest demo_env (authHandler demo_op) \<lparr>InteractRef = []\<rparr>
                   (tokHeader ?r1 ! 1) (httpsig_NewVerifier (?r1\<lparr>Body := Inr ''{}''\<rparr>)))
              = Inl ''unknown continuation token''"
    by (subst demo_continue_headers(2)) (simp add: demo_env_def)
  have f2: "fst (HandleContinueRequest demo_env (authHandler (demo_op\<lparr>authHandler := 1\<rparr>))
                   \<lparr>InteractRef = []\<rparr>
                   (tokHeader ?r2 ! 1) (httpsig_NewVerifier (?r2\<lparr>Body := Inr ''{}''\<rparr>)))
              = Inl ''unknown continuation token''"
    by (subst demo_gnapHeader(2)) (simp add: demo_env_def)
  have q: "Values_Get (Query demo_callback) ''state'' = ''state-1''"
    "Values_Get (Query demo_callback) ''code'' = ''code1''"
    by (simp_all add: demo_callback_def Values_Get_def)
  have g: "store_Get demo_env (transientStore demo_op) ''state-1'' = Inl ''data not found''"
    by (simp add: demo_env_def demo_op_def mem_Get_def)
  note inst = handle_failures_continue_and_callback
         [where ?req1.0 = ?r1 and ?req2.0 = ?r2 and ?e1.0 = demo_env and ?e2.0 = demo_env
            and ?opn1.0 = demo_op and ?opn2.0 = "demo_op\<lparr>authHandler := 1\<rparr>"
            and ?bytes1.0 = "''{}''" and ?bytes2.0 = "''{}''"
            and ?c1.0 = "\<lparr>InteractRef = []\<rparr>" and ?c2.0 = "\<lparr>InteractRef = []\<rparr>"
            and ?err1.0 = "''unknown continuation token''"
            and ?err2.0 = "''unknown continuation token''"
            and r = demo_callback and e = demo_env and opn = demo_op
            and err = "''data not found''"]
  from inst[THEN conjunct1, rule_format,
           OF conjI[OF demo_continue_headers(1) conjI[OF b(1) conjI[OF demo_Unmarshal_ContinueRequest
              conjI[OF f1 conjI[OF demo_gnapHeader(1) conjI[OF b(2)
                conjI[OF demo_Unmarshal_ContinueRequest f2]]]]]]]]
       inst[THEN conjunct2, rule_format, OF conjI[OF _ conjI[OF _ g[folded q(1)]]]] q
  show ?thesis by auto
qed


section \<open>The access_token member of an access request\<close>


lemma EqualFold_access_token [simp]:
  "EqualFold ''access_token'' ''access_token''"
  "\<not> EqualFold ''access_token'' ''client''" "\<not> EqualFold ''access_token'' ''interact''"
  by (simp_all add: EqualFold_def to_lower_def)

lemma decode_AuthRequest_object:
  "decode_AuthRequest cd (JObject ((''access_token'', JObject ms) # rest))
     = Inl ''json: cannot unmarshal into Go value of slice type''"
  by (simp add: decode_AuthRequest_def dec_field_def dec_slice_def)

lemma decode_AuthRequest_array:
  "decode_AuthRequest cd (JObject [(''access_token'', JArray xs)])
     = (case traverse (dec_ptr (dec_TokenRequest cd)) xs of
          Inl e \<Rightarrow> Inl e
        | Inr toks \<Rightarrow> Inr \<lparr>AccessToken = toks, Client = None, Interact = None\<rparr>)"
  by (simp add: decode_AuthRequest_def dec_field_def dec_slice_def split: sum.splits)

text \<open>
  What the code does with the \<open>access_token\<close> member: a single JSON object does not decode
  (\<open>json.Unmarshal\<close> reports a type error for the slice field); the array form decodes element
  by element, so the singleton array yields the one-element sequence; encoding writes an array
  with one entry per element when the sequence is not empty, and leaves the member out when it
  is empty.
\<close>

lemma access_token_must_be_array:
  "isl (decode_AuthRequest cd (JObject ((''access_token'', JObject ms) # rest)))
   \<and> (x \<noteq> JNull \<and> dec_TokenRequest cd x = Inr t \<longrightarrow>
        decode_AuthRequest cd (JObject [(''access_token'', JArray [x])])
          = Inr \<lparr>AccessToken = [Some t], Client = None, Interact = None\<rparr>)
   \<and> (\<exists>members. encode_AuthRequest cd r = JObject members
         \<and> (case map_of members ''access_token'' of
               None \<Rightarrow> AccessToken r = []
             | Some v \<Rightarrow> AccessToken r \<noteq> []
                 \<and> (\<exists>xs. v = JArray xs \<and> length xs = length (AccessToken r))))"
proof (intro conjI impI)
  show "isl (decode_AuthRequest cd (JObject ((''access_token'', JObject ms) # rest)))"
    by (simp add: decode_AuthRequest_object)
next
  assume a: "x \<noteq> JNull \<and> dec_TokenRequest cd x = Inr t"
  then have "dec_ptr (dec_TokenRequest cd) x = Inr (Some t)"
    by (cases x) (simp_all add: dec_ptr_def)
  then show "decode_AuthRequest cd (JObject [(''access_token'', JArray [x])])
          = Inr \<lparr>AccessToken = [Some t], Client = None, Interact = None\<rparr>"
    by (simp add: decode_AuthRequest_array)
next
  show "\<exists>members. encode_AuthRequest cd r = JObject members
         \<and> (case map_of members ''access_token'' of
               None \<Rightarrow> AccessToken r = []
             | Some v \<Rightarrow> AccessToken r \<noteq> []
                 \<and> (\<exists>xs. v = JArray xs \<and> length xs = length (AccessToken r)))"
    by (cases "Client r"; cases "Interact r") (simp_all add: encode_AuthRequest_def)
qed

text \<open>
  Claim C7 says that an \<open>AuthRequest\<close> whose \<open>access_token\<close> member is a single JSON object
  decodes to the same one-element sequence as the singleton array. On the code it does not:
  the request \<open>{"access_token": {"access": ["read"]}}\<close> is rejected with a type error, while
  \<open>{"access_token": [{"access": ["read"]}]}\<close> decodes to one token request.
\<close>

theorem single_access_token_object_rejected:
  "decode_AuthRequest demo_codec
     (JObject [(''access_token'', JObject [(''access'', JArray [JString ''read''])])])
     = Inl ''json: cannot unmarshal into Go value of slice type''
   \<and> decode_AuthRequest demo_codec
       (JObject [(''access_token'', JArray [JObject [(''access'', JArray [JString ''read''])]])])
     = Inr \<lparr>AccessToken = [Some \<lparr>tr_Access = [], tr_Label = [], tr_Flags = []\<rparr>],
            Client = None, Interact = None\<rparr>"
  by (simp add: decode_AuthRequest_object decode_AuthRequest_array dec_ptr_def demo_codec_def)

lemma demo_singleton_array_decodes:
  "JObject [(''access'', JArray [JString ''read''])] \<noteq> JNull
   \<and> decode_AuthRequest demo_codec
       (JObject [(''access_token'', JArray [JObject [(''access'', JArray [JString ''read''])]])])
     = Inr \<lparr>AccessToken = [Some \<lparr>tr_Access = [], tr_Label = [], tr_Flags = []\<rparr>],
            Client = None, Interact = None\<rparr>"
proof -
  have d: "dec_TokenRequest demo_codec (JObject [(''access'', JArray [JString ''read''])])
             = Inr \<lparr>tr_Access = [], tr_Label = [], tr_Flags = []\<rparr>"
    by (simp add: demo_codec_def)
  from access_token_must_be_array
         [where cd = demo_codec and x = "JObject [(''access'', JArray [JString ''read''])]"
            and t = "\<lparr>tr_Access = [], tr_Label = [], tr_Flags = []\<rparr>"] d
  show ?thesis by simp
qed


end
